theory Spec2Isabelle
  imports Main
begin

section \<open>Hotspot orchestration of thronetools: a shallow embedding\<close>

text \<open>
  The theory embeds the hotspot part of \<^verbatim>\<open>src/thronetools.py\<close>: the command runner
  (\<^verbatim>\<open>run_cmd\<close>, \<^verbatim>\<open>run_capture\<close>), the Wi-Fi interface resolver
  (\<^verbatim>\<open>detect_wifi_iface\<close>, \<^verbatim>\<open>find_linux_wifi_iface\<close>), the Linux enable and
  disable operations, the two places of the program that call them (the argument
  parser arm of \<^verbatim>\<open>main\<close> and the menu of \<^verbatim>\<open>main_linux\<close>), and the macOS enable and
  disable operations with their interface detection (\<^verbatim>\<open>detect_macos_wifi_iface\<close>).

  Modelling decisions.
  \<^item> A Python \<^verbatim>\<open>str\<close> is a HOL \<open>string\<close>, one \<open>char\<close> per code point, for code
    points below 256. The symbols of the message literals that lie outside that range
    (arrows, check marks, emoji) are written as their UTF-8 bytes; no function of the
    program inspects them.
  \<^item> The operating system is a record of response tables (\<open>env\<close>): what
    \<^verbatim>\<open>shutil.which\<close> finds, what a captured command returns, the exit code of a
    command that is run without capture, and which paths \<^verbatim>\<open>os.path.exists\<close> finds.
    One invocation issues each captured command at most once, so a table indexed by the
    command gives every behaviour one invocation can meet.
  \<^item> A command that is run without capture raises \<^verbatim>\<open>FileNotFoundError\<close> when its
    program is not found (\<open>spawns\<close>). For a captured command the table gives the
    completed process: the operations capture with programs they have looked for before
    (\<^verbatim>\<open>nmcli\<close>, \<^verbatim>\<open>iw\<close>, \<^verbatim>\<open>networksetup\<close>, the airport helper) or through \<^verbatim>\<open>sudo\<close>,
    and that such a query can be started is taken for granted.
  \<^item> Everything the program does to the outside is an \<open>event\<close> appended to the trace of
    the state: text written with \<^verbatim>\<open>typer.echo\<close>, a command executed through
    \<^verbatim>\<open>run_cmd\<close>, a command executed through \<^verbatim>\<open>run_capture\<close>, a prompt of
    \<^verbatim>\<open>input\<close> or \<^verbatim>\<open>getpass\<close>, the usage text of the argument parser.
  \<^item> \<^verbatim>\<open>sys_exit\<close>, the end of the input stream, a failed checked command and a command
    that cannot be started are values of the type \<open>error\<close>; an operation returns
    \<open>error + 'a\<close> and the new state.
\<close>

subsection \<open>Constants\<close>

definition LINUX_SSID :: string where "LINUX_SSID = ''thronetools''"
definition LINUX_TUN_IFACE :: string where "LINUX_TUN_IFACE = ''nekoray-tun''"
definition LINUX_NFT_TABLE :: string where "LINUX_NFT_TABLE = ''throne_hotspot''"
definition LINUX_REQUIRED_INET_TABLE :: string where "LINUX_REQUIRED_INET_TABLE = ''sing-box''"

definition ESC :: string where "ESC = [CHR 0x1B]"
definition GREEN :: string where "GREEN = ESC @ ''[0;32m''"
definition BLUE :: string where "BLUE = ESC @ ''[0;34m''"
definition YELLOW :: string where "YELLOW = ESC @ ''[1;33m''"
definition RED :: string where "RED = ESC @ ''[0;31m''"
definition NC :: string where "NC = ESC @ ''[0m''"
definition BOLD :: string where "BOLD = ESC @ ''[1m''"

text \<open>The symbols of the message literals, as UTF-8 bytes.\<close>

definition ARROW :: string where "ARROW = [CHR 0xE2, CHR 0x86, CHR 0x92]"
definition CHECK_MARK :: string where "CHECK_MARK = [CHR 0xE2, CHR 0x9C, CHR 0x85]"
definition CROSS_MARK :: string where "CROSS_MARK = [CHR 0xE2, CHR 0x9D, CHR 0x8C]"
definition WARNING_SIGN :: string where "WARNING_SIGN = [CHR 0xE2, CHR 0x9A, CHR 0xA0]"
definition HEAVY_CHECK :: string where "HEAVY_CHECK = [CHR 0xE2, CHR 0x9C, CHR 0x94]"
definition ROCKET :: string where "ROCKET = [CHR 0xF0, CHR 0x9F, CHR 0x9A, CHR 0x80]"
definition TEST_TUBE :: string where "TEST_TUBE = [CHR 0xF0, CHR 0x9F, CHR 0xA7, CHR 0xAA]"
definition LOCK :: string where "LOCK = [CHR 0xF0, CHR 0x9F, CHR 0x94, CHR 0x92]"

definition color :: "string \<Rightarrow> string \<Rightarrow> string" where
  "color text shade = shade @ text @ NC"

subsection \<open>String operations of Python used by the program\<close>

text \<open>\<^verbatim>\<open>str.isspace\<close> on one code point below 256.\<close>

definition isspace :: "char \<Rightarrow> bool" where
  "isspace c = (c = CHR 0x09 \<or> c = CHR 0x0A \<or> c = CHR 0x0B \<or> c = CHR 0x0C \<or> c = CHR 0x0D
     \<or> c = CHR 0x1C \<or> c = CHR 0x1D \<or> c = CHR 0x1E \<or> c = CHR 0x1F \<or> c = CHR 0x20
     \<or> c = CHR 0x85 \<or> c = CHR 0xA0)"

text \<open>The line boundaries of \<^verbatim>\<open>str.splitlines\<close> below 256 (CR LF is one boundary).\<close>

definition is_linebreak :: "char \<Rightarrow> bool" where
  "is_linebreak c = (c = CHR 0x0A \<or> c = CHR 0x0D \<or> c = CHR 0x0B \<or> c = CHR 0x0C
     \<or> c = CHR 0x1C \<or> c = CHR 0x1D \<or> c = CHR 0x1E \<or> c = CHR 0x85)"

text \<open>\<^verbatim>\<open>s.splitlines()\<close>; the first argument holds the current line, reversed.\<close>

fun splitlines_from :: "string \<Rightarrow> string \<Rightarrow> string list" where
  "splitlines_from acc [] = (if acc = [] then [] else [rev acc])"
| "splitlines_from acc [c] = (if is_linebreak c then [rev acc] else [rev (c # acc)])"
| "splitlines_from acc (c # d # cs) =
     (if c = CHR 0x0D \<and> d = CHR 0x0A then rev acc # splitlines_from [] cs
      else if is_linebreak c then rev acc # splitlines_from [] (d # cs)
      else splitlines_from (c # acc) (d # cs))"

definition splitlines :: "string \<Rightarrow> string list" where
  "splitlines s = splitlines_from [] s"

text \<open>\<^verbatim>\<open>s.split()\<close>: the maximal runs of non-whitespace characters.\<close>

fun split_ws_from :: "string \<Rightarrow> string \<Rightarrow> string list" where
  "split_ws_from acc [] = (if acc = [] then [] else [rev acc])"
| "split_ws_from acc (c # cs) =
     (if isspace c then (if acc = [] then split_ws_from [] cs else rev acc # split_ws_from [] cs)
      else split_ws_from (c # acc) cs)"

definition split_ws :: "string \<Rightarrow> string list" where
  "split_ws s = split_ws_from [] s"

text \<open>\<^verbatim>\<open>line.split(":", 1)\<close> on a line that contains a colon: the text before the first
  colon and the text after it.\<close>

definition split_colon1 :: "string \<Rightarrow> string \<times> string" where
  "split_colon1 line =
     (takeWhile (\<lambda>c. c \<noteq> CHR '':'') line, tl (dropWhile (\<lambda>c. c \<noteq> CHR '':'') line))"

text \<open>\<^verbatim>\<open>s.strip()\<close> and \<^verbatim>\<open>s.lower()\<close> (below 256: the ASCII capitals and the
  Latin-1 capitals 0xC0 to 0xDE without the multiplication sign).\<close>

definition strip :: "string \<Rightarrow> string" where
  "strip s = rev (dropWhile isspace (rev (dropWhile isspace s)))"

definition lower_char :: "char \<Rightarrow> char" where
  "lower_char c =
     (let n = (of_char c :: nat)
      in if (65 \<le> n \<and> n \<le> 90) \<or> (192 \<le> n \<and> n \<le> 222 \<and> n \<noteq> 215) then char_of (n + 32) else c)"

definition lower :: "string \<Rightarrow> string" where
  "lower s = map lower_char s"

text \<open>\<^verbatim>\<open>needle in hay\<close> for strings.\<close>

fun contains :: "string \<Rightarrow> string \<Rightarrow> bool" where
  "contains [] needle = (needle = [])"
| "contains (c # cs) needle = (take (length needle) (c # cs) = needle \<or> contains cs needle)"

text \<open>\<^verbatim>\<open>sep.join(words)\<close>.\<close>

fun join :: "string \<Rightarrow> string list \<Rightarrow> string" where
  "join sep [] = []"
| "join sep [w] = w"
| "join sep (w # v # ws) = w @ sep @ join sep (v # ws)"

text \<open>\<^verbatim>\<open>shlex.quote\<close>: a string of safe characters (ASCII letters, digits and
  \<^verbatim>\<open>_@%+=:,./-\<close>) is returned as it is; anything else is wrapped in single quotes,
  every single quote inside replaced by \<^verbatim>\<open>'"'"'\<close>.\<close>

definition safe_char :: "char \<Rightarrow> bool" where
  "safe_char c =
     (c \<in> set ''abcdefghijklmnopqrstuvwxyzABCDEFGHIJKLMNOPQRSTUVWXYZ0123456789_@%+=:,./-'')"

definition quote :: "string \<Rightarrow> string" where
  "quote s =
     (if s = [] then [CHR 0x27, CHR 0x27]
      else if list_all safe_char s then s
      else [CHR 0x27]
        @ concat (map (\<lambda>c. if c = CHR 0x27 then [CHR 0x27, CHR 0x22, CHR 0x27, CHR 0x22, CHR 0x27] else [c]) s)
        @ [CHR 0x27])"

text \<open>Truth value of an optional string argument: \<^verbatim>\<open>None\<close> and the empty string are
  false.\<close>

definition truthy :: "string option \<Rightarrow> bool" where
  "truthy x = (case x of None \<Rightarrow> False | Some v \<Rightarrow> v \<noteq> [])"

subsection \<open>Environment, events, state\<close>

datatype cmd = Argv "string list" | Shell string

record completed =
  returncode :: int
  stdout :: string

record env =
  which :: "string \<Rightarrow> bool"
  capture_out :: "string list \<Rightarrow> completed"
  run_rc :: "cmd \<Rightarrow> int"
  path_exists :: "string \<Rightarrow> bool"

datatype event =
    Echo string
  | Run cmd bool
  | Capture "string list"
  | Prompt string
  | Getpass string
  | PrintHelp

datatype error = SystemExit int | EOFError | CalledProcessError int | FileNotFoundError

record state =
  trace :: "event list"
  stdin :: "string list"
  tty :: "string list"

type_synonym 'a io = "state \<Rightarrow> (error + 'a) \<times> state"

definition emit :: "event \<Rightarrow> state \<Rightarrow> state" where
  "emit e s = s\<lparr>trace := trace s @ [e]\<rparr>"

definition bind :: "'a io \<Rightarrow> ('a \<Rightarrow> 'b io) \<Rightarrow> 'b io" where
  "bind m f s = (case m s of (Inl e, s') \<Rightarrow> (Inl e, s') | (Inr x, s') \<Rightarrow> f x s')"

definition seq :: "'a io \<Rightarrow> 'b io \<Rightarrow> 'b io" where
  "seq m k = bind m (\<lambda>_. k)"

definition return :: "'a \<Rightarrow> 'a io" where
  "return x s = (Inr x, s)"

definition echo :: "string \<Rightarrow> unit io" where
  "echo msg s = (Inr (), emit (Echo msg) s)"

definition sys_exit :: "int \<Rightarrow> 'a io" where
  "sys_exit n s = (Inl (SystemExit n), s)"

text \<open>\<^verbatim>\<open>input(prompt)\<close> reads the next line of standard input, \<^verbatim>\<open>getpass(prompt)\<close>
  the next line of the terminal; both raise \<^verbatim>\<open>EOFError\<close> at the end of the stream.\<close>

definition input :: "string \<Rightarrow> string io" where
  "input prompt s =
     (case stdin s of
        [] \<Rightarrow> (Inl EOFError, emit (Prompt prompt) s)
      | l # ls \<Rightarrow> (Inr l, (emit (Prompt prompt) s)\<lparr>stdin := ls\<rparr>))"

definition getpass :: "string \<Rightarrow> string io" where
  "getpass prompt s =
     (case tty s of
        [] \<Rightarrow> (Inl EOFError, emit (Getpass prompt) s)
      | l # ls \<Rightarrow> (Inr l, (emit (Getpass prompt) s)\<lparr>tty := ls\<rparr>))"

subsection \<open>Execution engine\<close>

definition cmd_text :: "cmd \<Rightarrow> string" where
  "cmd_text c = (case c of Argv ws \<Rightarrow> join '' '' ws | Shell t \<Rightarrow> t)"

text \<open>Whether \<^verbatim>\<open>subprocess.run\<close> can start a command. With \<^verbatim>\<open>shell=True\<close> the text is
  given to \<^verbatim>\<open>/bin/sh\<close>, which is there; a program missing inside the text is an exit code
  of the shell. Without a shell the program is the first word of the list (the whole text,
  for a string), looked up on the search path as \<^verbatim>\<open>shutil.which\<close> does.\<close>

definition spawns :: "env \<Rightarrow> cmd \<Rightarrow> bool \<Rightarrow> bool" where
  "spawns E c shell =
     (shell \<or> (case c of Argv ws \<Rightarrow> ws \<noteq> [] \<and> which E (hd ws) | Shell t \<Rightarrow> which E t))"

text \<open>\<^verbatim>\<open>subprocess.run(cmd, shell=shell, check=check)\<close>: it raises
  \<^verbatim>\<open>FileNotFoundError\<close> when the command cannot be started, whatever \<^verbatim>\<open>check\<close> is, and
  nothing is executed then.\<close>

definition run :: "env \<Rightarrow> cmd \<Rightarrow> bool \<Rightarrow> bool \<Rightarrow> completed io" where
  "run E c shell check s =
     (if \<not> spawns E c shell then (Inl FileNotFoundError, s)
      else
        let rc = run_rc E c; s' = emit (Run c shell) s
        in if check \<and> rc \<noteq> 0 then (Inl (CalledProcessError rc), s')
           else (Inr \<lparr>returncode = rc, stdout = []\<rparr>, s'))"

definition run_cmd :: "env \<Rightarrow> cmd \<Rightarrow> bool \<Rightarrow> bool \<Rightarrow> bool \<Rightarrow> completed io" where
  "run_cmd E c dry_run shell check =
     (if dry_run then
        seq (echo (color (ARROW @ '' '' @ cmd_text c) BLUE))
            (return \<lparr>returncode = 0, stdout = []\<rparr>)
      else run E c shell check)"

definition run_capture :: "env \<Rightarrow> string list \<Rightarrow> completed io" where
  "run_capture E ws s = (Inr (capture_out E ws), emit (Capture ws) s)"

subsection \<open>Interface resolver\<close>

definition nmcli_list_cmd :: "string list" where
  "nmcli_list_cmd = [''nmcli'', ''-t'', ''-f'', ''DEVICE,TYPE'', ''device'']"
definition nmcli_status_cmd :: "string list" where
  "nmcli_status_cmd = [''nmcli'', ''device'', ''status'']"

definition COMMAND_NOT_FOUND :: "string \<Rightarrow> string" where
  "COMMAND_NOT_FOUND c = color (CROSS_MARK @ '' '' @ [CHR 0x27] @ c @ [CHR 0x27]
     @ '' command not found. Please install it.'') RED"

definition ensure_linux_command :: "env \<Rightarrow> string \<Rightarrow> string option \<Rightarrow> bool io" where
  "ensure_linux_command E c hint =
     (if which E c then return True
      else seq (echo (COMMAND_NOT_FOUND c))
          (seq (if truthy hint then echo (the hint) else return ())
               (return False)))"

fun detect_wifi_iface_loop :: "string list \<Rightarrow> string" where
  "detect_wifi_iface_loop [] = ''''"
| "detect_wifi_iface_loop (line # rest) =
     (let parts = split_ws line
      in if length parts \<ge> 2 \<and> parts ! 1 = ''wifi'' then parts ! 0
         else detect_wifi_iface_loop rest)"

definition detect_wifi_iface :: "env \<Rightarrow> string io" where
  "detect_wifi_iface E =
     bind (run_capture E nmcli_status_cmd) (\<lambda>res.
       if returncode res \<noteq> 0 then return ''''
       else return (detect_wifi_iface_loop (splitlines (stdout res))))"

fun find_linux_wifi_iface_loop :: "string \<Rightarrow> string list \<Rightarrow> string" where
  "find_linux_wifi_iface_loop requested_iface [] = ''''"
| "find_linux_wifi_iface_loop requested_iface (line # rest) =
     (if CHR '':'' \<notin> set line then find_linux_wifi_iface_loop requested_iface rest
      else (case split_colon1 line of (device, dev_type) \<Rightarrow>
              if device = requested_iface \<and> dev_type = ''wifi'' then device
              else find_linux_wifi_iface_loop requested_iface rest))"

definition find_linux_wifi_iface :: "env \<Rightarrow> string option \<Rightarrow> string io" where
  "find_linux_wifi_iface E requested_iface =
     (if \<not> truthy requested_iface then detect_wifi_iface E
      else bind (run_capture E nmcli_list_cmd) (\<lambda>res.
             if returncode res \<noteq> 0 then return ''''
             else return (find_linux_wifi_iface_loop (the requested_iface) (splitlines (stdout res)))))"

subsection \<open>Linux hotspot: enable\<close>

definition DQ :: string where "DQ = [CHR 0x22]"
definition EM_DASH :: string where "EM_DASH = [CHR 0xE2, CHR 0x80, CHR 0x94]"

definition HINT_NMCLI :: string where
  "HINT_NMCLI = ''   Debian/Ubuntu: sudo apt install network-manager\<newline>   Fedora:        sudo dnf install NetworkManager\<newline>   Arch:          sudo pacman -S networkmanager''"
definition HINT_IW :: string where
  "HINT_IW = ''   Debian/Ubuntu: sudo apt install iw\<newline>   Fedora:        sudo dnf install iw\<newline>   Arch:          sudo pacman -S iw''"
definition HINT_NFT :: string where
  "HINT_NFT = ''   Debian/Ubuntu: sudo apt install nftables\<newline>   Fedora:        sudo dnf install nftables\<newline>   Arch:          sudo pacman -S nftables''"

definition DRY_RUN_PROMPT :: string where
  "DRY_RUN_PROMPT = ''Run in dry-run mode? (y/N): ''"
definition DRY_RUN_BANNER :: string where
  "DRY_RUN_BANNER = color (TEST_TUBE @ '' Running in dry-run mode '' @ EM_DASH @ '' no changes will be made.'') YELLOW"
definition PASSWORD_PROMPT :: string where
  "PASSWORD_PROMPT = ''\<newline>'' @ LOCK @ '' Enter hotspot password (min 8 chars): ''"
definition PASSWORD_TOO_SHORT :: string where
  "PASSWORD_TOO_SHORT = color (CROSS_MARK @ '' Password must be at least 8 characters.'') RED"
definition MISSING_TABLE :: string where
  "MISSING_TABLE = color (CROSS_MARK @ '' Missing '' @ [CHR 0x27] @ ''inet '' @ LINUX_REQUIRED_INET_TABLE
      @ [CHR 0x27] @ '' nftables table.'') RED"
definition TUN_MODE_HINT :: string where
  "TUN_MODE_HINT = ''   Please enable '' @ [CHR 0x27] @ ''Tun Mode'' @ [CHR 0x27]
      @ '' in Throne/NekoRay GUI settings.''"
definition IFACE_NOT_FOUND :: "string \<Rightarrow> string" where
  "IFACE_NOT_FOUND iface = color (CROSS_MARK @ '' Wi-Fi interface not found: '' @ iface) RED"
definition NO_WIFI_IFACE :: string where
  "NO_WIFI_IFACE = color (CROSS_MARK @ '' No Wi-Fi interface found. Exiting.'') RED"
definition ALREADY_ACTIVE :: "string \<Rightarrow> string" where
  "ALREADY_ACTIVE hotspot_iface = color (WARNING_SIGN @ '' A Wi-Fi hotspot is already active on ''
      @ hotspot_iface @ ''. Skipping creation.'') YELLOW"
definition CREATION_FAILED :: string where
  "CREATION_FAILED = color (CROSS_MARK @ '' Failed to start hotspot '' @ EM_DASH
      @ '' maybe AP mode is unsupported.'') RED"

text \<open>The lines \<^verbatim>\<open>if dry_run is None: ...\<close> that open each hotspot operation.\<close>

definition ask_dry_run :: "bool option \<Rightarrow> bool io" where
  "ask_dry_run dry_run =
     (case dry_run of
        None \<Rightarrow> bind (input DRY_RUN_PROMPT) (\<lambda>answer. return (lower (strip answer) = ''y''))
      | Some b \<Rightarrow> return b)"

text \<open>The loop \<^verbatim>\<open>while True: password = getpass(...)\<close>: it ends with the first
  answer of at least 8 characters, or with \<^verbatim>\<open>EOFError\<close> when the terminal has no more
  input.\<close>

function password_loop :: "string io" where
  "password_loop s =
     (case getpass PASSWORD_PROMPT s of
        (Inl e, s') \<Rightarrow> (Inl e, s')
      | (Inr password, s') \<Rightarrow>
          if length password \<ge> 8 then (Inr password, s')
          else password_loop (snd (echo PASSWORD_TOO_SHORT s')))"
  by pat_completeness auto
termination
  by (relation "measure (\<lambda>s. length (tty s))")
     (auto simp: getpass_def echo_def emit_def split: list.splits)

declare password_loop.simps [simp del]

text \<open>The commands of the program, as the source builds them.\<close>

definition table_probe_cmd :: "string list" where
  "table_probe_cmd = [''sudo'', ''nft'', ''list'', ''table'', ''inet'', LINUX_REQUIRED_INET_TABLE]"
definition radio_on_cmd :: "string list" where
  "radio_on_cmd = [''nmcli'', ''radio'', ''wifi'', ''on'']"
definition ap_probe_cmd :: "string \<Rightarrow> string list" where
  "ap_probe_cmd hotspot_iface = [''iw'', ''dev'', hotspot_iface, ''info'']"
definition creation_cmd :: "string \<Rightarrow> string \<Rightarrow> string \<Rightarrow> string list" where
  "creation_cmd hotspot_iface ssid password =
     [''nmcli'', ''dev'', ''wifi'', ''hotspot'', ''ifname'', hotspot_iface, ''ssid'', ssid,
      ''password'', password]"
definition creation_dry_text :: "string \<Rightarrow> string \<Rightarrow> string" where
  "creation_dry_text hotspot_iface ssid =
     color (ARROW @ '' nmcli dev wifi hotspot ifname '' @ DQ @ hotspot_iface @ DQ @ '' ssid '' @ DQ
       @ ssid @ DQ @ '' password '' @ DQ @ ''********'' @ DQ) BLUE"

definition nft_delete_table :: "string \<Rightarrow> string" where
  "nft_delete_table table = ''sudo nft delete table ip '' @ table @ '' 2>/dev/null || true''"
definition nft_add_table :: "string \<Rightarrow> string" where
  "nft_add_table table = ''sudo nft add table ip '' @ table"
definition nft_add_postrouting :: "string \<Rightarrow> string" where
  "nft_add_postrouting table = ''sudo nft add chain ip '' @ table
     @ '' postrouting { type nat hook postrouting priority srcnat; policy accept; }''"
definition nft_add_masquerade :: "string \<Rightarrow> string \<Rightarrow> string" where
  "nft_add_masquerade table tun_iface = ''sudo nft add rule ip '' @ table
     @ '' postrouting oifname '' @ DQ @ tun_iface @ DQ @ '' masquerade''"
definition nft_add_forward :: "string \<Rightarrow> string" where
  "nft_add_forward table = ''sudo nft add chain ip '' @ table
     @ '' forward { type filter hook forward priority filter; policy accept; }''"
definition nft_forward_out :: "string \<Rightarrow> string \<Rightarrow> string \<Rightarrow> string" where
  "nft_forward_out table hs_iface tun_iface = ''sudo nft add rule ip '' @ table
     @ '' forward iifname '' @ DQ @ hs_iface @ DQ @ '' oifname '' @ DQ @ tun_iface @ DQ @ '' accept''"
definition nft_forward_back :: "string \<Rightarrow> string \<Rightarrow> string \<Rightarrow> string" where
  "nft_forward_back table hs_iface tun_iface = ''sudo nft add rule ip '' @ table
     @ '' forward iifname '' @ DQ @ tun_iface @ DQ @ '' oifname '' @ DQ @ hs_iface @ DQ
     @ '' ct state established,related accept''"

definition STARTING_HOTSPOT :: string where
  "STARTING_HOTSPOT = color (CHECK_MARK @ '' Starting hotspot...'') GREEN"
definition ENABLING_WIFI :: string where
  "ENABLING_WIFI = color (CHECK_MARK @ '' Enabling Wi-Fi...'') GREEN"
definition SETTING_UP_RULES :: string where
  "SETTING_UP_RULES = color (CHECK_MARK @ '' Setting up nftables rules...'') GREEN"
definition HOTSPOT_READY :: string where
  "HOTSPOT_READY = color (HEAVY_CHECK @ '' Hotspot is ready and running!'') (GREEN @ BOLD)"
definition WIFI_INTERFACE :: "string \<Rightarrow> string" where
  "WIFI_INTERFACE hotspot_iface =
     color (CHECK_MARK @ '' Wi-Fi interface: '' @ BOLD @ hotspot_iface @ NC) GREEN"
definition ENABLE_TITLE :: string where
  "ENABLE_TITLE = color ''=== ENABLE HOTSPOT ==='' BLUE"
definition ENABLE_STARTING :: string where
  "ENABLE_STARTING = color (ROCKET @ '' Starting Throne Hotspot...'') GREEN"

text \<open>\<^verbatim>\<open>enable_hotspot_linux\<close> is embedded in four consecutive slices of its body; each
  slice ends by running the next one.

  Lines 557 to 605: the firewall rules and the closing report.\<close>

definition enable_hotspot_linux_finish ::
  "env \<Rightarrow> bool \<Rightarrow> string \<Rightarrow> string \<Rightarrow> string \<Rightarrow> unit io" where
  "enable_hotspot_linux_finish E dry_run hotspot_iface ssid password =
     seq (echo SETTING_UP_RULES)
    (bind (return (quote LINUX_NFT_TABLE)) (\<lambda>table.
     bind (return (quote LINUX_TUN_IFACE)) (\<lambda>tun_iface.
     bind (return (quote hotspot_iface)) (\<lambda>hs_iface.
     seq (run_cmd E (Shell (nft_delete_table table)) dry_run True False)
    (seq (run_cmd E (Shell (nft_add_table table)) dry_run True False)
    (seq (run_cmd E (Shell (nft_add_postrouting table)) dry_run True False)
    (seq (run_cmd E (Shell (nft_add_masquerade table tun_iface)) dry_run True False)
    (seq (run_cmd E (Shell (nft_add_forward table)) dry_run True False)
    (seq (run_cmd E (Shell (nft_forward_out table hs_iface tun_iface)) dry_run True False)
    (seq (run_cmd E (Shell (nft_forward_back table hs_iface tun_iface)) dry_run True False)
    (seq (echo '''')
    (seq (echo HOTSPOT_READY)
    (seq (echo (''SSID: '' @ ssid))
    (seq (echo (''Password: '' @ password))
         (echo '''')))))))))))))))"

text \<open>Lines 518 to 555: the password, the default SSID, the creation command.\<close>

definition enable_hotspot_linux_create ::
  "env \<Rightarrow> bool \<Rightarrow> string \<Rightarrow> string option \<Rightarrow> string option \<Rightarrow> unit io" where
  "enable_hotspot_linux_create E dry_run hotspot_iface ssid password =
     seq (echo STARTING_HOTSPOT)
    (bind (if \<not> truthy password then password_loop else return (the password)) (\<lambda>password.
     seq (if length password < 8 then seq (echo PASSWORD_TOO_SHORT) (sys_exit 1) else return ())
    (bind (return (if truthy ssid then the ssid else LINUX_SSID)) (\<lambda>ssid.
     seq (if dry_run then echo (creation_dry_text hotspot_iface ssid)
          else bind (run_capture E (creation_cmd hotspot_iface ssid password)) (\<lambda>res.
                 if returncode res \<noteq> 0 then seq (echo CREATION_FAILED) (sys_exit 1)
                 else return ()))
         (enable_hotspot_linux_finish E dry_run hotspot_iface ssid password)))))"

text \<open>Lines 474 to 516: the required tools, the interface, the required table, the radio,
  the probe for an access point that is already active.\<close>

definition enable_hotspot_linux_checks ::
  "env \<Rightarrow> bool \<Rightarrow> string option \<Rightarrow> string option \<Rightarrow> string option \<Rightarrow> unit io" where
  "enable_hotspot_linux_checks E dry_run iface ssid password =
     bind (ensure_linux_command E ''nmcli'' (Some HINT_NMCLI)) (\<lambda>ok. if \<not> ok then sys_exit 1 else
     bind (ensure_linux_command E ''iw'' (Some HINT_IW)) (\<lambda>ok. if \<not> ok then sys_exit 1 else
     bind (ensure_linux_command E ''nft'' (Some HINT_NFT)) (\<lambda>ok. if \<not> ok then sys_exit 1 else
     bind (find_linux_wifi_iface E iface) (\<lambda>hotspot_iface.
     seq (if hotspot_iface = [] then
            seq (if truthy iface then echo (IFACE_NOT_FOUND (the iface)) else echo NO_WIFI_IFACE)
                (sys_exit 1)
          else return ())
    (seq (echo (WIFI_INTERFACE hotspot_iface))
    (bind (run_capture E table_probe_cmd) (\<lambda>res.
     seq (if returncode res \<noteq> 0 then
            seq (echo MISSING_TABLE) (seq (echo TUN_MODE_HINT) (sys_exit 1))
          else return ())
    (seq (echo ENABLING_WIFI)
    (seq (run_cmd E (Argv radio_on_cmd) dry_run False False)
    (bind (run_capture E (ap_probe_cmd hotspot_iface)) (\<lambda>res.
     if returncode res = 0 \<and> contains (stdout res) ''type AP'' then
       echo (ALREADY_ACTIVE hotspot_iface)
     else enable_hotspot_linux_create E dry_run hotspot_iface ssid password)))))))))))"

text \<open>Lines 464 to 472: the title and the choice of the execution mode.\<close>

definition enable_hotspot_linux ::
  "env \<Rightarrow> bool option \<Rightarrow> string option \<Rightarrow> string option \<Rightarrow> string option \<Rightarrow> unit io" where
  "enable_hotspot_linux E dry_run iface ssid password =
     seq (echo ENABLE_TITLE)
    (seq (echo '''')
    (seq (echo ENABLE_STARTING)
    (bind (ask_dry_run dry_run) (\<lambda>dry_run.
     seq (if dry_run then echo DRY_RUN_BANNER else return ())
         (enable_hotspot_linux_checks E dry_run iface ssid password)))))"

subsection \<open>Linux hotspot: disable\<close>

definition DISABLE_TITLE :: string where
  "DISABLE_TITLE = color ''=== DISABLE HOTSPOT ==='' BLUE"
definition STOPPING_HOTSPOT :: string where
  "STOPPING_HOTSPOT = color (CHECK_MARK @ '' Stopping hotspot...'') GREEN"
definition REMOVING_TABLE :: string where
  "REMOVING_TABLE = color (CHECK_MARK @ '' Removing nftables table...'') GREEN"
definition HOTSPOT_STOPPED :: string where
  "HOTSPOT_STOPPED = color (HEAVY_CHECK @ '' Hotspot stopped and nftables rules removed.'') (GREEN @ BOLD)"
definition connection_down_cmd :: "string list" where
  "connection_down_cmd = [''nmcli'', ''connection'', ''down'', ''Hotspot'']"
definition connection_delete_cmd :: "string list" where
  "connection_delete_cmd = [''nmcli'', ''connection'', ''delete'', ''Hotspot'']"

definition disable_hotspot_linux :: "env \<Rightarrow> bool option \<Rightarrow> unit io" where
  "disable_hotspot_linux E dry_run =
     seq (echo DISABLE_TITLE)
    (seq (echo '''')
    (bind (ask_dry_run dry_run) (\<lambda>dry_run.
     seq (if dry_run then echo DRY_RUN_BANNER else return ())
    (seq (echo STOPPING_HOTSPOT)
    (seq (run_cmd E (Argv connection_down_cmd) dry_run False False)
    (seq (run_cmd E (Argv connection_delete_cmd) dry_run False False)
    (seq (echo REMOVING_TABLE)
    (seq (run_cmd E (Shell (nft_delete_table (quote LINUX_NFT_TABLE))) dry_run True False)
    (seq (echo '''')
    (seq (echo HOTSPOT_STOPPED)
         (echo '''')))))))))))"

subsection \<open>macOS hotspot\<close>

definition AIRPORT_TOOL :: string where
  "AIRPORT_TOOL = ''/System/Library/PrivateFrameworks/Apple80211.framework/Versions/Current/Resources/airport''"
definition SHARING_PLIST :: string where
  "SHARING_PLIST = ''/System/Library/LaunchDaemons/com.apple.InternetSharing.plist''"

definition MACOS_STARTING :: string where
  "MACOS_STARTING = color (ROCKET @ '' Starting Throne Hotspot (best-effort on macOS)...'') GREEN"
definition NETWORKSETUP_NOT_FOUND :: string where
  "NETWORKSETUP_NOT_FOUND = color (CROSS_MARK @ '' '' @ [CHR 0x27] @ ''networksetup'' @ [CHR 0x27]
     @ '' not found. macOS hotspot is unavailable.'') RED"
definition AIRPORT_NOT_FOUND :: string where
  "AIRPORT_NOT_FOUND = color (CROSS_MARK @ '' '' @ [CHR 0x27] @ ''airport'' @ [CHR 0x27]
     @ '' tool not found. macOS hotspot is unavailable.'') RED"
definition MACOS_IFACE_NOT_FOUND :: string where
  "MACOS_IFACE_NOT_FOUND = color (CROSS_MARK @ '' Wi-Fi interface not found on macOS.'') RED"
definition ATTEMPT_CREATE :: string where
  "ATTEMPT_CREATE = color (CHECK_MARK @ '' Attempting to create hotspot...'') GREEN"
definition AIRPORT_FAILED :: string where
  "AIRPORT_FAILED = color (WARNING_SIGN @ '' Failed to create hotspot via '' @ [CHR 0x27]
     @ ''airport'' @ [CHR 0x27] @ ''.'') YELLOW"
definition MANUAL_HINT :: string where
  "MANUAL_HINT = ''   macOS hotspot setup can require manual configuration.''"
definition ATTEMPT_SHARING_ON :: string where
  "ATTEMPT_SHARING_ON = color (CHECK_MARK @ '' Attempting to enable Internet Sharing...'') GREEN"
definition ATTEMPT_SHARING_OFF :: string where
  "ATTEMPT_SHARING_OFF = color (CHECK_MARK @ '' Attempting to disable Internet Sharing...'') GREEN"
definition PLIST_NOT_FOUND :: string where
  "PLIST_NOT_FOUND = color (WARNING_SIGN @ '' Internet Sharing plist not found.'') YELLOW"
definition MACOS_COMPLETED :: string where
  "MACOS_COMPLETED = color (HEAVY_CHECK @ '' Hotspot command completed (best-effort).'') (GREEN @ BOLD)"
definition MACOS_STOP_COMPLETED :: string where
  "MACOS_STOP_COMPLETED =
     color (HEAVY_CHECK @ '' Hotspot stop command completed (best-effort).'') (GREEN @ BOLD)"
definition MACOS_VERIFY :: string where
  "MACOS_VERIFY = ''Verify in System Settings '' @ ARROW @ '' General '' @ ARROW @ '' Sharing ''
     @ ARROW @ '' Internet Sharing.''"

definition hardware_ports_cmd :: "string list" where
  "hardware_ports_cmd = [''networksetup'', ''-listallhardwareports'']"
definition airport_power_cmd :: "string \<Rightarrow> string list" where
  "airport_power_cmd iface = [''networksetup'', ''-setairportpower'', iface, ''on'']"
definition airport_create_cmd :: "string \<Rightarrow> string \<Rightarrow> string list" where
  "airport_create_cmd ssid password = [AIRPORT_TOOL, ''--create'', ssid, password]"
definition sharing_load_cmd :: "string list" where
  "sharing_load_cmd = [''sudo'', ''launchctl'', ''load'', ''-w'', SHARING_PLIST]"
definition sharing_unload_cmd :: "string list" where
  "sharing_unload_cmd = [''sudo'', ''launchctl'', ''unload'', ''-w'', SHARING_PLIST]"

text \<open>\<^verbatim>\<open>s.startswith(prefix)\<close>.\<close>

definition startswith :: "string \<Rightarrow> string \<Rightarrow> bool" where
  "startswith s prefix = (take (length prefix) s = prefix)"

text \<open>The inner loop of \<^verbatim>\<open>detect_macos_wifi_iface\<close> over the two lines after a Wi-Fi
  hardware port; \<open>None\<close> when neither is a device line.\<close>

fun detect_macos_device :: "string list \<Rightarrow> string option" where
  "detect_macos_device [] = None"
| "detect_macos_device (next_line # rest) =
     (if startswith next_line ''Device:'' then Some (strip (snd (split_colon1 next_line)))
      else detect_macos_device rest)"

text \<open>The outer loop; \<open>rest\<close> holds the lines after the current one, so
  \<^verbatim>\<open>lines[idx + 1 : idx + 3]\<close> is \<open>take 2 rest\<close>.\<close>

fun detect_macos_wifi_iface_loop :: "string list \<Rightarrow> string" where
  "detect_macos_wifi_iface_loop [] = ''''"
| "detect_macos_wifi_iface_loop (line # rest) =
     (if startswith line ''Hardware Port:''
         \<and> lower (strip (snd (split_colon1 line))) \<in> {''wi-fi'', ''airport''}
      then (case detect_macos_device (take 2 rest) of
              Some device \<Rightarrow> device
            | None \<Rightarrow> detect_macos_wifi_iface_loop rest)
      else detect_macos_wifi_iface_loop rest)"

definition detect_macos_wifi_iface :: "env \<Rightarrow> string io" where
  "detect_macos_wifi_iface E =
     bind (run_capture E hardware_ports_cmd) (\<lambda>res.
       if returncode res \<noteq> 0 then return ''''
       else return (detect_macos_wifi_iface_loop (splitlines (stdout res))))"

text \<open>\<^verbatim>\<open>enable_hotspot_macos\<close>, in two slices. Lines 687 to 717: the radio, the creation
  command (whose failure is reported and not fatal), Internet Sharing, the closing
  report.\<close>

definition enable_hotspot_macos_create ::
  "env \<Rightarrow> bool \<Rightarrow> string \<Rightarrow> string \<Rightarrow> string \<Rightarrow> unit io" where
  "enable_hotspot_macos_create E dry_run iface ssid password =
     seq (echo ENABLING_WIFI)
    (seq (run_cmd E (Argv (airport_power_cmd iface)) dry_run False False)
    (seq (echo ATTEMPT_CREATE)
    (bind (if dry_run then
             seq (run_cmd E (Argv (airport_create_cmd ssid password)) True False False)
                 (return \<lparr>returncode = 0, stdout = []\<rparr>)
           else run_capture E (airport_create_cmd ssid password)) (\<lambda>res.
     seq (if returncode res \<noteq> 0 then seq (echo AIRPORT_FAILED) (echo MANUAL_HINT) else return ())
    (seq (if path_exists E SHARING_PLIST then
            seq (echo ATTEMPT_SHARING_ON)
           (seq (run_cmd E (Argv sharing_load_cmd) dry_run False False) (return ()))
          else echo PLIST_NOT_FOUND)
    (seq (echo '''')
    (seq (echo MACOS_COMPLETED)
    (seq (echo (''SSID: '' @ ssid))
    (seq (echo (''Password: '' @ password))
    (seq (echo MACOS_VERIFY)
         (echo '''')))))))))))"

text \<open>Lines 649 to 685: the title, the execution mode, the tools, the interface, the
  SSID and the password.\<close>

definition enable_hotspot_macos ::
  "env \<Rightarrow> bool option \<Rightarrow> string option \<Rightarrow> string option \<Rightarrow> string option \<Rightarrow> unit io" where
  "enable_hotspot_macos E dry_run iface ssid password =
     seq (echo ENABLE_TITLE)
    (seq (echo '''')
    (seq (echo MACOS_STARTING)
    (bind (ask_dry_run dry_run) (\<lambda>dry_run.
     seq (if dry_run then echo DRY_RUN_BANNER else return ())
    (seq (if \<not> which E ''networksetup'' then seq (echo NETWORKSETUP_NOT_FOUND) (sys_exit 1)
          else return ())
    (seq (if \<not> path_exists E AIRPORT_TOOL then seq (echo AIRPORT_NOT_FOUND) (sys_exit 1)
          else return ())
    (bind (if \<not> truthy iface then detect_macos_wifi_iface E else return (the iface)) (\<lambda>iface.
     seq (if iface = [] then seq (echo MACOS_IFACE_NOT_FOUND) (sys_exit 1) else return ())
    (bind (return (if truthy ssid then the ssid else LINUX_SSID)) (\<lambda>ssid.
     bind (if \<not> truthy password then password_loop else return (the password)) (\<lambda>password.
     seq (if length password < 8 then seq (echo PASSWORD_TOO_SHORT) (sys_exit 1) else return ())
         (enable_hotspot_macos_create E dry_run iface ssid password))))))))))))"

definition disable_hotspot_macos :: "env \<Rightarrow> bool option \<Rightarrow> unit io" where
  "disable_hotspot_macos E dry_run =
     seq (echo DISABLE_TITLE)
    (seq (echo '''')
    (bind (ask_dry_run dry_run) (\<lambda>dry_run.
     seq (if dry_run then echo DRY_RUN_BANNER else return ())
    (seq (if path_exists E SHARING_PLIST then
            seq (echo ATTEMPT_SHARING_OFF)
           (seq (run_cmd E (Argv sharing_unload_cmd) dry_run False False) (return ()))
          else echo PLIST_NOT_FOUND)
    (seq (echo '''')
    (seq (echo MACOS_STOP_COMPLETED)
         (echo '''')))))))"

subsection \<open>Callers: the argument parser arm and the menu\<close>

text \<open>The namespace \<^verbatim>\<open>argparse\<close> returns for \<^verbatim>\<open>hotspot enable\<close> and
  \<^verbatim>\<open>hotspot disable\<close>. \<^verbatim>\<open>--dry-run\<close> is declared with \<^verbatim>\<open>action="store_true"\<close>, so
  the attribute is a boolean, \<^verbatim>\<open>False\<close> when the flag is absent; the other options are
  \<^verbatim>\<open>None\<close> when absent.\<close>

record hotspot_args =
  hotspot_command :: "string option"
  arg_dry_run :: bool
  arg_iface :: "string option"
  arg_ssid :: "string option"
  arg_password :: "string option"

text \<open>\<^verbatim>\<open>main\<close>, on Linux, for \<^verbatim>\<open>args.command == "hotspot"\<close>.\<close>

definition main_hotspot_linux :: "env \<Rightarrow> hotspot_args \<Rightarrow> unit io" where
  "main_hotspot_linux E a =
     (if hotspot_command a = Some ''enable'' then
        enable_hotspot_linux E (Some (arg_dry_run a)) (arg_iface a) (arg_ssid a) (arg_password a)
      else if hotspot_command a = Some ''disable'' then
        disable_hotspot_linux E (Some (arg_dry_run a))
      else (\<lambda>s. (Inr (), emit PrintHelp s)))"

text \<open>\<^verbatim>\<open>main_linux\<close>, the entries 5 and 6 of the interactive menu.\<close>

definition main_linux_choice5 :: "env \<Rightarrow> unit io" where
  "main_linux_choice5 E = enable_hotspot_linux E None None None None"

definition main_linux_choice6 :: "env \<Rightarrow> unit io" where
  "main_linux_choice6 E = disable_hotspot_linux E None"

subsection \<open>Observations on a run\<close>

text \<open>The state a program starts in: nothing done yet, no input waiting.\<close>

definition s0 :: state where
  "s0 = \<lparr>trace = [], stdin = [], tty = []\<rparr>"

text \<open>The external commands of a trace, in the order they were executed.\<close>

fun executed :: "event list \<Rightarrow> cmd list" where
  "executed [] = []"
| "executed (Run c shell # es) = c # executed es"
| "executed (Capture ws # es) = Argv ws # executed es"
| "executed (e # es) = executed es"

text \<open>The text written to the terminal, in order.\<close>

fun echoed :: "event list \<Rightarrow> string list" where
  "echoed [] = []"
| "echoed (Echo t # es) = t # echoed es"
| "echoed (e # es) = echoed es"

text \<open>The read-only queries of the external interfaces: the two device listings, the
  probe of the required table, the mode probe of an interface, the listing of the hardware
  ports.\<close>

definition read_only_query :: "string list \<Rightarrow> bool" where
  "read_only_query ws =
     (ws = nmcli_status_cmd \<or> ws = nmcli_list_cmd \<or> ws = table_probe_cmd
      \<or> (length ws = 4 \<and> ws = ap_probe_cmd (ws ! 2)) \<or> ws = hardware_ports_cmd)"

text \<open>An event that changes the system: any command executed through \<open>run\<close>, and a
  captured command that is not a read-only query.\<close>

fun mutating :: "event \<Rightarrow> bool" where
  "mutating (Run c shell) = True"
| "mutating (Capture ws) = (\<not> read_only_query ws)"
| "mutating e = False"

text \<open>The firewall commands of the enable operation for a hotspot interface, in the
  order delete table, add table, add postrouting chain, add masquerade rule, add forward
  chain, forward rule towards the tunnel, forward rule back.\<close>

definition firewall_cmds :: "string \<Rightarrow> cmd list" where
  "firewall_cmds hotspot_iface =
     [Shell (nft_delete_table (quote LINUX_NFT_TABLE)),
      Shell (nft_add_table (quote LINUX_NFT_TABLE)),
      Shell (nft_add_postrouting (quote LINUX_NFT_TABLE)),
      Shell (nft_add_masquerade (quote LINUX_NFT_TABLE) (quote LINUX_TUN_IFACE)),
      Shell (nft_add_forward (quote LINUX_NFT_TABLE)),
      Shell (nft_forward_out (quote LINUX_NFT_TABLE) (quote hotspot_iface) (quote LINUX_TUN_IFACE)),
      Shell (nft_forward_back (quote LINUX_NFT_TABLE) (quote hotspot_iface) (quote LINUX_TUN_IFACE))]"

text \<open>A firewall command is a shell command of the firewall rule tool that changes the
  rule set; a creation command is the hotspot command of the network manager.\<close>

definition is_firewall_cmd :: "cmd \<Rightarrow> bool" where
  "is_firewall_cmd c = (case c of Shell t \<Rightarrow> take 9 t = ''sudo nft '' | Argv ws \<Rightarrow> False)"

definition is_creation_cmd :: "cmd \<Rightarrow> bool" where
  "is_creation_cmd c =
     (case c of Argv ws \<Rightarrow> take 4 ws = [''nmcli'', ''dev'', ''wifi'', ''hotspot''] | Shell t \<Rightarrow> False)"

subsection \<open>The runs in closed form\<close>

text \<open>For the proofs, every operation is given a closed form: a pure function from the
  arguments, the environment and the waiting input to the outcome, the events the run
  appends to the trace and the input left over. The lemmas of the next section prove that
  the operations compute exactly these.\<close>

definition emits :: "event list \<Rightarrow> state \<Rightarrow> state" where
  "emits es s = s\<lparr>trace := trace s @ es\<rparr>"

definition dry_echo :: "cmd \<Rightarrow> event" where
  "dry_echo c = Echo (color (ARROW @ '' '' @ cmd_text c) BLUE)"

definition issue :: "bool \<Rightarrow> bool \<Rightarrow> cmd \<Rightarrow> event" where
  "issue dry_run shell c = (if dry_run then dry_echo c else Run c shell)"

definition resolved :: "env \<Rightarrow> string option \<Rightarrow> string" where
  "resolved E iface = (case fst (find_linux_wifi_iface E iface s0) of Inr r \<Rightarrow> r | Inl e \<Rightarrow> [])"

definition resolve_cmd :: "string option \<Rightarrow> string list" where
  "resolve_cmd iface = (if truthy iface then nmcli_list_cmd else nmcli_status_cmd)"

fun loop_events :: "string list \<Rightarrow> event list" where
  "loop_events [] = [Getpass PASSWORD_PROMPT]"
| "loop_events (p # ps) =
     Getpass PASSWORD_PROMPT # (if length p \<ge> 8 then [] else Echo PASSWORD_TOO_SHORT # loop_events ps)"

fun loop_result :: "string list \<Rightarrow> error + string" where
  "loop_result [] = Inl EOFError"
| "loop_result (p # ps) = (if length p \<ge> 8 then Inr p else loop_result ps)"

fun loop_rest :: "string list \<Rightarrow> string list" where
  "loop_rest [] = []"
| "loop_rest (p # ps) = (if length p \<ge> 8 then ps else loop_rest ps)"

definition finish_events :: "bool \<Rightarrow> string \<Rightarrow> string \<Rightarrow> string \<Rightarrow> event list" where
  "finish_events d h ss p =
     Echo SETTING_UP_RULES # map (issue d True) (firewall_cmds h)
       @ [Echo '''', Echo HOTSPOT_READY, Echo (''SSID: '' @ ss), Echo (''Password: '' @ p), Echo '''']"

definition create_nf ::
  "env \<Rightarrow> bool \<Rightarrow> string \<Rightarrow> string option \<Rightarrow> string option \<Rightarrow> string list
     \<Rightarrow> (error + unit) \<times> event list \<times> string list" where
  "create_nf E d h ssid password ttys =
     (let pre = Echo STARTING_HOTSPOT # (if truthy password then [] else loop_events ttys);
          t = (if truthy password then ttys else loop_rest ttys);
          ss = (if truthy ssid then the ssid else LINUX_SSID)
      in case (if truthy password then Inr (the password) else loop_result ttys) of
           Inl e \<Rightarrow> (Inl e, pre, t)
         | Inr p \<Rightarrow>
             if length p < 8 then (Inl (SystemExit 1), pre @ [Echo PASSWORD_TOO_SHORT], t)
             else if d then (Inr (), pre @ Echo (creation_dry_text h ss) # finish_events d h ss p, t)
             else if returncode (capture_out E (creation_cmd h ss p)) \<noteq> 0
               then (Inl (SystemExit 1), pre @ [Capture (creation_cmd h ss p), Echo CREATION_FAILED], t)
             else (Inr (), pre @ Capture (creation_cmd h ss p) # finish_events d h ss p, t))"

definition checks_nf ::
  "env \<Rightarrow> bool \<Rightarrow> string option \<Rightarrow> string option \<Rightarrow> string option \<Rightarrow> string list
     \<Rightarrow> (error + unit) \<times> event list \<times> string list" where
  "checks_nf E d iface ssid password ttys =
     (if \<not> which E ''nmcli'' then
        (Inl (SystemExit 1), [Echo (COMMAND_NOT_FOUND ''nmcli''), Echo HINT_NMCLI], ttys)
      else if \<not> which E ''iw'' then
        (Inl (SystemExit 1), [Echo (COMMAND_NOT_FOUND ''iw''), Echo HINT_IW], ttys)
      else if \<not> which E ''nft'' then
        (Inl (SystemExit 1), [Echo (COMMAND_NOT_FOUND ''nft''), Echo HINT_NFT], ttys)
      else
        let h = resolved E iface in
        if h = [] then
          (Inl (SystemExit 1),
           [Capture (resolve_cmd iface),
            Echo (if truthy iface then IFACE_NOT_FOUND (the iface) else NO_WIFI_IFACE)], ttys)
        else if returncode (capture_out E table_probe_cmd) \<noteq> 0 then
          (Inl (SystemExit 1),
           [Capture (resolve_cmd iface), Echo (WIFI_INTERFACE h), Capture table_probe_cmd,
            Echo MISSING_TABLE, Echo TUN_MODE_HINT], ttys)
        else
          let pre = [Capture (resolve_cmd iface), Echo (WIFI_INTERFACE h), Capture table_probe_cmd,
                     Echo ENABLING_WIFI, issue d False (Argv radio_on_cmd), Capture (ap_probe_cmd h)]
          in if returncode (capture_out E (ap_probe_cmd h)) = 0
                \<and> contains (stdout (capture_out E (ap_probe_cmd h))) ''type AP''
             then (Inr (), pre @ [Echo (ALREADY_ACTIVE h)], ttys)
             else (case create_nf E d h ssid password ttys of (r, es, t) \<Rightarrow> (r, pre @ es, t)))"

definition title_events :: "string \<Rightarrow> event list" where
  "title_events title = [Echo title, Echo '''']"

definition banner_events :: "bool \<Rightarrow> event list" where
  "banner_events d = (if d then [Echo DRY_RUN_BANNER] else [])"

definition enable_nf ::
  "env \<Rightarrow> bool option \<Rightarrow> string option \<Rightarrow> string option \<Rightarrow> string option \<Rightarrow> string list
     \<Rightarrow> string list \<Rightarrow> (error + unit) \<times> event list \<times> string list \<times> string list" where
  "enable_nf E dry_run iface ssid password ins ttys =
     (case dry_run of
        Some d \<Rightarrow>
          (case checks_nf E d iface ssid password ttys of (r, es, t) \<Rightarrow>
             (r, title_events ENABLE_TITLE @ Echo ENABLE_STARTING # banner_events d @ es, ins, t))
      | None \<Rightarrow>
          (case ins of
             [] \<Rightarrow> (Inl EOFError,
                    title_events ENABLE_TITLE @ [Echo ENABLE_STARTING, Prompt DRY_RUN_PROMPT], [], ttys)
           | a # rest \<Rightarrow>
               (case checks_nf E (lower (strip a) = ''y'') iface ssid password ttys of (r, es, t) \<Rightarrow>
                  (r, title_events ENABLE_TITLE @ Echo ENABLE_STARTING # Prompt DRY_RUN_PROMPT
                        # banner_events (lower (strip a) = ''y'') @ es, rest, t))))"

text \<open>The disable operation issues its first command through \<^verbatim>\<open>nmcli\<close> without having
  looked for it: in real execution the run ends there when the program is not found.\<close>

definition disable_result :: "env \<Rightarrow> bool \<Rightarrow> error + unit" where
  "disable_result E d = (if d \<or> which E ''nmcli'' then Inr () else Inl FileNotFoundError)"

definition disable_events :: "env \<Rightarrow> bool \<Rightarrow> event list" where
  "disable_events E d =
     banner_events d @
     (if d \<or> which E ''nmcli'' then
        [Echo STOPPING_HOTSPOT, issue d False (Argv connection_down_cmd),
         issue d False (Argv connection_delete_cmd), Echo REMOVING_TABLE,
         issue d True (Shell (nft_delete_table (quote LINUX_NFT_TABLE))),
         Echo '''', Echo HOTSPOT_STOPPED, Echo '''']
      else [Echo STOPPING_HOTSPOT])"

definition disable_nf ::
  "env \<Rightarrow> bool option \<Rightarrow> string list \<Rightarrow> (error + unit) \<times> event list \<times> string list" where
  "disable_nf E dry_run ins =
     (case dry_run of
        Some d \<Rightarrow> (disable_result E d, title_events DISABLE_TITLE @ disable_events E d, ins)
      | None \<Rightarrow>
          (case ins of
             [] \<Rightarrow> (Inl EOFError, title_events DISABLE_TITLE @ [Prompt DRY_RUN_PROMPT], [])
           | a # rest \<Rightarrow>
               (disable_result E (lower (strip a) = ''y''),
                title_events DISABLE_TITLE @ Prompt DRY_RUN_PROMPT
                  # disable_events E (lower (strip a) = ''y''), rest)))"

definition start :: "string list \<Rightarrow> string list \<Rightarrow> state" where
  "start ins ttys = \<lparr>trace = [], stdin = ins, tty = ttys\<rparr>"

text \<open>A line of the device-status listing reports a device of type wifi when its second
  column is \<^verbatim>\<open>wifi\<close>; the device is the first column.\<close>

definition wifi_line :: "string \<Rightarrow> bool" where
  "wifi_line l = (case split_ws l of d # t # rest \<Rightarrow> t = ''wifi'' | _ \<Rightarrow> False)"

definition device_of :: "string \<Rightarrow> string" where
  "device_of l = (case split_ws l of d # rest \<Rightarrow> d | [] \<Rightarrow> [])"

text \<open>The questions asked through \<^verbatim>\<open>input\<close>, in order.\<close>

fun asked :: "event list \<Rightarrow> string list" where
  "asked [] = []"
| "asked (Prompt t # es) = t # asked es"
| "asked (e # es) = asked es"

text \<open>The namespaces of \<^verbatim>\<open>hotspot enable --password abcdefgh\<close> and of
  \<^verbatim>\<open>hotspot disable\<close>, both without \<^verbatim>\<open>--dry-run\<close>.\<close>

definition args_enable :: hotspot_args where
  "args_enable = \<lparr>hotspot_command = Some ''enable'', arg_dry_run = False, arg_iface = None,
     arg_ssid = None, arg_password = Some ''abcdefgh''\<rparr>"

definition args_disable :: hotspot_args where
  "args_disable = \<lparr>hotspot_command = Some ''disable'', arg_dry_run = False, arg_iface = None,
     arg_ssid = None, arg_password = None\<rparr>"

text \<open>Two events agree up to the closing line that reports the password.\<close>

definition same_but_password :: "string \<Rightarrow> string \<Rightarrow> event \<Rightarrow> event \<Rightarrow> bool" where
  "same_but_password p q e f =
     (e = f \<or> (e = Echo (''Password: '' @ p) \<and> f = Echo (''Password: '' @ q)))"

text \<open>The macOS operations in closed form, for an execution mode given by the caller.\<close>

definition macos_detected :: "env \<Rightarrow> string" where
  "macos_detected E =
     (if returncode (capture_out E hardware_ports_cmd) \<noteq> 0 then ''''
      else detect_macos_wifi_iface_loop (splitlines (stdout (capture_out E hardware_ports_cmd))))"

text \<open>Internet Sharing is toggled through \<^verbatim>\<open>sudo\<close>, which the operations do not look for:
  in real execution the run ends there when the descriptor exists and \<^verbatim>\<open>sudo\<close> is not
  found.\<close>

definition macos_sharing_runs :: "env \<Rightarrow> bool \<Rightarrow> bool" where
  "macos_sharing_runs E d = (d \<or> \<not> path_exists E SHARING_PLIST \<or> which E ''sudo'')"

definition macos_sharing_result :: "env \<Rightarrow> bool \<Rightarrow> error + unit" where
  "macos_sharing_result E d = (if macos_sharing_runs E d then Inr () else Inl FileNotFoundError)"

definition macos_sharing_events :: "env \<Rightarrow> bool \<Rightarrow> string \<Rightarrow> string list \<Rightarrow> event list" where
  "macos_sharing_events E d attempt ws =
     (if path_exists E SHARING_PLIST then
        Echo attempt # (if d \<or> which E ''sudo'' then [issue d False (Argv ws)] else [])
      else [Echo PLIST_NOT_FOUND])"

definition macos_create_events :: "env \<Rightarrow> bool \<Rightarrow> string \<Rightarrow> string \<Rightarrow> string \<Rightarrow> event list" where
  "macos_create_events E d h ss p =
     [Echo ENABLING_WIFI, issue d False (Argv (airport_power_cmd h)), Echo ATTEMPT_CREATE]
     @ (if d then [dry_echo (Argv (airport_create_cmd ss p))]
        else Capture (airport_create_cmd ss p)
               # (if returncode (capture_out E (airport_create_cmd ss p)) \<noteq> 0
                  then [Echo AIRPORT_FAILED, Echo MANUAL_HINT] else []))
     @ macos_sharing_events E d ATTEMPT_SHARING_ON sharing_load_cmd
     @ (if macos_sharing_runs E d then
          [Echo '''', Echo MACOS_COMPLETED, Echo (''SSID: '' @ ss), Echo (''Password: '' @ p),
           Echo MACOS_VERIFY, Echo '''']
        else [])"

definition macos_nf ::
  "env \<Rightarrow> bool \<Rightarrow> string option \<Rightarrow> string option \<Rightarrow> string option \<Rightarrow> string list
     \<Rightarrow> (error + unit) \<times> event list \<times> string list" where
  "macos_nf E d iface ssid password ttys =
     (if \<not> which E ''networksetup'' then
        (Inl (SystemExit 1), [Echo NETWORKSETUP_NOT_FOUND], ttys)
      else if \<not> path_exists E AIRPORT_TOOL then
        (Inl (SystemExit 1), [Echo AIRPORT_NOT_FOUND], ttys)
      else
        let h = (if truthy iface then the iface else macos_detected E);
            q = (if truthy iface then [] else [Capture hardware_ports_cmd])
        in if h = [] then (Inl (SystemExit 1), q @ [Echo MACOS_IFACE_NOT_FOUND], ttys)
           else
             let pre = q @ (if truthy password then [] else loop_events ttys);
                 t = (if truthy password then ttys else loop_rest ttys);
                 ss = (if truthy ssid then the ssid else LINUX_SSID)
             in case (if truthy password then Inr (the password) else loop_result ttys) of
                  Inl e \<Rightarrow> (Inl e, pre, t)
                | Inr p \<Rightarrow>
                    if length p < 8 then (Inl (SystemExit 1), pre @ [Echo PASSWORD_TOO_SHORT], t)
                    else (macos_sharing_result E d, pre @ macos_create_events E d h ss p, t))"

definition macos_enable_nf ::
  "env \<Rightarrow> bool \<Rightarrow> string option \<Rightarrow> string option \<Rightarrow> string option \<Rightarrow> string list
     \<Rightarrow> (error + unit) \<times> event list \<times> string list" where
  "macos_enable_nf E d iface ssid password ttys =
     (case macos_nf E d iface ssid password ttys of (r, es, t) \<Rightarrow>
        (r, title_events ENABLE_TITLE @ Echo MACOS_STARTING # banner_events d @ es, t))"

definition macos_disable_events :: "env \<Rightarrow> bool \<Rightarrow> event list" where
  "macos_disable_events E d =
     title_events DISABLE_TITLE @ banner_events d
     @ macos_sharing_events E d ATTEMPT_SHARING_OFF sharing_unload_cmd
     @ (if macos_sharing_runs E d then [Echo '''', Echo MACOS_STOP_COMPLETED, Echo ''''] else [])"

text \<open>What a dry run shows in the place of an event of a real run: the line the command
  runner prints for a command it does not execute; for the hotspot creation command of
  the network manager, the line with the password masked; a read-only query is
  executed in both modes, and everything else is the same event.\<close>

fun dry_view :: "event \<Rightarrow> event" where
  "dry_view (Run c shell) = dry_echo c"
| "dry_view (Capture ws) =
     (if read_only_query ws then Capture ws
      else if is_creation_cmd (Argv ws) then Echo (creation_dry_text (ws ! 5) (ws ! 7))
      else dry_echo (Argv ws))"
| "dry_view e = e"

text \<open>The dry-run notice, which a dry run prints after the first \<open>k\<close> lines.\<close>

definition with_banner :: "nat \<Rightarrow> event list \<Rightarrow> event list" where
  "with_banner k es = take k es @ Echo DRY_RUN_BANNER # drop k es"

text \<open>A run met a failure of a command that changes the system and whose exit code the
  program reads: a captured command that is not a read-only query and returned non-zero.\<close>

fun failed_mutation :: "env \<Rightarrow> event list \<Rightarrow> bool" where
  "failed_mutation E [] = False"
| "failed_mutation E (Capture ws # es) =
     ((\<not> read_only_query ws \<and> returncode (capture_out E ws) \<noteq> 0) \<or> failed_mutation E es)"
| "failed_mutation E (e # es) = failed_mutation E es"

text \<open>The Linux enable operation gets as far as the password: the tools are there, an
  interface is resolved, the required table exists, and no access point is active on the
  interface.\<close>

definition reaches_creation :: "env \<Rightarrow> string option \<Rightarrow> bool" where
  "reaches_creation E iface =
     (which E ''nmcli'' \<and> which E ''iw'' \<and> which E ''nft'' \<and> resolved E iface \<noteq> []
      \<and> returncode (capture_out E table_probe_cmd) = 0
      \<and> \<not> (returncode (capture_out E (ap_probe_cmd (resolved E iface))) = 0
           \<and> contains (stdout (capture_out E (ap_probe_cmd (resolved E iface)))) ''type AP''))"

subsection \<open>Example environments\<close>

definition env_home :: env where
  "env_home =
     \<lparr>which = (\<lambda>c. True),
      capture_out = (\<lambda>ws.
        if ws = [''nmcli'', ''device'', ''status''] then
          \<lparr>returncode = 0,
           stdout = ''DEVICE  TYPE      STATE      CONNECTION\<newline>eth0    ethernet  connected  wired\<newline>wlan0   wifi      connected  home\<newline>''\<rparr>
        else if ws = [''nmcli'', ''-t'', ''-f'', ''DEVICE,TYPE'', ''device''] then
          \<lparr>returncode = 0, stdout = ''wlan0:wifi\<newline>eth0:ethernet\<newline>''\<rparr>
        else if ws = [''iw'', ''dev'', ''wlan0'', ''info''] then
          \<lparr>returncode = 0, stdout = ''Interface wlan0\<newline>  type managed\<newline>''\<rparr>
        else \<lparr>returncode = 0, stdout = ''''\<rparr>),
      run_rc = (\<lambda>c. 0),
      path_exists = (\<lambda>p. False)\<rparr>"

definition env_ap :: env where
  "env_ap =
     \<lparr>which = (\<lambda>c. True),
      capture_out = (\<lambda>ws.
        if ws = [''nmcli'', ''device'', ''status''] then
          \<lparr>returncode = 0,
           stdout = ''DEVICE  TYPE      STATE      CONNECTION\<newline>wlan0   wifi      connected  Hotspot\<newline>''\<rparr>
        else if ws = [''iw'', ''dev'', ''wlan0'', ''info''] then
          \<lparr>returncode = 0, stdout = ''Interface wlan0\<newline>  type AP\<newline>''\<rparr>
        else \<lparr>returncode = 0, stdout = ''''\<rparr>),
      run_rc = (\<lambda>c. 0),
      path_exists = (\<lambda>p. False)\<rparr>"

definition env_probe_fails :: env where
  "env_probe_fails =
     \<lparr>which = (\<lambda>c. True),
      capture_out = (\<lambda>ws.
        if ws = [''nmcli'', ''device'', ''status''] then
          \<lparr>returncode = 0,
           stdout = ''DEVICE  TYPE      STATE      CONNECTION\<newline>wlan0   wifi      connected  home\<newline>''\<rparr>
        else if ws = [''iw'', ''dev'', ''wlan0'', ''info''] then
          \<lparr>returncode = 237, stdout = ''''\<rparr>
        else \<lparr>returncode = 0, stdout = ''''\<rparr>),
      run_rc = (\<lambda>c. 0),
      path_exists = (\<lambda>p. False)\<rparr>"

definition env_no_table :: env where
  "env_no_table =
     \<lparr>which = (\<lambda>c. True),
      capture_out = (\<lambda>ws.
        if ws = [''nmcli'', ''device'', ''status''] then
          \<lparr>returncode = 0,
           stdout = ''DEVICE  TYPE      STATE      CONNECTION\<newline>wlan0   wifi      connected  home\<newline>''\<rparr>
        else if ws = [''sudo'', ''nft'', ''list'', ''table'', ''inet'', ''sing-box''] then
          \<lparr>returncode = 1, stdout = ''''\<rparr>
        else \<lparr>returncode = 0, stdout = ''''\<rparr>),
      run_rc = (\<lambda>c. 0),
      path_exists = (\<lambda>p. False)\<rparr>"

definition env_nothing :: env where
  "env_nothing =
     \<lparr>which = (\<lambda>c. True),
      capture_out = (\<lambda>ws. \<lparr>returncode = 1, stdout = ''''\<rparr>),
      run_rc = (\<lambda>c. 1),
      path_exists = (\<lambda>p. False)\<rparr>"

text \<open>The machine of \<open>env_home\<close> when the network manager refuses to create the hotspot,
  and a macOS machine with a Wi-Fi port \<^verbatim>\<open>en0\<close>.\<close>

definition env_creation_fails :: env where
  "env_creation_fails =
     \<lparr>which = (\<lambda>c. True),
      capture_out = (\<lambda>ws.
        if ws = [''nmcli'', ''device'', ''status''] then
          \<lparr>returncode = 0,
           stdout = ''DEVICE  TYPE      STATE      CONNECTION\<newline>eth0    ethernet  connected  wired\<newline>wlan0   wifi      connected  home\<newline>''\<rparr>
        else if ws = [''iw'', ''dev'', ''wlan0'', ''info''] then
          \<lparr>returncode = 0, stdout = ''Interface wlan0\<newline>  type managed\<newline>''\<rparr>
        else if take 4 ws = [''nmcli'', ''dev'', ''wifi'', ''hotspot''] then
          \<lparr>returncode = 1, stdout = ''''\<rparr>
        else \<lparr>returncode = 0, stdout = ''''\<rparr>),
      run_rc = (\<lambda>c. 0),
      path_exists = (\<lambda>p. False)\<rparr>"

definition env_mac :: env where
  "env_mac =
     \<lparr>which = (\<lambda>c. True),
      capture_out = (\<lambda>ws.
        if ws = [''networksetup'', ''-listallhardwareports''] then
          \<lparr>returncode = 0,
           stdout = ''\<newline>Hardware Port: Ethernet\<newline>Device: en1\<newline>\<newline>Hardware Port: Wi-Fi\<newline>Device: en0\<newline>Ethernet Address: a4:83:e7:00:00:01\<newline>''\<rparr>
        else \<lparr>returncode = 0, stdout = ''''\<rparr>),
      run_rc = (\<lambda>c. 0),
      path_exists = (\<lambda>p. True)\<rparr>"


section \<open>Symbolic execution\<close>

lemmas io_defs = bind_def seq_def return_def echo_def sys_exit_def emit_def

lemma hints_nonempty: "truthy (Some HINT_NMCLI)" "truthy (Some HINT_IW)" "truthy (Some HINT_NFT)"
  by (simp_all add: truthy_def HINT_NMCLI_def HINT_IW_def HINT_NFT_def)

lemma find_linux_wifi_iface_run:
  "find_linux_wifi_iface E iface s = (Inr (resolved E iface), emits [Capture (resolve_cmd iface)] s)"
  by (simp add: find_linux_wifi_iface_def detect_wifi_iface_def resolved_def resolve_cmd_def
      bind_def return_def run_capture_def emits_def emit_def)

lemma spawns_simps:
  "spawns E c True" "spawns E (Argv (w # ws)) False = which E w"
  by (simp_all add: spawns_def)

lemma spawns_nmcli:
  "spawns E (Argv radio_on_cmd) False = which E ''nmcli''"
  "spawns E (Argv connection_down_cmd) False = which E ''nmcli''"
  "spawns E (Argv connection_delete_cmd) False = which E ''nmcli''"
  by (simp_all add: spawns_def radio_on_cmd_def connection_down_cmd_def connection_delete_cmd_def)

lemma run_cmd_run:
  "d \<or> spawns E c sh \<Longrightarrow>
     run_cmd E c d sh False s =
       (Inr \<lparr>returncode = (if d then 0 else run_rc E c), stdout = []\<rparr>, emits [issue d sh c] s)"
  by (auto simp: run_cmd_def run_def io_defs emits_def issue_def dry_echo_def)

lemma run_cmd_missing:
  "\<not> d \<Longrightarrow> \<not> spawns E c sh \<Longrightarrow> run_cmd E c d sh False s = (Inl FileNotFoundError, s)"
  by (simp add: run_cmd_def run_def)

lemma echo_run: "echo t s = (Inr (), emits [Echo t] s)"
  by (simp add: echo_def emit_def emits_def)

lemma run_capture_run: "run_capture E ws s = (Inr (capture_out E ws), emits [Capture ws] s)"
  by (simp add: run_capture_def emit_def emits_def)

lemma emits_emits: "emits es (emits es' s) = emits (es' @ es) s"
  by (simp add: emits_def)

lemma emits_tty: "emits es (s\<lparr>tty := t\<rparr>) = (emits es s)\<lparr>tty := t\<rparr>"
  by (simp add: emits_def)

lemma tty_emits: "tty (emits es s) = tty s" "stdin (emits es s) = stdin s" "trace (emits es s) = trace s @ es"
  by (simp_all add: emits_def)

lemma emits_tty_same: "(emits es s)\<lparr>tty := tty s\<rparr> = emits es s"
  by (simp add: emits_def)

lemma ensure_run:
  "truthy (Some h) \<Longrightarrow> ensure_linux_command E c (Some h) s =
     (if which E c then (Inr True, s) else (Inr False, emits [Echo (COMMAND_NOT_FOUND c), Echo h] s))"
  by (simp add: ensure_linux_command_def bind_def seq_def return_def echo_run emits_emits)

lemma finish_run:
  "enable_hotspot_linux_finish E d h ss p s = (Inr (), emits (finish_events d h ss p) s)"
  by (simp add: enable_hotspot_linux_finish_def bind_def seq_def return_def echo_run run_cmd_run
      spawns_simps emits_emits finish_events_def firewall_cmds_def)

lemma password_loop_run:
  "password_loop s = (loop_result (tty s), (emits (loop_events (tty s)) s)\<lparr>tty := loop_rest (tty s)\<rparr>)"
proof (induction "tty s" arbitrary: s)
  case Nil
  then show ?case
    by (subst password_loop.simps) (simp add: getpass_def emit_def emits_def)
next
  case (Cons p ps)
  let ?s' = "(emit (Getpass PASSWORD_PROMPT) s)\<lparr>tty := ps\<rparr>"
  have g: "getpass PASSWORD_PROMPT s = (Inr p, ?s')"
    using Cons.hyps(2) [symmetric] by (simp add: getpass_def)
  show ?case
  proof (cases "length p \<ge> 8")
    case True
    then show ?thesis
      using Cons.hyps(2) [symmetric]
      by (subst password_loop.simps) (simp add: g emit_def emits_def)
  next
    case False
    have "ps = tty (snd (echo PASSWORD_TOO_SHORT ?s'))"
      by (simp add: echo_def emit_def)
    from Cons.hyps(1) [OF this] False Cons.hyps(2) [symmetric] show ?thesis
      by (subst password_loop.simps) (simp add: g echo_def emit_def emits_def)
  qed
qed

lemma create_run:
  "enable_hotspot_linux_create E d h ssid password s =
     (case create_nf E d h ssid password (tty s) of (r, es, t) \<Rightarrow> (r, (emits es s)\<lparr>tty := t\<rparr>))"
  by (simp add: enable_hotspot_linux_create_def create_nf_def bind_def seq_def return_def
      sys_exit_def echo_run run_capture_run finish_run password_loop_run emits_emits emits_tty
      tty_emits emits_tty_same Let_def split: sum.splits)

lemma checks_run:
  "enable_hotspot_linux_checks E d iface ssid password s =
     (case checks_nf E d iface ssid password (tty s) of (r, es, t) \<Rightarrow> (r, (emits es s)\<lparr>tty := t\<rparr>))"
  by (simp add: enable_hotspot_linux_checks_def checks_nf_def bind_def seq_def return_def
      sys_exit_def echo_run run_capture_run run_cmd_run spawns_nmcli find_linux_wifi_iface_run
      create_run ensure_run hints_nonempty emits_emits emits_tty tty_emits emits_tty_same Let_def
      case_prod_beta)

lemma emits_stdin: "emits es (s\<lparr>stdin := t\<rparr>) = (emits es s)\<lparr>stdin := t\<rparr>"
  by (simp add: emits_def)

lemma emits_stdin_same: "(emits es s)\<lparr>stdin := stdin s\<rparr> = emits es s"
  by (simp add: emits_def)

lemma input_run:
  "input p s = (case stdin s of [] \<Rightarrow> (Inl EOFError, emits [Prompt p] s)
                | l # ls \<Rightarrow> (Inr l, (emits [Prompt p] s)\<lparr>stdin := ls\<rparr>))"
  by (simp add: input_def emit_def emits_def split: list.splits)

lemma enable_run:
  "enable_hotspot_linux E dry_run iface ssid password s =
     (case enable_nf E dry_run iface ssid password (stdin s) (tty s) of
        (r, es, i, t) \<Rightarrow> (r, (emits es s)\<lparr>stdin := i, tty := t\<rparr>))"
  by (cases dry_run; cases "stdin s")
     (simp_all add: enable_hotspot_linux_def enable_nf_def ask_dry_run_def bind_def seq_def
      return_def echo_run input_run checks_run emits_emits emits_tty tty_emits emits_tty_same
      emits_stdin emits_stdin_same title_events_def banner_events_def case_prod_beta)

lemma disable_run:
  "disable_hotspot_linux E dry_run s =
     (case disable_nf E dry_run (stdin s) of
        (r, es, i) \<Rightarrow> (r, (emits es s)\<lparr>stdin := i\<rparr>))"
proof (cases "which E ''nmcli''")
  case True
  show ?thesis
    by (cases dry_run; cases "stdin s")
       (simp_all add: True disable_hotspot_linux_def disable_nf_def disable_result_def
        ask_dry_run_def bind_def seq_def return_def echo_run input_run run_cmd_run spawns_simps
        spawns_nmcli emits_emits tty_emits emits_stdin emits_stdin_same title_events_def
        banner_events_def disable_events_def)
next
  case False
  show ?thesis
  proof (cases dry_run)
    case None
    show ?thesis
    proof (cases "stdin s")
      case Nil
      then show ?thesis
        by (simp add: None disable_hotspot_linux_def disable_nf_def ask_dry_run_def bind_def
            seq_def return_def echo_run input_run emits_emits tty_emits emits_stdin_same
            title_events_def)
    next
      case (Cons a rest)
      then show ?thesis
        by (cases "lower (strip a) = ''y''")
           (simp_all add: None False disable_hotspot_linux_def disable_nf_def disable_result_def
            ask_dry_run_def bind_def seq_def return_def echo_run input_run run_cmd_run
            run_cmd_missing spawns_simps spawns_nmcli emits_emits tty_emits emits_stdin
            title_events_def banner_events_def disable_events_def)
    qed
  next
    case (Some d)
    show ?thesis
      by (cases d)
         (simp_all add: Some False disable_hotspot_linux_def disable_nf_def disable_result_def
          ask_dry_run_def bind_def seq_def return_def echo_run run_cmd_run run_cmd_missing
          spawns_simps spawns_nmcli emits_emits tty_emits emits_stdin_same title_events_def
          banner_events_def disable_events_def)
  qed
qed

lemma enable_start:
  "fst (enable_hotspot_linux E dry_run iface ssid password (start ins ttys))
     = fst (enable_nf E dry_run iface ssid password ins ttys)"
  "trace (snd (enable_hotspot_linux E dry_run iface ssid password (start ins ttys)))
     = fst (snd (enable_nf E dry_run iface ssid password ins ttys))"
  by (simp_all add: enable_run start_def emits_def case_prod_beta)

lemma disable_start:
  "fst (disable_hotspot_linux E dry_run (start ins ttys)) = fst (disable_nf E dry_run ins)"
  "trace (snd (disable_hotspot_linux E dry_run (start ins ttys))) = fst (snd (disable_nf E dry_run ins))"
  by (simp_all add: disable_run start_def emits_def case_prod_beta)


lemmas text_defs = nmcli_list_cmd_def nmcli_status_cmd_def table_probe_cmd_def radio_on_cmd_def
  ap_probe_cmd_def creation_cmd_def LINUX_REQUIRED_INET_TABLE_def LINUX_SSID_def
  LINUX_NFT_TABLE_def LINUX_TUN_IFACE_def

lemmas nft_defs = firewall_cmds_def nft_delete_table_def nft_add_table_def nft_add_postrouting_def
  nft_add_masquerade_def nft_add_forward_def nft_forward_out_def nft_forward_back_def DQ_def

lemma quote_constants:
  "quote LINUX_NFT_TABLE = ''throne_hotspot''" "quote LINUX_TUN_IFACE = ''nekoray-tun''"
  "quote ''wlan0'' = ''wlan0''"
  "quote ''throne_hotspot'' = ''throne_hotspot''" "quote ''nekoray-tun'' = ''nekoray-tun''"
  by (simp_all add: quote_def safe_char_def LINUX_NFT_TABLE_def LINUX_TUN_IFACE_def)

lemma capture_loop_events: "Capture ws \<notin> set (loop_events t)"
  by (induction t) auto

lemma capture_finish_events: "Capture ws \<notin> set (finish_events d h ss p)"
  by (auto simp: finish_events_def issue_def dry_echo_def firewall_cmds_def)

lemma capture_create_nf:
  "Capture ws \<in> set (fst (snd (create_nf E d h ssid pw t))) \<Longrightarrow> is_creation_cmd (Argv ws)"
  by (auto simp: create_nf_def Let_def capture_loop_events capture_finish_events is_creation_cmd_def
      creation_cmd_def split: if_splits sum.splits)

lemma probe_not_creation: "\<not> is_creation_cmd (Argv (ap_probe_cmd i))"
  by (simp add: is_creation_cmd_def ap_probe_cmd_def)

lemma probe_neq_queries:
  "ap_probe_cmd i \<noteq> resolve_cmd iface" "ap_probe_cmd i \<noteq> table_probe_cmd"
  by (simp_all add: ap_probe_cmd_def resolve_cmd_def table_probe_cmd_def nmcli_list_cmd_def
      nmcli_status_cmd_def)

lemma probe_inj: "ap_probe_cmd i = ap_probe_cmd j \<longleftrightarrow> i = j"
  by (simp add: ap_probe_cmd_def)

lemma probe_not_created:
  "Capture (ap_probe_cmd i) \<notin> set (fst (snd (create_nf E d h ssid pw t)))"
  using capture_create_nf [of "ap_probe_cmd i" E d h ssid pw t] probe_not_creation by blast

lemma probe_reached:
  "Capture (ap_probe_cmd i) \<in> set (fst (snd (checks_nf E d iface ssid pw t))) \<longleftrightarrow>
     which E ''nmcli'' \<and> which E ''iw'' \<and> which E ''nft'' \<and> resolved E iface \<noteq> []
     \<and> returncode (capture_out E table_probe_cmd) = 0 \<and> i = resolved E iface"
  by (auto simp: checks_nf_def Let_def probe_neq_queries probe_not_created probe_inj issue_def
      dry_echo_def case_prod_beta)

lemma create_start:
  "fst (enable_hotspot_linux_create E d h ssid password (start ins ttys))
     = fst (create_nf E d h ssid password ttys)"
  "trace (snd (enable_hotspot_linux_create E d h ssid password (start ins ttys)))
     = fst (snd (create_nf E d h ssid password ttys))"
  by (simp_all add: create_run start_def emits_def case_prod_beta)

lemma already_active_neq:
  "ALREADY_ACTIVE i \<noteq> PASSWORD_TOO_SHORT" "ALREADY_ACTIVE i \<noteq> CREATION_FAILED"
  "ALREADY_ACTIVE i \<noteq> []"
  by (simp_all add: ALREADY_ACTIVE_def PASSWORD_TOO_SHORT_def CREATION_FAILED_def color_def
      YELLOW_def RED_def ESC_def)

lemma loop_events_nonempty: "loop_events t \<noteq> []"
  by (cases t) auto

lemma loop_events_last:
  "loop_result t = Inl e \<Longrightarrow> last (loop_events t) = Getpass PASSWORD_PROMPT"
  by (induction t) (auto simp: loop_events_nonempty split: if_splits)

lemma finish_events_last: "last (finish_events d h ss p) = Echo []"
  by (simp add: finish_events_def)

lemma create_nf_last:
  "last (fst (snd (create_nf E d h ssid pw t))) \<noteq> Echo (ALREADY_ACTIVE i)"
proof (cases "truthy pw")
  case True
  then show ?thesis
    by (simp add: create_nf_def Let_def finish_events_last already_active_neq
        already_active_neq [symmetric] finish_events_def)
next
  case False
  show ?thesis
  proof (cases "loop_result t")
    case (Inl e)
    then show ?thesis
      using False by (simp add: create_nf_def Let_def loop_events_last loop_events_nonempty)
  next
    case (Inr p)
    then show ?thesis
      using False
      by (simp add: create_nf_def Let_def finish_events_last already_active_neq
          already_active_neq [symmetric] finish_events_def)
  qed
qed

lemma create_nf_nonempty: "fst (snd (create_nf E d h ssid pw t)) \<noteq> []"
  by (auto simp: create_nf_def Let_def split: sum.splits)

lemma executed_append: "executed (xs @ ys) = executed xs @ executed ys"
  by (induction xs rule: executed.induct) auto

lemma executed_finish_events:
  "executed (finish_events d h ss p) = (if d then [] else firewall_cmds h)"
  by (simp add: finish_events_def issue_def dry_echo_def firewall_cmds_def)

lemma resolved_eq:
  "fst (find_linux_wifi_iface E iface s0) = Inr h \<longleftrightarrow> resolved E iface = h"
  by (simp add: find_linux_wifi_iface_run)

lemma create_nf_short:
  "p \<noteq> [] \<Longrightarrow> length p < 8 \<Longrightarrow>
     create_nf E d h ssid (Some p) t =
       (Inl (SystemExit 1), [Echo STARTING_HOTSPOT, Echo PASSWORD_TOO_SHORT], t)"
  by (simp add: create_nf_def truthy_def Let_def)

lemma queries_not_mutating_cmds:
  "\<not> is_creation_cmd (Argv (resolve_cmd iface))" "\<not> is_firewall_cmd (Argv ws)"
  "\<not> is_creation_cmd (Argv table_probe_cmd)" "\<not> is_creation_cmd (Argv radio_on_cmd)"
  "\<not> is_creation_cmd (Argv (ap_probe_cmd h))"
  by (simp_all add: is_creation_cmd_def is_firewall_cmd_def resolve_cmd_def text_defs)

lemma resolved_home: "resolved env_home None = ''wlan0''"
  by (simp add: resolved_def find_linux_wifi_iface_def detect_wifi_iface_def truthy_def bind_def
      return_def run_capture_def env_home_def nmcli_status_cmd_def splitlines_def split_ws_def
      is_linebreak_def isspace_def)

lemma resolved_ap: "resolved env_ap None = ''wlan0''"
  by (simp add: resolved_def find_linux_wifi_iface_def detect_wifi_iface_def truthy_def bind_def
      return_def run_capture_def env_ap_def nmcli_status_cmd_def splitlines_def split_ws_def
      is_linebreak_def isspace_def)

lemma env_home_simps:
  "which env_home c"
  "returncode (capture_out env_home [''sudo'', ''nft'', ''list'', ''table'', ''inet'', ''sing-box'']) = 0"
  "capture_out env_home [''iw'', ''dev'', ''wlan0'', ''info'']
     = \<lparr>returncode = 0, stdout = ''Interface wlan0\<newline>  type managed\<newline>''\<rparr>"
  by (simp_all add: env_home_def)

lemma resolved_no_table: "resolved env_no_table None = ''wlan0''"
  by (simp add: resolved_def find_linux_wifi_iface_def detect_wifi_iface_def truthy_def bind_def
      return_def run_capture_def env_no_table_def nmcli_status_cmd_def splitlines_def split_ws_def
      is_linebreak_def isspace_def)

lemma resolved_nothing: "resolved env_nothing iface = []"
  by (simp add: resolved_def find_linux_wifi_iface_def detect_wifi_iface_def bind_def
      return_def run_capture_def env_nothing_def)

lemma env_no_table_simps:
  "which env_no_table c"
  "returncode (capture_out env_no_table [''sudo'', ''nft'', ''list'', ''table'', ''inet'', ''sing-box'']) = 1"
  by (simp_all add: env_no_table_def)

lemma env_nothing_simps:
  "which env_nothing c"
  "returncode (capture_out env_nothing ws) = 1"
  by (simp_all add: env_nothing_def)

lemma echoed_append: "echoed (xs @ ys) = echoed xs @ echoed ys"
  by (induction xs rule: echoed.induct) auto

lemma split_colon1_join:
  assumes "CHR '':'' \<in> set line"
  shows "line = fst (split_colon1 line) @ '':'' @ snd (split_colon1 line)"
proof -
  let ?P = "\<lambda>c. c \<noteq> CHR '':''"
  have "dropWhile ?P line \<noteq> []"
    using assms by (simp add: dropWhile_eq_Nil_conv)
  moreover have "hd (dropWhile ?P line) = CHR '':''"
    using hd_dropWhile [of ?P line] calculation by blast
  ultimately have "dropWhile ?P line = CHR '':'' # tl (dropWhile ?P line)"
    by (cases "dropWhile ?P line") auto
  then have "takeWhile ?P line @ CHR '':'' # tl (dropWhile ?P line) = line"
    using takeWhile_dropWhile_id [of ?P line] by simp
  then show ?thesis
    by (simp add: split_colon1_def)
qed

lemma split_colon1_wifi:
  assumes "CHR '':'' \<notin> set n"
  shows "split_colon1 (n @ '':wifi'') = (n, ''wifi'')"
proof -
  let ?P = "\<lambda>c. c \<noteq> CHR '':''"
  have t: "takeWhile ?P (n @ '':wifi'') = n @ takeWhile ?P '':wifi''"
    by (rule takeWhile_append2) (use assms in auto)
  have d: "dropWhile ?P (n @ '':wifi'') = dropWhile ?P '':wifi''"
    by (rule dropWhile_append2) (use assms in auto)
  show ?thesis
    by (simp add: split_colon1_def t d)
qed

lemma find_loop_cases:
  "find_linux_wifi_iface_loop n ls = n \<or> find_linux_wifi_iface_loop n ls = []"
  by (induction ls) (auto split: prod.splits)

lemma find_loop_listed:
  "n \<noteq> [] \<Longrightarrow> find_linux_wifi_iface_loop n ls = n \<Longrightarrow> n @ '':wifi'' \<in> set ls"
proof (induction ls)
  case Nil
  then show ?case by simp
next
  case (Cons line ls)
  show ?case
  proof (cases "CHR '':'' \<in> set line \<and> split_colon1 line = (n, ''wifi'')")
    case True
    then have "line = n @ '':wifi''"
      using split_colon1_join [of line] by simp
    then show ?thesis by simp
  next
    case False
    then have "find_linux_wifi_iface_loop n (line # ls) = find_linux_wifi_iface_loop n ls"
      by (auto split: prod.splits)
    then show ?thesis
      using Cons by simp
  qed
qed

lemma find_loop_resolves:
  "CHR '':'' \<notin> set n \<Longrightarrow> n @ '':wifi'' \<in> set ls \<Longrightarrow> find_linux_wifi_iface_loop n ls = n"
proof (induction ls)
  case Nil
  then show ?case by simp
next
  case (Cons line ls)
  show ?case
  proof (cases "line = n @ '':wifi''")
    case True
    then show ?thesis
      using Cons.prems(1) by (simp add: split_colon1_wifi)
  next
    case False
    then have "n @ '':wifi'' \<in> set ls"
      using Cons.prems(2) by auto
    then have "find_linux_wifi_iface_loop n ls = n"
      using Cons.IH Cons.prems(1) by blast
    then show ?thesis
      by (auto split: prod.splits)
  qed
qed

lemma split_colon1_no_colon: "CHR '':'' \<notin> set (fst (split_colon1 line))"
  using set_takeWhileD [of "CHR '':''" "\<lambda>c. c \<noteq> CHR '':''" line]
  by (auto simp: split_colon1_def)

lemma find_loop_no_colon:
  "n \<noteq> [] \<Longrightarrow> find_linux_wifi_iface_loop n ls = n \<Longrightarrow> CHR '':'' \<notin> set n"
proof (induction ls)
  case Nil
  then show ?case by simp
next
  case (Cons line ls)
  show ?case
  proof (cases "CHR '':'' \<in> set line \<and> split_colon1 line = (n, ''wifi'')")
    case True
    then show ?thesis
      using split_colon1_no_colon [of line] by simp
  next
    case False
    then have "find_linux_wifi_iface_loop n (line # ls) = find_linux_wifi_iface_loop n ls"
      by (auto split: prod.splits)
    then show ?thesis
      using Cons by simp
  qed
qed

lemma split_ws_from_nonempty: "[] \<notin> set (split_ws_from acc s)"
  by (induction s arbitrary: acc) auto

lemma detect_step:
  "detect_wifi_iface_loop (l # ls) = (if wifi_line l then device_of l else detect_wifi_iface_loop ls)"
  by (cases "split_ws l"; cases "tl (split_ws l)")
     (auto simp: wifi_line_def device_of_def Let_def)

lemma wifi_line_device: "wifi_line l \<Longrightarrow> device_of l \<noteq> []"
  using split_ws_from_nonempty [of "[]" l]
  by (cases "split_ws l") (auto simp: wifi_line_def device_of_def split_ws_def)

lemma detect_loop_none:
  "\<forall>l\<in>set ls. \<not> wifi_line l \<Longrightarrow> detect_wifi_iface_loop ls = []"
  by (induction ls) (simp_all add: detect_step del: detect_wifi_iface_loop.simps(2))

lemma detect_loop_first:
  "\<exists>l\<in>set ls. wifi_line l \<Longrightarrow>
     \<exists>pre l post. ls = pre @ l # post \<and> (\<forall>x\<in>set pre. \<not> wifi_line x) \<and> wifi_line l
        \<and> detect_wifi_iface_loop ls = device_of l"
proof (induction ls)
  case Nil
  then show ?case by simp
next
  case (Cons a ls)
  show ?case
  proof (cases "wifi_line a")
    case True
    then have "a # ls = [] @ a # ls \<and> (\<forall>x\<in>set []. \<not> wifi_line x) \<and> wifi_line a
        \<and> detect_wifi_iface_loop (a # ls) = device_of a"
      by (simp add: detect_step del: detect_wifi_iface_loop.simps(2))
    then show ?thesis by blast
  next
    case False
    then have "\<exists>l\<in>set ls. wifi_line l"
      using Cons.prems by auto
    then obtain pre l post where p: "ls = pre @ l # post" "\<forall>x\<in>set pre. \<not> wifi_line x"
        "wifi_line l" "detect_wifi_iface_loop ls = device_of l"
      using Cons.IH by blast
    have "a # ls = (a # pre) @ l # post \<and> (\<forall>x\<in>set (a # pre). \<not> wifi_line x) \<and> wifi_line l
        \<and> detect_wifi_iface_loop (a # ls) = device_of l"
      using p False by (simp add: detect_step del: detect_wifi_iface_loop.simps(2))
    then show ?thesis by blast
  qed
qed

lemma find_requested:
  "n \<noteq> [] \<Longrightarrow> find_linux_wifi_iface E (Some n) s =
     (Inr (if returncode (capture_out E nmcli_list_cmd) \<noteq> 0 then []
           else find_linux_wifi_iface_loop n (splitlines (stdout (capture_out E nmcli_list_cmd)))),
      emit (Capture nmcli_list_cmd) s)"
  by (simp add: find_linux_wifi_iface_def truthy_def bind_def return_def run_capture_def)

lemma find_detected:
  "\<not> truthy iface \<Longrightarrow> find_linux_wifi_iface E iface s =
     (Inr (if returncode (capture_out E nmcli_status_cmd) \<noteq> 0 then []
           else detect_wifi_iface_loop (splitlines (stdout (capture_out E nmcli_status_cmd)))),
      emit (Capture nmcli_status_cmd) s)"
  by (simp add: find_linux_wifi_iface_def detect_wifi_iface_def bind_def return_def run_capture_def)

lemma checks_nf_unresolved:
  "which E ''nmcli'' \<Longrightarrow> which E ''iw'' \<Longrightarrow> which E ''nft'' \<Longrightarrow> resolved E iface = [] \<Longrightarrow>
     checks_nf E d iface ssid password ttys =
       (Inl (SystemExit 1),
        [Capture (resolve_cmd iface),
         Echo (if truthy iface then IFACE_NOT_FOUND (the iface) else NO_WIFI_IFACE)], ttys)"
  by (simp add: checks_nf_def Let_def)

lemma lower_char_y: "lower_char c = CHR ''y'' \<longleftrightarrow> c = CHR ''y'' \<or> c = CHR ''Y''"
proof -
  define n where "n = (of_char c :: nat)"
  have c: "c = char_of n" and b: "n < 256"
    by (simp_all add: n_def)
  have y: "lower_char c = CHR ''y'' \<longleftrightarrow> (of_char (lower_char c) :: nat) = 121"
    using of_char_eq_iff [of "lower_char c" "CHR ''y''", where ?'a = nat] by simp
  have v: "(of_char (lower_char c) :: nat)
      = (if (65 \<le> n \<and> n \<le> 90) \<or> (192 \<le> n \<and> n \<le> 222 \<and> n \<noteq> 215) then n + 32 else n)"
    using b by (auto simp: lower_char_def Let_def n_def [symmetric] c)
  have "(n = 121 \<or> n = 89) \<longleftrightarrow> (c = CHR ''y'' \<or> c = CHR ''Y'')"
    using of_char_eq_iff [of c "CHR ''y''", where ?'a = nat]
      of_char_eq_iff [of c "CHR ''Y''", where ?'a = nat]
    by (simp add: n_def)
  then show ?thesis
    unfolding y v by auto
qed

lemma lower_y: "lower s = ''y'' \<longleftrightarrow> s = ''y'' \<or> s = ''Y''"
  by (cases s; cases "tl s") (auto simp: lower_def lower_char_y)

lemma asked_append: "asked (xs @ ys) = asked xs @ asked ys"
  by (induction xs rule: asked.induct) auto

lemma asked_loop_events: "asked (loop_events t) = []"
  by (induction t) auto

lemma asked_finish_events: "asked (finish_events d h ss p) = []"
  by (simp add: finish_events_def issue_def dry_echo_def firewall_cmds_def)

lemma asked_create_nf: "asked (fst (snd (create_nf E d h ssid pw t))) = []"
  by (auto simp: create_nf_def Let_def asked_append asked_loop_events asked_finish_events
      split: sum.splits)

lemma asked_checks_nf: "asked (fst (snd (checks_nf E d iface ssid pw t))) = []"
  by (simp add: checks_nf_def Let_def case_prod_beta asked_append asked_create_nf issue_def
      dry_echo_def)

lemma asked_enable_given:
  "asked (fst (snd (enable_nf E (Some d) iface ssid pw ins t))) = []"
  by (simp add: enable_nf_def case_prod_beta asked_append asked_checks_nf title_events_def
      banner_events_def)

lemma asked_disable_given: "asked (fst (snd (disable_nf E (Some d) ins))) = []"
  by (simp add: disable_nf_def disable_events_def title_events_def banner_events_def issue_def
      dry_echo_def)

lemma stdin_enable_given:
  "stdin (snd (enable_hotspot_linux E (Some d) iface ssid pw (start ins t))) = ins"
  by (simp add: enable_run enable_nf_def case_prod_beta start_def emits_def)

lemma stdin_disable_given: "stdin (snd (disable_hotspot_linux E (Some d) (start ins t))) = ins"
  by (simp add: disable_run disable_nf_def start_def emits_def)

lemma emit_start: "trace (emit e (start ins t)) = [e]" "stdin (emit e (start ins t)) = ins"
  by (simp_all add: emit_def start_def)

lemma same_but_password_refl: "list_all2 (same_but_password p q) es es"
  by (simp add: list_all2_same same_but_password_def)

lemma same_but_password_append:
  "list_all2 (same_but_password p q) (es @ xs) (es @ ys) \<longleftrightarrow>
     list_all2 (same_but_password p q) xs ys"
  by (induction es) (simp_all add: same_but_password_def)

lemma same_but_password_finish:
  "list_all2 (same_but_password p q) (finish_events d h ss p) (finish_events d h ss q)"
proof -
  have "list_all2 (same_but_password p q)
      [Echo [], Echo HOTSPOT_READY, Echo (''SSID: '' @ ss), Echo (''Password: '' @ p), Echo []]
      [Echo [], Echo HOTSPOT_READY, Echo (''SSID: '' @ ss), Echo (''Password: '' @ q), Echo []]"
    by (simp add: same_but_password_def)
  then have "list_all2 (same_but_password p q)
      ((Echo SETTING_UP_RULES # map (issue d True) (firewall_cmds h))
         @ [Echo [], Echo HOTSPOT_READY, Echo (''SSID: '' @ ss), Echo (''Password: '' @ p), Echo []])
      ((Echo SETTING_UP_RULES # map (issue d True) (firewall_cmds h))
         @ [Echo [], Echo HOTSPOT_READY, Echo (''SSID: '' @ ss), Echo (''Password: '' @ q), Echo []])"
    by (simp only: same_but_password_append)
  then show ?thesis
    by (simp add: finish_events_def)
qed

lemma create_nf_dry:
  "8 \<le> length p \<Longrightarrow>
     create_nf E True h ssid (Some p) t =
       (Inr (), Echo STARTING_HOTSPOT
          # Echo (creation_dry_text h (if truthy ssid then the ssid else LINUX_SSID))
          # finish_events True h (if truthy ssid then the ssid else LINUX_SSID) p, t)"
  by (cases "truthy ssid") (auto simp: create_nf_def Let_def truthy_def)

lemma same_but_password_create:
  "8 \<le> length p \<Longrightarrow> 8 \<le> length q \<Longrightarrow>
     fst (create_nf E True h ssid (Some p) t) = fst (create_nf E True h ssid (Some q) t)
     \<and> list_all2 (same_but_password p q)
          (fst (snd (create_nf E True h ssid (Some p) t)))
          (fst (snd (create_nf E True h ssid (Some q) t)))"
  using same_but_password_finish [of p q True h]
  by (simp add: create_nf_dry same_but_password_def)

lemma same_but_password_checks:
  assumes "8 \<le> length p" "8 \<le> length q"
  shows "fst (checks_nf E True iface ssid (Some p) t) = fst (checks_nf E True iface ssid (Some q) t)
     \<and> list_all2 (same_but_password p q)
          (fst (snd (checks_nf E True iface ssid (Some p) t)))
          (fst (snd (checks_nf E True iface ssid (Some q) t)))"
  using same_but_password_create [OF assms, of E "resolved E iface" ssid t]
    same_but_password_append [of p q "[Capture (resolve_cmd iface),
      Echo (WIFI_INTERFACE (resolved E iface)), Capture table_probe_cmd, Echo ENABLING_WIFI,
      issue True False (Argv radio_on_cmd), Capture (ap_probe_cmd (resolved E iface))]"]
  by (simp add: checks_nf_def Let_def case_prod_beta same_but_password_refl
      same_but_password_refl [of p q "[x]" for x, simplified])

lemma macos_detect_run:
  "detect_macos_wifi_iface E s = (Inr (macos_detected E), emits [Capture hardware_ports_cmd] s)"
  by (simp add: detect_macos_wifi_iface_def macos_detected_def bind_def return_def run_capture_run)

lemma spawns_macos:
  "spawns E (Argv (airport_power_cmd h)) False = which E ''networksetup''"
  "spawns E (Argv sharing_load_cmd) False = which E ''sudo''"
  "spawns E (Argv sharing_unload_cmd) False = which E ''sudo''"
  by (simp_all add: spawns_def airport_power_cmd_def sharing_load_cmd_def sharing_unload_cmd_def)

lemma macos_create_run:
  assumes "which E ''networksetup''"
  shows "enable_hotspot_macos_create E d h ss p s
     = (macos_sharing_result E d, emits (macos_create_events E d h ss p) s)"
  by (cases d; cases "path_exists E SHARING_PLIST"; cases "which E ''sudo''")
     (simp_all add: assms enable_hotspot_macos_create_def macos_create_events_def
      macos_sharing_events_def macos_sharing_result_def macos_sharing_runs_def bind_def seq_def
      return_def echo_run run_cmd_run run_cmd_missing spawns_macos run_capture_run emits_emits
      issue_def)

lemma macos_enable_run:
  "enable_hotspot_macos E (Some d) iface ssid password s =
     (case macos_enable_nf E d iface ssid password (tty s) of
        (r, es, t) \<Rightarrow> (r, (emits es s)\<lparr>tty := t\<rparr>))"
proof (cases "which E ''networksetup''")
  case True
  show ?thesis
    by (simp add: True enable_hotspot_macos_def macos_enable_nf_def macos_nf_def ask_dry_run_def
        bind_def seq_def return_def sys_exit_def echo_run macos_detect_run
        macos_create_run [OF True] password_loop_run emits_emits emits_tty tty_emits
        emits_tty_same title_events_def banner_events_def Let_def split: sum.splits)
next
  case False
  show ?thesis
    by (simp add: False enable_hotspot_macos_def macos_enable_nf_def macos_nf_def ask_dry_run_def
        bind_def seq_def return_def sys_exit_def echo_run emits_emits tty_emits emits_tty_same
        title_events_def banner_events_def)
qed

lemma macos_disable_run:
  "disable_hotspot_macos E (Some d) s
     = (macos_sharing_result E d, emits (macos_disable_events E d) s)"
  by (cases d; cases "path_exists E SHARING_PLIST"; cases "which E ''sudo''")
     (simp_all add: disable_hotspot_macos_def macos_disable_events_def macos_sharing_events_def
      macos_sharing_result_def macos_sharing_runs_def ask_dry_run_def bind_def seq_def return_def
      echo_run run_cmd_run run_cmd_missing spawns_macos emits_emits title_events_def
      banner_events_def issue_def)

lemma macos_start:
  "fst (enable_hotspot_macos E (Some d) iface ssid password (start ins ttys))
     = fst (macos_enable_nf E d iface ssid password ttys)"
  "trace (snd (enable_hotspot_macos E (Some d) iface ssid password (start ins ttys)))
     = fst (snd (macos_enable_nf E d iface ssid password ttys))"
  "fst (disable_hotspot_macos E (Some d) (start ins ttys)) = macos_sharing_result E d"
  "trace (snd (disable_hotspot_macos E (Some d) (start ins ttys))) = macos_disable_events E d"
  by (simp_all add: macos_enable_run macos_disable_run start_def emits_def case_prod_beta)

lemma run_cmd_dry:
  "run_cmd E c True shell check s = (Inr \<lparr>returncode = 0, stdout = []\<rparr>, emit (dry_echo c) s)"
  by (simp add: run_cmd_def seq_def bind_def return_def echo_def dry_echo_def)

lemma failed_mutation_append:
  "failed_mutation E (xs @ ys) \<longleftrightarrow> failed_mutation E xs \<or> failed_mutation E ys"
  by (induction E xs rule: failed_mutation.induct) auto

lemma read_only_queries:
  "read_only_query (resolve_cmd iface)" "read_only_query table_probe_cmd"
  "read_only_query (ap_probe_cmd h)" "read_only_query hardware_ports_cmd"
  by (simp_all add: read_only_query_def resolve_cmd_def ap_probe_cmd_def)

lemma creation_not_query:
  "\<not> read_only_query (creation_cmd h ss p)" "\<not> read_only_query (airport_create_cmd ss p)"
  by (simp_all add: read_only_query_def text_defs hardware_ports_cmd_def airport_create_cmd_def)

lemma dry_view_creation:
  "dry_view (Capture (creation_cmd h ss p)) = Echo (creation_dry_text h ss)"
  by (simp add: creation_not_query) (simp add: is_creation_cmd_def creation_cmd_def)

lemma dry_view_airport:
  "dry_view (Capture (airport_create_cmd ss p)) = dry_echo (Argv (airport_create_cmd ss p))"
  by (simp add: creation_not_query) (simp add: is_creation_cmd_def airport_create_cmd_def)

lemma dry_view_loop_events: "map dry_view (loop_events t) = loop_events t"
  by (induction t) auto

lemma dry_view_finish_events:
  "map dry_view (finish_events False h ss p) = finish_events True h ss p"
  by (simp add: finish_events_def issue_def comp_def)

lemma failed_loop_events: "\<not> failed_mutation E (loop_events t)"
  by (induction t) auto

lemma failed_finish_events: "\<not> failed_mutation E (finish_events d h ss p)"
  by (simp add: finish_events_def issue_def dry_echo_def firewall_cmds_def)

lemma mutating_loop_events: "filter mutating (loop_events t) = []"
  by (induction t) auto

lemma mutating_finish_events: "filter mutating (finish_events True h ss p) = []"
  by (simp add: finish_events_def issue_def dry_echo_def firewall_cmds_def)

lemma create_nf_given:
  "truthy pw \<Longrightarrow>
     create_nf E d h ssid pw t =
       (let p = the pw; ss = (if truthy ssid then the ssid else LINUX_SSID)
        in if length p < 8 then
             (Inl (SystemExit 1), [Echo STARTING_HOTSPOT, Echo PASSWORD_TOO_SHORT], t)
           else if d then
             (Inr (), Echo STARTING_HOTSPOT # Echo (creation_dry_text h ss) # finish_events d h ss p, t)
           else if returncode (capture_out E (creation_cmd h ss p)) \<noteq> 0 then
             (Inl (SystemExit 1),
              [Echo STARTING_HOTSPOT, Capture (creation_cmd h ss p), Echo CREATION_FAILED], t)
           else
             (Inr (), Echo STARTING_HOTSPOT # Capture (creation_cmd h ss p) # finish_events d h ss p, t))"
  by (simp add: create_nf_def Let_def)

lemma create_nf_asked:
  "\<not> truthy pw \<Longrightarrow>
     create_nf E d h ssid pw t =
       (case loop_result t of
          Inl e \<Rightarrow> (Inl e, Echo STARTING_HOTSPOT # loop_events t, loop_rest t)
        | Inr p \<Rightarrow>
            (let ss = (if truthy ssid then the ssid else LINUX_SSID)
             in if length p < 8 then
                  (Inl (SystemExit 1),
                   Echo STARTING_HOTSPOT # loop_events t @ [Echo PASSWORD_TOO_SHORT], loop_rest t)
                else if d then
                  (Inr (), Echo STARTING_HOTSPOT # loop_events t
                     @ Echo (creation_dry_text h ss) # finish_events d h ss p, loop_rest t)
                else if returncode (capture_out E (creation_cmd h ss p)) \<noteq> 0 then
                  (Inl (SystemExit 1), Echo STARTING_HOTSPOT # loop_events t
                     @ [Capture (creation_cmd h ss p), Echo CREATION_FAILED], loop_rest t)
                else
                  (Inr (), Echo STARTING_HOTSPOT # loop_events t
                     @ Capture (creation_cmd h ss p) # finish_events d h ss p, loop_rest t)))"
  by (simp add: create_nf_def Let_def split: sum.splits)

lemma create_nf_dry_view:
  assumes "\<not> failed_mutation E (fst (snd (create_nf E False h ssid pw t)))"
  shows "create_nf E True h ssid pw t =
       (fst (create_nf E False h ssid pw t),
        map dry_view (fst (snd (create_nf E False h ssid pw t))),
        snd (snd (create_nf E False h ssid pw t)))"
proof (cases "truthy pw")
  case True
  then show ?thesis
    using assms
    by (simp add: create_nf_given Let_def failed_finish_events dry_view_finish_events
        dry_view_creation creation_not_query del: dry_view.simps(2) split: if_splits)
next
  case False
  then show ?thesis
    using assms
    by (cases "loop_result t")
       (simp_all add: create_nf_asked Let_def failed_mutation_append failed_loop_events
        failed_finish_events dry_view_loop_events dry_view_finish_events dry_view_creation
        creation_not_query del: dry_view.simps(2) split: if_splits)
qed

lemma create_nf_failed:
  assumes "failed_mutation E (fst (snd (create_nf E False h ssid pw t)))"
  shows "fst (create_nf E False h ssid pw t) = Inl (SystemExit 1)
     \<and> fst (create_nf E True h ssid pw t) = Inr ()"
proof (cases "truthy pw")
  case True
  then show ?thesis
    using assms
    by (simp add: create_nf_given Let_def failed_finish_events creation_not_query
        split: if_splits)
next
  case False
  then show ?thesis
    using assms
    by (cases "loop_result t")
       (simp_all add: create_nf_asked Let_def failed_mutation_append failed_loop_events
        failed_finish_events creation_not_query split: if_splits)
qed

lemma mutating_create_nf: "filter mutating (fst (snd (create_nf E True h ssid pw t))) = []"
proof (cases "truthy pw")
  case True
  then show ?thesis
    by (simp add: create_nf_given Let_def mutating_finish_events)
next
  case False
  then show ?thesis
    by (cases "loop_result t")
       (simp_all add: create_nf_asked Let_def mutating_loop_events mutating_finish_events)
qed

lemma checks_nf_reaches:
  "reaches_creation E iface \<Longrightarrow>
     checks_nf E d iface ssid pw t =
       (fst (create_nf E d (resolved E iface) ssid pw t),
        [Capture (resolve_cmd iface), Echo (WIFI_INTERFACE (resolved E iface)),
         Capture table_probe_cmd, Echo ENABLING_WIFI, issue d False (Argv radio_on_cmd),
         Capture (ap_probe_cmd (resolved E iface))]
          @ fst (snd (create_nf E d (resolved E iface) ssid pw t)),
        snd (snd (create_nf E d (resolved E iface) ssid pw t)))"
  by (auto simp: checks_nf_def reaches_creation_def Let_def case_prod_beta)

lemma checks_nf_stops:
  assumes "\<not> reaches_creation E iface"
  shows "checks_nf E True iface ssid pw t =
       (fst (checks_nf E False iface ssid pw t),
        map dry_view (fst (snd (checks_nf E False iface ssid pw t))),
        snd (snd (checks_nf E False iface ssid pw t)))"
    and "\<not> failed_mutation E (fst (snd (checks_nf E False iface ssid pw t)))"
    and "filter mutating (fst (snd (checks_nf E True iface ssid pw t))) = []"
  using assms
  by (auto simp: checks_nf_def reaches_creation_def Let_def issue_def dry_echo_def
      read_only_queries)

lemma checks_nf_dry_view:
  assumes "\<not> failed_mutation E (fst (snd (checks_nf E False iface ssid pw t)))"
  shows "checks_nf E True iface ssid pw t =
       (fst (checks_nf E False iface ssid pw t),
        map dry_view (fst (snd (checks_nf E False iface ssid pw t))),
        snd (snd (checks_nf E False iface ssid pw t)))"
proof (cases "reaches_creation E iface")
  case True
  from assms have "\<not> failed_mutation E (fst (snd (create_nf E False (resolved E iface) ssid pw t)))"
    by (simp add: checks_nf_reaches [OF True] read_only_queries issue_def)
  from create_nf_dry_view [OF this] show ?thesis
    by (simp add: checks_nf_reaches [OF True] read_only_queries issue_def)
next
  case False
  then show ?thesis
    by (rule checks_nf_stops)
qed

lemma checks_nf_failed:
  assumes "failed_mutation E (fst (snd (checks_nf E False iface ssid pw t)))"
  shows "fst (checks_nf E False iface ssid pw t) = Inl (SystemExit 1)
     \<and> fst (checks_nf E True iface ssid pw t) = Inr ()"
proof (cases "reaches_creation E iface")
  case True
  from assms have "failed_mutation E (fst (snd (create_nf E False (resolved E iface) ssid pw t)))"
    by (simp add: checks_nf_reaches [OF True] read_only_queries issue_def)
  from create_nf_failed [OF this] show ?thesis
    by (simp add: checks_nf_reaches [OF True])
next
  case False
  with assms checks_nf_stops(2) [OF False] show ?thesis
    by simp
qed

lemma mutating_checks_nf: "filter mutating (fst (snd (checks_nf E True iface ssid pw t))) = []"
proof (cases "reaches_creation E iface")
  case True
  then show ?thesis
    by (simp add: checks_nf_reaches [OF True] read_only_queries issue_def dry_echo_def
        mutating_create_nf)
next
  case False
  then show ?thesis
    by (rule checks_nf_stops)
qed

lemma enable_nf_dry_view:
  assumes "\<not> failed_mutation E (fst (snd (enable_nf E (Some False) iface ssid pw ins t)))"
  shows "fst (enable_nf E (Some True) iface ssid pw ins t)
       = fst (enable_nf E (Some False) iface ssid pw ins t)"
    and "fst (snd (enable_nf E (Some True) iface ssid pw ins t))
       = with_banner 3 (map dry_view (fst (snd (enable_nf E (Some False) iface ssid pw ins t))))"
proof -
  from assms have "\<not> failed_mutation E (fst (snd (checks_nf E False iface ssid pw t)))"
    by (simp add: enable_nf_def case_prod_beta title_events_def banner_events_def)
  from checks_nf_dry_view [OF this]
  show "fst (enable_nf E (Some True) iface ssid pw ins t)
       = fst (enable_nf E (Some False) iface ssid pw ins t)"
    and "fst (snd (enable_nf E (Some True) iface ssid pw ins t))
       = with_banner 3 (map dry_view (fst (snd (enable_nf E (Some False) iface ssid pw ins t))))"
    by (simp_all add: enable_nf_def case_prod_beta title_events_def banner_events_def
        with_banner_def)
qed

lemma enable_nf_failed:
  assumes "failed_mutation E (fst (snd (enable_nf E (Some False) iface ssid pw ins t)))"
  shows "fst (enable_nf E (Some False) iface ssid pw ins t) = Inl (SystemExit 1)
     \<and> fst (enable_nf E (Some True) iface ssid pw ins t) = Inr ()"
proof -
  from assms have "failed_mutation E (fst (snd (checks_nf E False iface ssid pw t)))"
    by (simp add: enable_nf_def case_prod_beta title_events_def banner_events_def)
  from checks_nf_failed [OF this] show ?thesis
    by (simp add: enable_nf_def case_prod_beta)
qed

lemma mutating_enable_nf:
  "filter mutating (fst (snd (enable_nf E (Some True) iface ssid pw ins t))) = []"
  by (simp add: enable_nf_def case_prod_beta title_events_def banner_events_def
      mutating_checks_nf)

lemma disable_nf_dry_view:
  "fst (disable_nf E (Some d) ins) = disable_result E d"
  "which E ''nmcli'' \<Longrightarrow>
     fst (snd (disable_nf E (Some True) ins))
       = with_banner 2 (map dry_view (fst (snd (disable_nf E (Some False) ins))))"
  "filter mutating (fst (snd (disable_nf E (Some True) ins))) = []"
  by (simp_all add: disable_nf_def disable_events_def title_events_def banner_events_def
      issue_def with_banner_def dry_echo_def)

lemma macos_create_dry_view:
  "returncode (capture_out E (airport_create_cmd ss p)) = 0 \<Longrightarrow> macos_sharing_runs E False \<Longrightarrow>
     map dry_view (macos_create_events E False h ss p) = macos_create_events E True h ss p"
  by (auto simp: macos_create_events_def macos_sharing_events_def macos_sharing_runs_def
      issue_def dry_view_airport simp del: dry_view.simps(2))

lemma macos_create_failed:
  "failed_mutation E (macos_create_events E False h ss p) \<longleftrightarrow>
     returncode (capture_out E (airport_create_cmd ss p)) \<noteq> 0"
  by (simp add: macos_create_events_def macos_sharing_events_def issue_def
      failed_mutation_append creation_not_query)

lemma mutating_macos_create: "filter mutating (macos_create_events E True h ss p) = []"
  by (simp add: macos_create_events_def macos_sharing_events_def issue_def dry_echo_def)

lemma macos_nf_outcome:
  "macos_sharing_runs E False \<Longrightarrow>
     fst (macos_nf E True iface ssid pw t) = fst (macos_nf E False iface ssid pw t)"
  by (simp add: macos_nf_def Let_def macos_sharing_result_def macos_sharing_runs_def
      split: sum.splits)

lemma macos_nf_dry_view:
  assumes "\<not> failed_mutation E (fst (snd (macos_nf E False iface ssid pw t)))"
    and "macos_sharing_runs E False"
  shows "fst (snd (macos_nf E True iface ssid pw t))
       = map dry_view (fst (snd (macos_nf E False iface ssid pw t)))"
  using assms
  by (auto simp: macos_nf_def Let_def failed_mutation_append failed_loop_events
      dry_view_loop_events macos_create_dry_view macos_create_failed read_only_queries
      split: sum.splits)

lemma mutating_macos_nf: "filter mutating (fst (snd (macos_nf E True iface ssid pw t))) = []"
  by (auto simp: macos_nf_def Let_def mutating_loop_events mutating_macos_create
      read_only_queries split: sum.splits)

lemma macos_enable_nf_dry_view:
  "macos_sharing_runs E False \<Longrightarrow>
     fst (macos_enable_nf E True iface ssid pw t) = fst (macos_enable_nf E False iface ssid pw t)"
  "\<not> failed_mutation E (fst (snd (macos_enable_nf E False iface ssid pw t))) \<Longrightarrow>
     macos_sharing_runs E False \<Longrightarrow>
     fst (snd (macos_enable_nf E True iface ssid pw t))
       = with_banner 3 (map dry_view (fst (snd (macos_enable_nf E False iface ssid pw t))))"
  "filter mutating (fst (snd (macos_enable_nf E True iface ssid pw t))) = []"
  by (simp_all add: macos_enable_nf_def case_prod_beta title_events_def banner_events_def
      with_banner_def macos_nf_outcome macos_nf_dry_view mutating_macos_nf)

lemma macos_disable_dry_view:
  "macos_sharing_runs E False \<Longrightarrow>
     macos_disable_events E True = with_banner 2 (map dry_view (macos_disable_events E False))"
  "filter mutating (macos_disable_events E True) = []"
  by (auto simp: macos_disable_events_def macos_sharing_events_def macos_sharing_runs_def
      title_events_def banner_events_def issue_def with_banner_def dry_echo_def)

lemma create_nf_clean:
  assumes "\<And>h ss p. returncode (capture_out E (creation_cmd h ss p)) = 0"
  shows "\<not> failed_mutation E (fst (snd (create_nf E False h ssid pw t)))"
proof (cases "truthy pw")
  case True
  then show ?thesis
    by (simp add: create_nf_given Let_def assms failed_finish_events)
next
  case False
  then show ?thesis
    by (cases "loop_result t")
       (simp_all add: create_nf_asked Let_def assms failed_mutation_append failed_loop_events
        failed_finish_events)
qed

lemma enable_nf_clean:
  assumes "\<And>h ss p. returncode (capture_out E (creation_cmd h ss p)) = 0"
  shows "\<not> failed_mutation E (fst (snd (enable_nf E (Some False) iface ssid pw ins t)))"
proof (cases "reaches_creation E iface")
  case True
  then show ?thesis
    by (simp add: enable_nf_def title_events_def banner_events_def checks_nf_reaches [OF True]
        read_only_queries issue_def create_nf_clean [OF assms])
next
  case False
  then show ?thesis
    by (simp add: enable_nf_def case_prod_beta title_events_def banner_events_def
        checks_nf_stops(2) [OF False])
qed

lemma macos_nf_clean:
  assumes "\<And>ss p. returncode (capture_out E (airport_create_cmd ss p)) = 0"
  shows "\<not> failed_mutation E (fst (snd (macos_enable_nf E False iface ssid pw t)))"
  by (auto simp: macos_enable_nf_def macos_nf_def Let_def case_prod_beta title_events_def
      banner_events_def failed_mutation_append failed_loop_events macos_create_failed assms
      read_only_queries split: sum.splits)

lemma resolved_creation_fails: "resolved env_creation_fails None = ''wlan0''"
  by (simp add: resolved_def find_linux_wifi_iface_def detect_wifi_iface_def truthy_def bind_def
      return_def run_capture_def env_creation_fails_def nmcli_status_cmd_def splitlines_def
      split_ws_def is_linebreak_def isspace_def)

lemma env_creation_fails_simps:
  "which env_creation_fails c"
  "returncode (capture_out env_creation_fails table_probe_cmd) = 0"
  "capture_out env_creation_fails (ap_probe_cmd ''wlan0'')
     = \<lparr>returncode = 0, stdout = ''Interface wlan0\<newline>  type managed\<newline>''\<rparr>"
  "returncode (capture_out env_creation_fails (creation_cmd h ss p)) = 1"
  by (simp_all add: env_creation_fails_def text_defs)

lemma reaches_creation_fails: "reaches_creation env_creation_fails None"
  by (simp add: reaches_creation_def resolved_creation_fails env_creation_fails_simps)

lemma env_creation_fails_nf:
  "enable_nf env_creation_fails (Some False) None None (Some ''abcdefgh'') ins t =
     (Inl (SystemExit 1),
      [Echo ENABLE_TITLE, Echo [], Echo ENABLE_STARTING, Capture nmcli_status_cmd,
       Echo (WIFI_INTERFACE ''wlan0''), Capture table_probe_cmd, Echo ENABLING_WIFI,
       Run (Argv radio_on_cmd) False, Capture (ap_probe_cmd ''wlan0''), Echo STARTING_HOTSPOT,
       Capture (creation_cmd ''wlan0'' LINUX_SSID ''abcdefgh''), Echo CREATION_FAILED], ins, t)"
  "fst (enable_nf env_creation_fails (Some True) None None (Some ''abcdefgh'') ins t) = Inr ()"
  by (simp_all add: enable_nf_def checks_nf_reaches [OF reaches_creation_fails] create_nf_given
      truthy_def Let_def resolved_creation_fails env_creation_fails_simps title_events_def
      banner_events_def issue_def resolve_cmd_def)

lemma env_home_creation: "returncode (capture_out env_home (creation_cmd h ss p)) = 0"
  by (simp add: env_home_def creation_cmd_def)

lemma env_mac_creation: "returncode (capture_out env_mac (airport_create_cmd ss p)) = 0"
  by (simp add: env_mac_def airport_create_cmd_def)

section \<open>The claims\<close>




text \<open>
  C3. The happy path of the Linux enable operation in real execution: the three tools are
  found, the interface resolves to \<open>wlan0\<close>, the required table is present, the probe
  does not report an access point, the password given by the caller has at least 8
  characters (so also exactly 8) and the creation command succeeds. Then the operation
  succeeds and the commands it executes are, after the interface query and the table
  probe, exactly one radio-on command, one mode probe, one creation command and the seven
  firewall commands: delete table, add table, add postrouting chain, add masquerade rule,
  add forward chain, and the two forward rules, in this order.
\<close>

theorem enable_hotspot_linux_happy_path:
  assumes tools: \<open>which E ''nmcli''\<close> \<open>which E ''iw''\<close> \<open>which E ''nft''\<close>
    and iface: \<open>fst (find_linux_wifi_iface E iface s0) = Inr ''wlan0''\<close>
    and table: \<open>returncode (capture_out E [''sudo'', ''nft'', ''list'', ''table'', ''inet'', ''sing-box'']) = 0\<close>
    and not_ap: \<open>\<not> (returncode (capture_out E [''iw'', ''dev'', ''wlan0'', ''info'']) = 0
                    \<and> contains (stdout (capture_out E [''iw'', ''dev'', ''wlan0'', ''info''])) ''type AP'')\<close>
    and password: \<open>8 \<le> length p\<close>
    and created: \<open>returncode (capture_out E [''nmcli'', ''dev'', ''wifi'', ''hotspot'', ''ifname'', ''wlan0'',
                    ''ssid'', (if truthy ssid then the ssid else ''thronetools''), ''password'', p]) = 0\<close>
  shows \<open>fst (enable_hotspot_linux E (Some False) iface ssid (Some p) (start ins ttys)) = Inr ()
    \<and> executed (trace (snd (enable_hotspot_linux E (Some False) iface ssid (Some p) (start ins ttys)))) =
      [Argv (if truthy iface then [''nmcli'', ''-t'', ''-f'', ''DEVICE,TYPE'', ''device'']
             else [''nmcli'', ''device'', ''status'']),
       Argv [''sudo'', ''nft'', ''list'', ''table'', ''inet'', ''sing-box''],
       Argv [''nmcli'', ''radio'', ''wifi'', ''on''],
       Argv [''iw'', ''dev'', ''wlan0'', ''info''],
       Argv [''nmcli'', ''dev'', ''wifi'', ''hotspot'', ''ifname'', ''wlan0'',
             ''ssid'', (if truthy ssid then the ssid else ''thronetools''), ''password'', p],
       Shell ''sudo nft delete table ip throne_hotspot 2>/dev/null || true'',
       Shell ''sudo nft add table ip throne_hotspot'',
       Shell ''sudo nft add chain ip throne_hotspot postrouting { type nat hook postrouting priority srcnat; policy accept; }'',
       Shell ''sudo nft add rule ip throne_hotspot postrouting oifname "nekoray-tun" masquerade'',
       Shell ''sudo nft add chain ip throne_hotspot forward { type filter hook forward priority filter; policy accept; }'',
       Shell ''sudo nft add rule ip throne_hotspot forward iifname "wlan0" oifname "nekoray-tun" accept'',
       Shell ''sudo nft add rule ip throne_hotspot forward iifname "nekoray-tun" oifname "wlan0" ct state established,related accept'']\<close>
proof -
  have r: "resolved E iface = ''wlan0''"
    using iface by (simp add: resolved_def)
  have t: "truthy (Some p)"
    using password by (auto simp: truthy_def)
  have n: "\<not> length p < 8"
    using password by simp
  have c: "create_nf E False ''wlan0'' ssid (Some p) ttys =
      (Inr (), Echo STARTING_HOTSPOT
         # Capture (creation_cmd ''wlan0'' (if truthy ssid then the ssid else LINUX_SSID) p)
         # finish_events False ''wlan0'' (if truthy ssid then the ssid else LINUX_SSID) p, ttys)"
    using created by (cases "truthy ssid") (simp_all add: create_nf_def t n text_defs Let_def)
  have k: "checks_nf E False iface ssid (Some p) ttys =
      (Inr (), [Capture (resolve_cmd iface), Echo (WIFI_INTERFACE ''wlan0''), Capture table_probe_cmd,
                Echo ENABLING_WIFI, Run (Argv radio_on_cmd) False, Capture (ap_probe_cmd ''wlan0'')]
         @ Echo STARTING_HOTSPOT
         # Capture (creation_cmd ''wlan0'' (if truthy ssid then the ssid else LINUX_SSID) p)
         # finish_events False ''wlan0'' (if truthy ssid then the ssid else LINUX_SSID) p, ttys)"
    using tools table not_ap by (simp add: checks_nf_def r c issue_def text_defs Let_def)
  show ?thesis
    by (simp add: enable_start enable_nf_def k title_events_def banner_events_def finish_events_def
        issue_def resolve_cmd_def nft_defs quote_constants text_defs)
qed

theorem enable_hotspot_linux_happy_path_witness:
  \<open>fst (enable_hotspot_linux env_home (Some False) None None (Some ''abcdefgh'') (start [] [])) = Inr ()
    \<and> executed (trace (snd (enable_hotspot_linux env_home (Some False) None None (Some ''abcdefgh'') (start [] [])))) =
      [Argv [''nmcli'', ''device'', ''status''],
       Argv [''sudo'', ''nft'', ''list'', ''table'', ''inet'', ''sing-box''],
       Argv [''nmcli'', ''radio'', ''wifi'', ''on''],
       Argv [''iw'', ''dev'', ''wlan0'', ''info''],
       Argv [''nmcli'', ''dev'', ''wifi'', ''hotspot'', ''ifname'', ''wlan0'',
             ''ssid'', ''thronetools'', ''password'', ''abcdefgh''],
       Shell ''sudo nft delete table ip throne_hotspot 2>/dev/null || true'',
       Shell ''sudo nft add table ip throne_hotspot'',
       Shell ''sudo nft add chain ip throne_hotspot postrouting { type nat hook postrouting priority srcnat; policy accept; }'',
       Shell ''sudo nft add rule ip throne_hotspot postrouting oifname "nekoray-tun" masquerade'',
       Shell ''sudo nft add chain ip throne_hotspot forward { type filter hook forward priority filter; policy accept; }'',
       Shell ''sudo nft add rule ip throne_hotspot forward iifname "wlan0" oifname "nekoray-tun" accept'',
       Shell ''sudo nft add rule ip throne_hotspot forward iifname "nekoray-tun" oifname "wlan0" ct state established,related accept'']\<close>
proof -
  have i: "fst (find_linux_wifi_iface env_home None s0) = Inr ''wlan0''"
    by (simp add: find_linux_wifi_iface_def detect_wifi_iface_def truthy_def bind_def return_def
        run_capture_def env_home_def nmcli_status_cmd_def splitlines_def split_ws_def
        is_linebreak_def isspace_def)
  show ?thesis
    using enable_hotspot_linux_happy_path [of env_home None "''abcdefgh''" None "[]" "[]", OF _ _ _ i]
    by (simp add: env_home_def truthy_def)
qed

text \<open>
  C5. If the mode probe of the enable operation is issued on an interface \<open>i\<close> (the
  resolved one: it is the only interface the operation probes), exits with code 0 and
  its output contains \<^verbatim>\<open>type AP\<close>, then the operation returns normally right after the
  message that a hotspot is already active. The commands it has executed are the
  interface query, the table probe, the radio-on command (in real execution) and the
  probe: no creation command and no firewall command. Nothing else is written either:
  in dry-run mode the only would-be command printed is the radio-on command.
\<close>

theorem enable_hotspot_linux_already_active:
  assumes probed: "Capture [''iw'', ''dev'', i, ''info'']
      \<in> set (trace (snd (enable_hotspot_linux E (Some d) iface ssid password (start ins ttys))))"
    and ok: "returncode (capture_out E [''iw'', ''dev'', i, ''info'']) = 0"
    and ap: "contains (stdout (capture_out E [''iw'', ''dev'', i, ''info''])) ''type AP''"
  shows "fst (enable_hotspot_linux E (Some d) iface ssid password (start ins ttys)) = Inr ()
    \<and> executed (trace (snd (enable_hotspot_linux E (Some d) iface ssid password (start ins ttys)))) =
        [Argv (if truthy iface then [''nmcli'', ''-t'', ''-f'', ''DEVICE,TYPE'', ''device'']
               else [''nmcli'', ''device'', ''status'']),
         Argv [''sudo'', ''nft'', ''list'', ''table'', ''inet'', ''sing-box'']]
        @ (if d then [] else [Argv [''nmcli'', ''radio'', ''wifi'', ''on'']])
        @ [Argv [''iw'', ''dev'', i, ''info'']]
    \<and> echoed (trace (snd (enable_hotspot_linux E (Some d) iface ssid password (start ins ttys)))) =
        [ENABLE_TITLE, '''', ENABLE_STARTING] @ (if d then [DRY_RUN_BANNER] else [])
        @ [WIFI_INTERFACE i, ENABLING_WIFI]
        @ (if d then [color (ARROW @ '' nmcli radio wifi on'') BLUE] else [])
        @ [ALREADY_ACTIVE i]"
proof -
  have "Capture (ap_probe_cmd i) \<in> set (fst (snd (checks_nf E d iface ssid password ttys)))"
    using probed
    by (auto simp: enable_start enable_nf_def case_prod_beta title_events_def banner_events_def
        ap_probe_cmd_def)
  then have c: "which E ''nmcli''" "which E ''iw''" "which E ''nft''" "resolved E iface \<noteq> []"
      "returncode (capture_out E table_probe_cmd) = 0" "resolved E iface = i"
    by (simp_all add: probe_reached)
  have k: "checks_nf E d iface ssid password ttys =
      (Inr (), [Capture (resolve_cmd iface), Echo (WIFI_INTERFACE i), Capture table_probe_cmd,
                Echo ENABLING_WIFI, issue d False (Argv radio_on_cmd), Capture (ap_probe_cmd i),
                Echo (ALREADY_ACTIVE i)], ttys)"
    using c ok ap by (simp add: checks_nf_def Let_def ap_probe_cmd_def)
  show ?thesis
    by (simp add: enable_start enable_nf_def k title_events_def banner_events_def issue_def
        dry_echo_def cmd_text_def resolve_cmd_def text_defs)
qed

theorem enable_hotspot_linux_already_active_witness:
  "fst (enable_hotspot_linux env_ap (Some False) None None None (start [] [])) = Inr ()
   \<and> executed (trace (snd (enable_hotspot_linux env_ap (Some False) None None None (start [] [])))) =
        [Argv [''nmcli'', ''device'', ''status''],
         Argv [''sudo'', ''nft'', ''list'', ''table'', ''inet'', ''sing-box''],
         Argv [''nmcli'', ''radio'', ''wifi'', ''on''],
         Argv [''iw'', ''dev'', ''wlan0'', ''info'']]
   \<and> echoed (trace (snd (enable_hotspot_linux env_ap (Some False) None None None (start [] [])))) =
        [ENABLE_TITLE, '''', ENABLE_STARTING, WIFI_INTERFACE ''wlan0'', ENABLING_WIFI,
         ALREADY_ACTIVE ''wlan0'']"
proof -
  have r: "resolved env_ap None = ''wlan0''"
    by (simp add: resolved_def find_linux_wifi_iface_def detect_wifi_iface_def truthy_def bind_def
        return_def run_capture_def env_ap_def nmcli_status_cmd_def splitlines_def split_ws_def
        is_linebreak_def isspace_def)
  have p: "Capture [''iw'', ''dev'', ''wlan0'', ''info'']
      \<in> set (trace (snd (enable_hotspot_linux env_ap (Some False) None None None (start [] []))))"
    by (simp add: enable_start enable_nf_def checks_nf_def r Let_def case_prod_beta ap_probe_cmd_def)
       (simp add: env_ap_def text_defs)
  show ?thesis
    using enable_hotspot_linux_already_active [OF p] by (simp add: env_ap_def truthy_def)
qed

text \<open>
  C10. Suppose the mode probe of the enable operation is issued on an interface \<open>i\<close>.
  \<^item> If the probe exits with a non-zero code, the operation goes on exactly as the rest of
    its body does (password validation, creation, firewall rules): its outcome is the
    outcome of that rest, and its trace is the trace up to the probe followed by the
    trace of that rest.
  \<^item> In particular, if the probe exits with a non-zero code, the caller gives a password
    of at least 8 characters and the creation command succeeds (or the mode is
    dry-run), the operation succeeds, and in real execution the creation command and
    the seven firewall commands follow the probe.
  \<^item> The run ends with the message that a hotspot is already active if and only if the
    probe exits with code 0 and its output contains \<^verbatim>\<open>type AP\<close>.
\<close>

theorem enable_hotspot_linux_probe_failed:
  assumes probed: "Capture [''iw'', ''dev'', i, ''info'']
      \<in> set (trace (snd (enable_hotspot_linux E (Some d) iface ssid password (start ins ttys))))"
  shows "(returncode (capture_out E [''iw'', ''dev'', i, ''info'']) \<noteq> 0 \<longrightarrow>
        fst (enable_hotspot_linux E (Some d) iface ssid password (start ins ttys))
          = fst (enable_hotspot_linux_create E d i ssid password (start ins ttys))
        \<and> trace (snd (enable_hotspot_linux E (Some d) iface ssid password (start ins ttys)))
          = [Echo ENABLE_TITLE, Echo '''', Echo ENABLE_STARTING]
            @ (if d then [Echo DRY_RUN_BANNER] else [])
            @ [Capture (if truthy iface then [''nmcli'', ''-t'', ''-f'', ''DEVICE,TYPE'', ''device'']
                        else [''nmcli'', ''device'', ''status'']),
               Echo (WIFI_INTERFACE i),
               Capture [''sudo'', ''nft'', ''list'', ''table'', ''inet'', ''sing-box''],
               Echo ENABLING_WIFI,
               (if d then Echo (color (ARROW @ '' nmcli radio wifi on'') BLUE)
                else Run (Argv [''nmcli'', ''radio'', ''wifi'', ''on'']) False),
               Capture [''iw'', ''dev'', i, ''info'']]
            @ trace (snd (enable_hotspot_linux_create E d i ssid password (start ins ttys))))
    \<and> (returncode (capture_out E [''iw'', ''dev'', i, ''info'']) \<noteq> 0
        \<and> password = Some p \<and> 8 \<le> length p
        \<and> (d \<or> returncode (capture_out E [''nmcli'', ''dev'', ''wifi'', ''hotspot'', ''ifname'', i,
                  ''ssid'', (if truthy ssid then the ssid else ''thronetools''), ''password'', p]) = 0)
        \<longrightarrow>
        fst (enable_hotspot_linux E (Some d) iface ssid password (start ins ttys)) = Inr ()
        \<and> executed (trace (snd (enable_hotspot_linux E (Some d) iface ssid password (start ins ttys))))
          = [Argv (if truthy iface then [''nmcli'', ''-t'', ''-f'', ''DEVICE,TYPE'', ''device'']
                   else [''nmcli'', ''device'', ''status'']),
             Argv [''sudo'', ''nft'', ''list'', ''table'', ''inet'', ''sing-box'']]
            @ (if d then [] else [Argv [''nmcli'', ''radio'', ''wifi'', ''on'']])
            @ [Argv [''iw'', ''dev'', i, ''info'']]
            @ (if d then []
               else Argv [''nmcli'', ''dev'', ''wifi'', ''hotspot'', ''ifname'', i, ''ssid'',
                          (if truthy ssid then the ssid else ''thronetools''), ''password'', p]
                    # firewall_cmds i))
    \<and> (last (trace (snd (enable_hotspot_linux E (Some d) iface ssid password (start ins ttys))))
          = Echo (ALREADY_ACTIVE i)
        \<longleftrightarrow> returncode (capture_out E [''iw'', ''dev'', i, ''info'']) = 0
          \<and> contains (stdout (capture_out E [''iw'', ''dev'', i, ''info''])) ''type AP'')"
proof -
  let ?ap = "returncode (capture_out E (ap_probe_cmd i)) = 0
               \<and> contains (stdout (capture_out E (ap_probe_cmd i))) ''type AP''"
  let ?pre = "[Capture (resolve_cmd iface), Echo (WIFI_INTERFACE i), Capture table_probe_cmd,
               Echo ENABLING_WIFI, issue d False (Argv radio_on_cmd), Capture (ap_probe_cmd i)]"
  have "Capture (ap_probe_cmd i) \<in> set (fst (snd (checks_nf E d iface ssid password ttys)))"
    using probed
    by (auto simp: enable_start enable_nf_def case_prod_beta title_events_def banner_events_def
        ap_probe_cmd_def)
  then have c: "which E ''nmcli''" "which E ''iw''" "which E ''nft''" "resolved E iface \<noteq> []"
      "returncode (capture_out E table_probe_cmd) = 0" "resolved E iface = i"
    by (simp_all add: probe_reached)
  have k: "checks_nf E d iface ssid password ttys =
      (if ?ap then (Inr (), ?pre @ [Echo (ALREADY_ACTIVE i)], ttys)
       else (fst (create_nf E d i ssid password ttys),
             ?pre @ fst (snd (create_nf E d i ssid password ttys)),
             snd (snd (create_nf E d i ssid password ttys))))"
    using c by (simp add: checks_nf_def Let_def case_prod_beta)
  have n: "\<not> ?ap \<Longrightarrow> checks_nf E d iface ssid password ttys =
      (fst (create_nf E d i ssid password ttys),
       ?pre @ fst (snd (create_nf E d i ssid password ttys)),
       snd (snd (create_nf E d i ssid password ttys)))"
    using k by auto
  show ?thesis
    unfolding enable_start create_start
  proof (intro conjI impI, goal_cases)
    case 1
    then have "\<not> ?ap" by (simp add: ap_probe_cmd_def)
    then show ?case by (simp add: enable_nf_def n)
  next
    case 2
    then have "\<not> ?ap" by (simp add: ap_probe_cmd_def)
    then show ?case
      by (simp add: enable_nf_def n title_events_def banner_events_def issue_def dry_echo_def
          cmd_text_def resolve_cmd_def text_defs)
  next
    case 3
    then have a: "\<not> ?ap" and pw: "password = Some p" "truthy (Some p)" "\<not> length p < 8"
      and cr: "d \<or> returncode (capture_out E
                (creation_cmd i (if truthy ssid then the ssid else LINUX_SSID) p)) = 0"
      by (auto simp: ap_probe_cmd_def truthy_def creation_cmd_def LINUX_SSID_def)
    have "create_nf E d i ssid (Some p) ttys =
        (Inr (), Echo STARTING_HOTSPOT
           # (if d then Echo (creation_dry_text i (if truthy ssid then the ssid else LINUX_SSID))
              else Capture (creation_cmd i (if truthy ssid then the ssid else LINUX_SSID) p))
           # finish_events d i (if truthy ssid then the ssid else LINUX_SSID) p, ttys)"
      using cr by (cases "truthy ssid"; cases d) (simp_all add: create_nf_def pw Let_def)
    then show ?case
      using a pw(1) n by (simp add: enable_nf_def)
  next
    case 4
    then have a: "\<not> ?ap" and pw: "password = Some p" "truthy (Some p)" "\<not> length p < 8"
      and cr: "d \<or> returncode (capture_out E
                (creation_cmd i (if truthy ssid then the ssid else LINUX_SSID) p)) = 0"
      by (auto simp: ap_probe_cmd_def truthy_def creation_cmd_def LINUX_SSID_def)
    have "create_nf E d i ssid (Some p) ttys =
        (Inr (), Echo STARTING_HOTSPOT
           # (if d then Echo (creation_dry_text i (if truthy ssid then the ssid else LINUX_SSID))
              else Capture (creation_cmd i (if truthy ssid then the ssid else LINUX_SSID) p))
           # finish_events d i (if truthy ssid then the ssid else LINUX_SSID) p, ttys)"
      using cr by (cases "truthy ssid"; cases d) (simp_all add: create_nf_def pw Let_def)
    then show ?case
      using a pw(1) n
      by (simp add: enable_nf_def title_events_def banner_events_def executed_append
          executed_finish_events issue_def dry_echo_def resolve_cmd_def text_defs)
  next
    case 5
    show ?case
      using create_nf_last [of E d i ssid password ttys i]
        create_nf_nonempty [of E d i ssid password ttys]
      by (simp add: enable_nf_def k ap_probe_cmd_def)
  qed
qed

theorem enable_hotspot_linux_probe_failed_witness:
  "fst (enable_hotspot_linux env_probe_fails (Some False) None None (Some ''abcdefgh'') (start [] []))
     = Inr ()
   \<and> executed (trace (snd (enable_hotspot_linux env_probe_fails (Some False) None None
        (Some ''abcdefgh'') (start [] [])))) =
       [Argv [''nmcli'', ''device'', ''status''],
        Argv [''sudo'', ''nft'', ''list'', ''table'', ''inet'', ''sing-box''],
        Argv [''nmcli'', ''radio'', ''wifi'', ''on''],
        Argv [''iw'', ''dev'', ''wlan0'', ''info''],
        Argv [''nmcli'', ''dev'', ''wifi'', ''hotspot'', ''ifname'', ''wlan0'', ''ssid'',
              ''thronetools'', ''password'', ''abcdefgh'']]
       @ firewall_cmds ''wlan0''
   \<and> last (trace (snd (enable_hotspot_linux env_probe_fails (Some False) None None
        (Some ''abcdefgh'') (start [] [])))) \<noteq> Echo (ALREADY_ACTIVE ''wlan0'')"
proof -
  have r: "resolved env_probe_fails None = ''wlan0''"
    by (simp add: resolved_def find_linux_wifi_iface_def detect_wifi_iface_def truthy_def bind_def
        return_def run_capture_def env_probe_fails_def nmcli_status_cmd_def splitlines_def
        split_ws_def is_linebreak_def isspace_def)
  have p: "Capture [''iw'', ''dev'', ''wlan0'', ''info'']
      \<in> set (trace (snd (enable_hotspot_linux env_probe_fails (Some False) None None
            (Some ''abcdefgh'') (start [] []))))"
    by (simp add: enable_start enable_nf_def checks_nf_def r Let_def case_prod_beta ap_probe_cmd_def)
       (simp add: env_probe_fails_def text_defs)
  show ?thesis
    using enable_hotspot_linux_probe_failed [OF p, of "''abcdefgh''", THEN conjunct2]
    by (simp add: env_probe_fails_def truthy_def)
qed

text \<open>
  C1, as stated, fails. The enable operation validates the password only after the
  interface query, the table probe, the radio-on command and the mode probe: with the
  five-character password \<^verbatim>\<open>short\<close> on a machine whose interface is not in access-point
  mode it exits with code 1 after having executed those four commands. And when the
  probe reports an access point, the same password does not make the operation fail at
  all: it returns normally without reading the password.
\<close>

theorem enable_hotspot_linux_short_password_counterexample:
  "length ''short'' < 8
   \<and> fst (enable_hotspot_linux env_home (Some False) None None (Some ''short'') (start [] []))
       = Inl (SystemExit 1)
   \<and> executed (trace (snd (enable_hotspot_linux env_home (Some False) None None (Some ''short'')
        (start [] [])))) =
       [Argv [''nmcli'', ''device'', ''status''],
        Argv [''sudo'', ''nft'', ''list'', ''table'', ''inet'', ''sing-box''],
        Argv [''nmcli'', ''radio'', ''wifi'', ''on''],
        Argv [''iw'', ''dev'', ''wlan0'', ''info'']]
   \<and> fst (enable_hotspot_linux env_ap (Some False) None None (Some ''short'') (start [] []))
       = Inr ()"
  by (simp add: enable_start enable_nf_def checks_nf_def resolved_home resolved_ap create_nf_short
      Let_def title_events_def banner_events_def issue_def resolve_cmd_def truthy_def)
     (simp add: env_home_def env_ap_def text_defs)

text \<open>
  C1, amended. For every non-empty password of fewer than 8 characters given by the caller
  (the empty password counts as absent and is asked for), and either execution mode:
  \<^item> the enable operation executes no creation command and no firewall command;
  \<^item> it either exits with code 1 or returns normally right after the message that a
    hotspot is already active on the resolved interface;
  \<^item> when the tools are found, the interface resolves, the required table is present and
    the probe does not report an access point, it exits with code 1 right after the
    message that the password must have at least 8 characters, and by then it has
    executed the interface query, the table probe, the radio-on command (in real
    execution) and the mode probe.
\<close>

theorem enable_hotspot_linux_short_password:
  assumes nonempty: "p \<noteq> []" and short: "length p < 8"
  shows "list_all (\<lambda>c. \<not> is_creation_cmd c \<and> \<not> is_firewall_cmd c)
        (executed (trace (snd (enable_hotspot_linux E (Some d) iface ssid (Some p) (start ins ttys)))))
    \<and> (fst (enable_hotspot_linux E (Some d) iface ssid (Some p) (start ins ttys)) = Inl (SystemExit 1)
        \<or> (\<exists>h. fst (find_linux_wifi_iface E iface s0) = Inr h
              \<and> fst (enable_hotspot_linux E (Some d) iface ssid (Some p) (start ins ttys)) = Inr ()
              \<and> last (trace (snd (enable_hotspot_linux E (Some d) iface ssid (Some p) (start ins ttys))))
                   = Echo (ALREADY_ACTIVE h)))
    \<and> (which E ''nmcli'' \<and> which E ''iw'' \<and> which E ''nft''
        \<and> fst (find_linux_wifi_iface E iface s0) = Inr h \<and> h \<noteq> []
        \<and> returncode (capture_out E [''sudo'', ''nft'', ''list'', ''table'', ''inet'', ''sing-box'']) = 0
        \<and> \<not> (returncode (capture_out E [''iw'', ''dev'', h, ''info'']) = 0
              \<and> contains (stdout (capture_out E [''iw'', ''dev'', h, ''info''])) ''type AP'')
        \<longrightarrow>
        fst (enable_hotspot_linux E (Some d) iface ssid (Some p) (start ins ttys)) = Inl (SystemExit 1)
        \<and> executed (trace (snd (enable_hotspot_linux E (Some d) iface ssid (Some p) (start ins ttys))))
            = [Argv (if truthy iface then [''nmcli'', ''-t'', ''-f'', ''DEVICE,TYPE'', ''device'']
                     else [''nmcli'', ''device'', ''status'']),
               Argv [''sudo'', ''nft'', ''list'', ''table'', ''inet'', ''sing-box'']]
              @ (if d then [] else [Argv [''nmcli'', ''radio'', ''wifi'', ''on'']])
              @ [Argv [''iw'', ''dev'', h, ''info'']]
        \<and> last (trace (snd (enable_hotspot_linux E (Some d) iface ssid (Some p) (start ins ttys))))
            = Echo PASSWORD_TOO_SHORT)"
proof -
  note c = create_nf_short [OF nonempty short]
  have A: "list_all (\<lambda>c. \<not> is_creation_cmd c \<and> \<not> is_firewall_cmd c)
      (executed (fst (snd (enable_nf E (Some d) iface ssid (Some p) ins ttys))))"
    by (simp add: enable_nf_def checks_nf_def c Let_def title_events_def banner_events_def
        issue_def dry_echo_def queries_not_mutating_cmds)
  have B: "fst (enable_nf E (Some d) iface ssid (Some p) ins ttys) = Inl (SystemExit 1)
      \<or> (fst (enable_nf E (Some d) iface ssid (Some p) ins ttys) = Inr ()
          \<and> last (fst (snd (enable_nf E (Some d) iface ssid (Some p) ins ttys)))
               = Echo (ALREADY_ACTIVE (resolved E iface)))"
    by (simp add: enable_nf_def checks_nf_def c Let_def title_events_def banner_events_def)
  have C: "fst (enable_nf E (Some d) iface ssid (Some p) ins ttys) = Inl (SystemExit 1)
      \<and> executed (fst (snd (enable_nf E (Some d) iface ssid (Some p) ins ttys)))
          = [Argv (resolve_cmd iface), Argv table_probe_cmd]
            @ (if d then [] else [Argv radio_on_cmd]) @ [Argv (ap_probe_cmd h)]
      \<and> last (fst (snd (enable_nf E (Some d) iface ssid (Some p) ins ttys))) = Echo PASSWORD_TOO_SHORT"
    if "which E ''nmcli''" "which E ''iw''" "which E ''nft''" "resolved E iface = h" "h \<noteq> []"
      "returncode (capture_out E table_probe_cmd) = 0"
      "\<not> (returncode (capture_out E (ap_probe_cmd h)) = 0
          \<and> contains (stdout (capture_out E (ap_probe_cmd h))) ''type AP'')"
    using that
    by (simp add: enable_nf_def checks_nf_def c Let_def title_events_def banner_events_def
        issue_def dry_echo_def)
  show ?thesis
    unfolding enable_start resolved_eq
  proof (intro conjI impI, goal_cases)
    case 1
    show ?case by (rule A)
  next
    case 2
    show ?case using B by auto
  next
    case 3
    then show ?case using C by (simp add: text_defs)
  next
    case 4
    then show ?case using C by (simp add: text_defs resolve_cmd_def)
  next
    case 5
    then show ?case using C by (simp add: text_defs)
  qed
qed

theorem enable_hotspot_linux_short_password_witness:
  "list_all (\<lambda>c. \<not> is_creation_cmd c \<and> \<not> is_firewall_cmd c)
     (executed (trace (snd (enable_hotspot_linux env_home (Some False) None None (Some ''1234567'')
        (start [] [])))))
   \<and> fst (enable_hotspot_linux env_home (Some False) None None (Some ''1234567'') (start [] []))
       = Inl (SystemExit 1)
   \<and> last (trace (snd (enable_hotspot_linux env_home (Some False) None None (Some ''1234567'')
        (start [] [])))) = Echo PASSWORD_TOO_SHORT"
proof -
  have h: "fst (find_linux_wifi_iface env_home None s0) = Inr ''wlan0''"
    by (simp add: resolved_eq resolved_home)
  show ?thesis
    using enable_hotspot_linux_short_password [where p = "''1234567''" and E = env_home
        and d = False and iface = None and ssid = None and ins = "[]" and ttys = "[]" and h = "''wlan0''"]
    by (simp add: h env_home_simps truthy_def is_creation_cmd_def is_firewall_cmd_def)
qed

text \<open>
  C2, as stated, fails: the probe of the required table does not precede the interface
  resolution. On a machine with a Wi-Fi interface and without the table, the enable
  operation first runs the interface query and reports the interface, and only then
  probes the table and reports that it is missing. On a machine where the table probe
  fails and no Wi-Fi interface is found, the operation stops at the interface: it
  reports that no interface was found and never probes the table.
\<close>

theorem enable_hotspot_linux_missing_table_counterexample:
  "returncode (capture_out env_no_table [''sudo'', ''nft'', ''list'', ''table'', ''inet'', ''sing-box''])
     \<noteq> 0
   \<and> executed (trace (snd (enable_hotspot_linux env_no_table (Some False) None None
        (Some ''abcdefgh'') (start [] [])))) =
       [Argv [''nmcli'', ''device'', ''status''],
        Argv [''sudo'', ''nft'', ''list'', ''table'', ''inet'', ''sing-box'']]
   \<and> echoed (trace (snd (enable_hotspot_linux env_no_table (Some False) None None
        (Some ''abcdefgh'') (start [] [])))) =
       [ENABLE_TITLE, '''', ENABLE_STARTING, WIFI_INTERFACE ''wlan0'', MISSING_TABLE, TUN_MODE_HINT]
   \<and> returncode (capture_out env_nothing [''sudo'', ''nft'', ''list'', ''table'', ''inet'', ''sing-box''])
     \<noteq> 0
   \<and> executed (trace (snd (enable_hotspot_linux env_nothing (Some False) None None
        (Some ''abcdefgh'') (start [] [])))) =
       [Argv [''nmcli'', ''device'', ''status'']]
   \<and> echoed (trace (snd (enable_hotspot_linux env_nothing (Some False) None None
        (Some ''abcdefgh'') (start [] [])))) =
       [ENABLE_TITLE, '''', ENABLE_STARTING, NO_WIFI_IFACE]"
  by (simp add: enable_start enable_nf_def checks_nf_def resolved_no_table resolved_nothing
      env_no_table_simps env_nothing_simps Let_def title_events_def banner_events_def issue_def
      resolve_cmd_def truthy_def text_defs)

text \<open>
  C2, amended. Whenever the probe of the required table returns a non-zero exit code, the
  enable operation (in either execution mode) exits with code 1 and executes no radio-on
  command, no mode probe, no creation command and no firewall command: the commands it
  executes are at most the interface query followed by the table probe. The interface
  resolution comes first: when the three tools are found and the interface resolves, the
  operation runs the interface query, reports the interface, probes the table and stops
  with the message that the table is missing.
\<close>

theorem enable_hotspot_linux_missing_table:
  assumes missing:
    "returncode (capture_out E [''sudo'', ''nft'', ''list'', ''table'', ''inet'', ''sing-box'']) \<noteq> 0"
  shows "fst (enable_hotspot_linux E (Some d) iface ssid password (start ins ttys)) = Inl (SystemExit 1)
    \<and> (executed (trace (snd (enable_hotspot_linux E (Some d) iface ssid password (start ins ttys)))) = []
       \<or> executed (trace (snd (enable_hotspot_linux E (Some d) iface ssid password (start ins ttys))))
            = [Argv (if truthy iface then [''nmcli'', ''-t'', ''-f'', ''DEVICE,TYPE'', ''device'']
                     else [''nmcli'', ''device'', ''status''])]
       \<or> executed (trace (snd (enable_hotspot_linux E (Some d) iface ssid password (start ins ttys))))
            = [Argv (if truthy iface then [''nmcli'', ''-t'', ''-f'', ''DEVICE,TYPE'', ''device'']
                     else [''nmcli'', ''device'', ''status'']),
               Argv [''sudo'', ''nft'', ''list'', ''table'', ''inet'', ''sing-box'']])
    \<and> (which E ''nmcli'' \<and> which E ''iw'' \<and> which E ''nft''
        \<and> fst (find_linux_wifi_iface E iface s0) = Inr h \<and> h \<noteq> []
        \<longrightarrow>
        executed (trace (snd (enable_hotspot_linux E (Some d) iface ssid password (start ins ttys))))
            = [Argv (if truthy iface then [''nmcli'', ''-t'', ''-f'', ''DEVICE,TYPE'', ''device'']
                     else [''nmcli'', ''device'', ''status'']),
               Argv [''sudo'', ''nft'', ''list'', ''table'', ''inet'', ''sing-box'']]
        \<and> echoed (trace (snd (enable_hotspot_linux E (Some d) iface ssid password (start ins ttys))))
            = [ENABLE_TITLE, '''', ENABLE_STARTING] @ (if d then [DRY_RUN_BANNER] else [])
              @ [WIFI_INTERFACE h, MISSING_TABLE, TUN_MODE_HINT])"
proof -
  have m: "returncode (capture_out E table_probe_cmd) \<noteq> 0"
    using missing by (simp add: text_defs)
  show ?thesis
    unfolding enable_start resolved_eq
    using m
    by (simp add: enable_nf_def checks_nf_def Let_def title_events_def banner_events_def
        resolve_cmd_def)
       (simp add: text_defs)
qed

theorem enable_hotspot_linux_missing_table_witness:
  "fst (enable_hotspot_linux env_no_table (Some True) None None None (start [] [])) = Inl (SystemExit 1)
   \<and> executed (trace (snd (enable_hotspot_linux env_no_table (Some True) None None None (start [] []))))
       = [Argv [''nmcli'', ''device'', ''status''],
          Argv [''sudo'', ''nft'', ''list'', ''table'', ''inet'', ''sing-box'']]
   \<and> echoed (trace (snd (enable_hotspot_linux env_no_table (Some True) None None None (start [] []))))
       = [ENABLE_TITLE, '''', ENABLE_STARTING, DRY_RUN_BANNER, WIFI_INTERFACE ''wlan0'',
          MISSING_TABLE, TUN_MODE_HINT]"
proof -
  have h: "fst (find_linux_wifi_iface env_no_table None s0) = Inr ''wlan0''"
    by (simp add: resolved_eq resolved_no_table)
  have m: "returncode (capture_out env_no_table
             [''sudo'', ''nft'', ''list'', ''table'', ''inet'', ''sing-box'']) \<noteq> 0"
    by (simp add: env_no_table_simps)
  show ?thesis
    using enable_hotspot_linux_missing_table [OF m, where d = True and iface = None
        and ssid = None and password = None and ins = "[]" and ttys = "[]" and h = "''wlan0''"]
    by (simp add: h env_no_table_simps truthy_def)
qed

text \<open>
  C7. Interface resolution (\<^verbatim>\<open>find_linux_wifi_iface\<close>).
  \<^item> With a requested name \<open>n\<close>, the result is \<open>n\<close> if the name has no colon, the
    terse device listing ended with exit code 0 and has the line \<^verbatim>\<open>n:wifi\<close>; otherwise
    the result is the empty string. The colon is the field separator of the listing and
    no Linux interface name contains one, so this says: the name resolves to itself if
    and only if the listing reports it with type wifi.
  \<^item> With no requested name (\<^verbatim>\<open>None\<close> or the empty string), the result is the device
    of the first line of the device-status listing whose type column is \<^verbatim>\<open>wifi\<close>, and
    the empty string when the listing failed or has no such line.
  \<^item> In both cases the only thing the resolution does is to capture one listing
    command, a read-only query.
  \<^item> In the enable operation an empty result ends the run with exit code 1 and the
    message for a requested interface that was not found, or for no Wi-Fi interface at
    all; no other command has been executed by then.
  The witness is the scenario of the claim: devices \<^verbatim>\<open>wlan0:wifi\<close> and
  \<^verbatim>\<open>eth0:ethernet\<close>.
\<close>

theorem find_linux_wifi_iface_resolution:
  "(n \<noteq> [] \<longrightarrow>
      fst (find_linux_wifi_iface E (Some n) s)
        = Inr (if CHR '':'' \<notin> set n
                  \<and> returncode (capture_out E [''nmcli'', ''-t'', ''-f'', ''DEVICE,TYPE'', ''device'']) = 0
                  \<and> n @ '':wifi'' \<in> set (splitlines (stdout
                        (capture_out E [''nmcli'', ''-t'', ''-f'', ''DEVICE,TYPE'', ''device''])))
               then n else [])
      \<and> snd (find_linux_wifi_iface E (Some n) s)
          = s\<lparr>trace := trace s @ [Capture [''nmcli'', ''-t'', ''-f'', ''DEVICE,TYPE'', ''device'']]\<rparr>)
   \<and> (\<not> truthy iface \<longrightarrow>
      (if returncode (capture_out E [''nmcli'', ''device'', ''status'']) = 0
          \<and> (\<exists>l\<in>set (splitlines (stdout (capture_out E [''nmcli'', ''device'', ''status'']))).
                wifi_line l)
       then \<exists>pre l post.
              splitlines (stdout (capture_out E [''nmcli'', ''device'', ''status''])) = pre @ l # post
              \<and> (\<forall>x\<in>set pre. \<not> wifi_line x) \<and> wifi_line l
              \<and> fst (find_linux_wifi_iface E iface s) = Inr (device_of l) \<and> device_of l \<noteq> []
       else fst (find_linux_wifi_iface E iface s) = Inr [])
      \<and> snd (find_linux_wifi_iface E iface s)
          = s\<lparr>trace := trace s @ [Capture [''nmcli'', ''device'', ''status'']]\<rparr>)
   \<and> read_only_query [''nmcli'', ''-t'', ''-f'', ''DEVICE,TYPE'', ''device'']
   \<and> read_only_query [''nmcli'', ''device'', ''status'']
   \<and> (which E ''nmcli'' \<and> which E ''iw'' \<and> which E ''nft''
        \<and> fst (find_linux_wifi_iface E iface s0) = Inr []
      \<longrightarrow>
        fst (enable_hotspot_linux E (Some d) iface ssid password (start ins ttys)) = Inl (SystemExit 1)
        \<and> executed (trace (snd (enable_hotspot_linux E (Some d) iface ssid password (start ins ttys))))
            = [Argv (if truthy iface then [''nmcli'', ''-t'', ''-f'', ''DEVICE,TYPE'', ''device'']
                     else [''nmcli'', ''device'', ''status''])]
        \<and> last (trace (snd (enable_hotspot_linux E (Some d) iface ssid password (start ins ttys))))
            = Echo (if truthy iface then IFACE_NOT_FOUND (the iface) else NO_WIFI_IFACE))"
proof -
  let ?list = "capture_out E nmcli_list_cmd"
  let ?status = "capture_out E nmcli_status_cmd"
  have requested: "fst (find_linux_wifi_iface E (Some n) s)
        = Inr (if CHR '':'' \<notin> set n \<and> returncode ?list = 0
                  \<and> n @ '':wifi'' \<in> set (splitlines (stdout ?list)) then n else [])
      \<and> snd (find_linux_wifi_iface E (Some n) s) = s\<lparr>trace := trace s @ [Capture nmcli_list_cmd]\<rparr>"
    if n: "n \<noteq> []"
  proof (cases "CHR '':'' \<notin> set n \<and> returncode ?list = 0
      \<and> n @ '':wifi'' \<in> set (splitlines (stdout ?list))")
    case True
    then have "find_linux_wifi_iface_loop n (splitlines (stdout ?list)) = n"
      using find_loop_resolves by blast
    then show ?thesis
      unfolding if_P [OF True] using True by (simp add: find_requested [OF n] emit_def)
  next
    case False
    have "returncode ?list \<noteq> 0 \<or> find_linux_wifi_iface_loop n (splitlines (stdout ?list)) = []"
      using False n find_loop_cases [of n "splitlines (stdout ?list)"]
        find_loop_listed [of n "splitlines (stdout ?list)"]
        find_loop_no_colon [of n "splitlines (stdout ?list)"]
      by blast
    then show ?thesis
      unfolding if_not_P [OF False] by (auto simp: find_requested [OF n] emit_def)
  qed
  have detected: "(if returncode ?status = 0 \<and> (\<exists>l\<in>set (splitlines (stdout ?status)). wifi_line l)
       then \<exists>pre l post. splitlines (stdout ?status) = pre @ l # post
              \<and> (\<forall>x\<in>set pre. \<not> wifi_line x) \<and> wifi_line l
              \<and> fst (find_linux_wifi_iface E iface s) = Inr (device_of l) \<and> device_of l \<noteq> []
       else fst (find_linux_wifi_iface E iface s) = Inr [])
      \<and> snd (find_linux_wifi_iface E iface s) = s\<lparr>trace := trace s @ [Capture nmcli_status_cmd]\<rparr>"
    if f: "\<not> truthy iface"
  proof (cases "returncode ?status = 0 \<and> (\<exists>l\<in>set (splitlines (stdout ?status)). wifi_line l)")
    case True
    then obtain pre l post where p: "splitlines (stdout ?status) = pre @ l # post"
        "\<forall>x\<in>set pre. \<not> wifi_line x" "wifi_line l"
        "detect_wifi_iface_loop (splitlines (stdout ?status)) = device_of l"
      using detect_loop_first [of "splitlines (stdout ?status)"] by blast
    have "fst (find_linux_wifi_iface E iface s) = Inr (device_of l)"
      using True p(4) by (simp add: find_detected [OF f])
    then have "\<exists>pre l post. splitlines (stdout ?status) = pre @ l # post
        \<and> (\<forall>x\<in>set pre. \<not> wifi_line x) \<and> wifi_line l
        \<and> fst (find_linux_wifi_iface E iface s) = Inr (device_of l) \<and> device_of l \<noteq> []"
      using p wifi_line_device [of l] by blast
    then show ?thesis
      unfolding if_P [OF True] by (simp add: find_detected [OF f] emit_def)
  next
    case False
    then have "returncode ?status \<noteq> 0 \<or> detect_wifi_iface_loop (splitlines (stdout ?status)) = []"
      using detect_loop_none [of "splitlines (stdout ?status)"] by blast
    then have "fst (find_linux_wifi_iface E iface s) = Inr []"
      by (auto simp: find_detected [OF f])
    then show ?thesis
      unfolding if_not_P [OF False] by (simp add: find_detected [OF f] emit_def)
  qed
  have unresolved: "fst (enable_nf E (Some d) iface ssid password ins ttys) = Inl (SystemExit 1)
        \<and> executed (fst (snd (enable_nf E (Some d) iface ssid password ins ttys)))
            = [Argv (resolve_cmd iface)]
        \<and> last (fst (snd (enable_nf E (Some d) iface ssid password ins ttys)))
            = Echo (if truthy iface then IFACE_NOT_FOUND (the iface) else NO_WIFI_IFACE)"
    if "which E ''nmcli''" "which E ''iw''" "which E ''nft''" "resolved E iface = []"
    by (simp add: enable_nf_def checks_nf_unresolved [OF that] title_events_def banner_events_def)
  have queries: "read_only_query nmcli_list_cmd" "read_only_query nmcli_status_cmd"
    by (simp_all add: read_only_query_def)
  show ?thesis
    unfolding enable_start resolved_eq
    using requested detected unresolved queries
    unfolding nmcli_list_cmd_def nmcli_status_cmd_def resolve_cmd_def
    by (intro conjI impI) blast+
qed

theorem find_linux_wifi_iface_resolution_witness:
  "fst (find_linux_wifi_iface env_home (Some ''wlan0'') s0) = Inr ''wlan0''
   \<and> fst (find_linux_wifi_iface env_home (Some ''eth0'') s0) = Inr []
   \<and> fst (enable_hotspot_linux env_home (Some False) (Some ''eth0'') None None (start [] []))
       = Inl (SystemExit 1)
   \<and> last (trace (snd (enable_hotspot_linux env_home (Some False) (Some ''eth0'') None None
        (start [] [])))) = Echo (IFACE_NOT_FOUND ''eth0'')"
proof -
  have l: "capture_out env_home [''nmcli'', ''-t'', ''-f'', ''DEVICE,TYPE'', ''device'']
      = \<lparr>returncode = 0, stdout = ''wlan0:wifi\<newline>eth0:ethernet\<newline>''\<rparr>"
    by (simp add: env_home_def)
  have lines: "splitlines ''wlan0:wifi\<newline>eth0:ethernet\<newline>'' = [''wlan0:wifi'', ''eth0:ethernet'']"
    by (simp add: splitlines_def is_linebreak_def)
  have w: "fst (find_linux_wifi_iface env_home (Some ''wlan0'') s0) = Inr ''wlan0''"
    using find_linux_wifi_iface_resolution [where n = "''wlan0''" and E = env_home and s = s0,
        THEN conjunct1]
    by (simp add: l lines)
  have e: "fst (find_linux_wifi_iface env_home (Some ''eth0'') s0) = Inr []"
    using find_linux_wifi_iface_resolution [where n = "''eth0''" and E = env_home and s = s0,
        THEN conjunct1]
    by (auto simp: l lines)
  show ?thesis
    using find_linux_wifi_iface_resolution [where E = env_home and iface = "Some ''eth0''"
        and d = False and ssid = None and password = None and ins = "[]" and ttys = "[]",
        THEN conjunct2, THEN conjunct2, THEN conjunct2, THEN conjunct2] w e
    by (simp add: env_home_simps truthy_def)
qed

text \<open>
  C6, as stated, fails. The argument parser declares \<^verbatim>\<open>--dry-run\<close> with
  \<^verbatim>\<open>action="store_true"\<close>, so without the flag the operations receive \<^verbatim>\<open>False\<close>, not
  \<^verbatim>\<open>None\<close>, and ask nothing: \<^verbatim>\<open>hotspot enable --password abcdefgh\<close> asks no question,
  leaves the waiting answer \<^verbatim>\<open>y\<close> unread and executes the radio-on command for real;
  \<^verbatim>\<open>hotspot disable\<close> asks no question and executes its three commands. And where the
  question is asked (the interactive menu), the answer \<^verbatim>\<open> Y \<close> selects dry-run mode
  too, not only \<^verbatim>\<open>y\<close>.
\<close>

theorem main_hotspot_linux_no_question_counterexample:
  "asked (trace (snd (main_hotspot_linux env_home args_enable (start [''y''] [])))) = []
   \<and> stdin (snd (main_hotspot_linux env_home args_enable (start [''y''] []))) = [''y'']
   \<and> Run (Argv [''nmcli'', ''radio'', ''wifi'', ''on'']) False
        \<in> set (trace (snd (main_hotspot_linux env_home args_enable (start [''y''] []))))
   \<and> asked (trace (snd (main_hotspot_linux env_home args_disable (start [''y''] [])))) = []
   \<and> executed (trace (snd (main_hotspot_linux env_home args_disable (start [''y''] [])))) =
       [Argv [''nmcli'', ''connection'', ''down'', ''Hotspot''],
        Argv [''nmcli'', ''connection'', ''delete'', ''Hotspot''],
        Shell ''sudo nft delete table ip throne_hotspot 2>/dev/null || true'']
   \<and> asked (trace (snd (main_linux_choice6 env_home (start ['' Y ''] [])))) = [DRY_RUN_PROMPT]
   \<and> executed (trace (snd (main_linux_choice6 env_home (start ['' Y ''] [])))) = []"
proof -
  have y: "lower (strip '' Y '') = ''y''"
    by (simp add: lower_y strip_def isspace_def)
  have e: "Run (Argv [''nmcli'', ''radio'', ''wifi'', ''on'']) False
      \<in> set (trace (snd (enable_hotspot_linux env_home (Some False) None None (Some ''abcdefgh'')
            (start [''y''] []))))"
    by (simp add: enable_start enable_nf_def checks_nf_def resolved_home env_home_simps Let_def
        case_prod_beta issue_def text_defs title_events_def banner_events_def)
  show ?thesis
    using e
    by (simp add: main_hotspot_linux_def main_linux_choice6_def args_enable_def args_disable_def
        enable_start asked_enable_given stdin_enable_given disable_start disable_nf_def
        disable_events_def disable_result_def env_home_simps title_events_def banner_events_def
        issue_def dry_echo_def y
        connection_down_cmd_def connection_delete_cmd_def nft_delete_table_def quote_constants)
qed

text \<open>
  C6, amended.
  \<^item> An enable or disable invocation made through the command line asks no dry-run
    question and reads no answer: the operation runs in the mode the flag gives, which
    is real execution when \<^verbatim>\<open>--dry-run\<close> is absent.
  \<^item> The question is asked when the operation is started from the interactive menu
    (entries 5 and 6), where no mode is given. The run is then the run with the mode
    given as \<open>strip answer = y \<or> strip answer = Y\<close>, with the question inserted after the
    title lines; so the empty answer, the default, selects real execution, and an answer
    selects dry-run mode exactly when it is \<^verbatim>\<open>y\<close> or \<^verbatim>\<open>Y\<close> up to surrounding
    whitespace. At the end of the input the operation ends with \<^verbatim>\<open>EOFError\<close>.
\<close>

theorem dry_run_question:
  "asked (trace (snd (main_hotspot_linux E a (start ins ttys)))) = []
   \<and> stdin (snd (main_hotspot_linux E a (start ins ttys))) = ins
   \<and> (hotspot_command a = Some ''enable'' \<longrightarrow>
        main_hotspot_linux E a
          = enable_hotspot_linux E (Some (arg_dry_run a)) (arg_iface a) (arg_ssid a) (arg_password a))
   \<and> (hotspot_command a = Some ''disable'' \<longrightarrow>
        main_hotspot_linux E a = disable_hotspot_linux E (Some (arg_dry_run a)))
   \<and> fst (main_linux_choice5 E (start (answer # rest) ttys))
        = fst (enable_hotspot_linux E (Some (strip answer = ''y'' \<or> strip answer = ''Y''))
                 None None None (start rest ttys))
   \<and> trace (snd (main_linux_choice5 E (start (answer # rest) ttys)))
        = take 3 (trace (snd (enable_hotspot_linux E (Some (strip answer = ''y'' \<or> strip answer = ''Y''))
                   None None None (start rest ttys))))
          @ Prompt DRY_RUN_PROMPT
          # drop 3 (trace (snd (enable_hotspot_linux E (Some (strip answer = ''y'' \<or> strip answer = ''Y''))
                   None None None (start rest ttys))))
   \<and> fst (main_linux_choice6 E (start (answer # rest) ttys))
        = fst (disable_hotspot_linux E (Some (strip answer = ''y'' \<or> strip answer = ''Y''))
                 (start rest ttys))
   \<and> trace (snd (main_linux_choice6 E (start (answer # rest) ttys)))
        = take 2 (trace (snd (disable_hotspot_linux E (Some (strip answer = ''y'' \<or> strip answer = ''Y''))
                   (start rest ttys))))
          @ Prompt DRY_RUN_PROMPT
          # drop 2 (trace (snd (disable_hotspot_linux E (Some (strip answer = ''y'' \<or> strip answer = ''Y''))
                   (start rest ttys))))
   \<and> fst (main_linux_choice5 E (start [] ttys)) = Inl EOFError
   \<and> fst (main_linux_choice6 E (start [] ttys)) = Inl EOFError
   \<and> strip '''' \<noteq> ''y'' \<and> strip '''' \<noteq> ''Y''"
proof -
  have cli: "asked (trace (snd (main_hotspot_linux E a (start ins ttys)))) = []
      \<and> stdin (snd (main_hotspot_linux E a (start ins ttys))) = ins"
    by (simp add: main_hotspot_linux_def enable_start asked_enable_given stdin_enable_given
        disable_start asked_disable_given stdin_disable_given emit_start)
  have arms: "(hotspot_command a = Some ''enable'' \<longrightarrow>
        main_hotspot_linux E a
          = enable_hotspot_linux E (Some (arg_dry_run a)) (arg_iface a) (arg_ssid a) (arg_password a))
      \<and> (hotspot_command a = Some ''disable'' \<longrightarrow>
        main_hotspot_linux E a = disable_hotspot_linux E (Some (arg_dry_run a)))"
    by (auto simp: main_hotspot_linux_def)
  have menu5: "fst (enable_nf E None None None None (answer # rest) ttys)
        = fst (enable_nf E (Some (strip answer = ''y'' \<or> strip answer = ''Y'')) None None None rest ttys)
      \<and> fst (snd (enable_nf E None None None None (answer # rest) ttys))
        = take 3 (fst (snd (enable_nf E (Some (strip answer = ''y'' \<or> strip answer = ''Y''))
                    None None None rest ttys)))
          @ Prompt DRY_RUN_PROMPT
          # drop 3 (fst (snd (enable_nf E (Some (strip answer = ''y'' \<or> strip answer = ''Y''))
                    None None None rest ttys)))"
    by (simp add: enable_nf_def case_prod_beta title_events_def lower_y)
  have menu6: "fst (disable_nf E None (answer # rest))
        = fst (disable_nf E (Some (strip answer = ''y'' \<or> strip answer = ''Y'')) rest)
      \<and> fst (snd (disable_nf E None (answer # rest)))
        = take 2 (fst (snd (disable_nf E (Some (strip answer = ''y'' \<or> strip answer = ''Y'')) rest)))
          @ Prompt DRY_RUN_PROMPT
          # drop 2 (fst (snd (disable_nf E (Some (strip answer = ''y'' \<or> strip answer = ''Y'')) rest)))"
    by (simp add: disable_nf_def title_events_def lower_y)
  have eof: "fst (enable_nf E None None None None [] ttys) = Inl EOFError"
      "fst (disable_nf E None []) = Inl EOFError"
    by (simp_all add: enable_nf_def disable_nf_def)
  have default: "strip '''' \<noteq> ''y'' \<and> strip '''' \<noteq> ''Y''"
    by (simp add: strip_def)
  show ?thesis
    using cli arms menu5 menu6 eof default
    unfolding main_linux_choice5_def main_linux_choice6_def enable_start disable_start
    by blast
qed

theorem dry_run_question_witness:
  "main_hotspot_linux env_home args_enable
     = enable_hotspot_linux env_home (Some False) None None (Some ''abcdefgh'')
   \<and> main_hotspot_linux env_home args_disable = disable_hotspot_linux env_home (Some False)
   \<and> asked (trace (snd (main_hotspot_linux env_home args_enable (start ['''', ''y''] [])))) = []
   \<and> fst (main_linux_choice6 env_home (start [''''] []))
       = fst (disable_hotspot_linux env_home (Some False) (start [] []))"
  using dry_run_question [where E = env_home and a = args_enable and ins = "['''', ''y'']"
      and ttys = "[]" and answer = "''''" and rest = "[]"]
    dry_run_question [where E = env_home and a = args_disable and ins = "[]"
      and ttys = "[]" and answer = "''''" and rest = "[]"]
  by (simp add: args_enable_def args_disable_def strip_def enable_start asked_enable_given)

text \<open>
  C9, as stated, fails: the dry-run output of the enable operation is not the same for two
  passwords of valid length, because the closing report prints the password in clear
  (\<^verbatim>\<open>Password: abcdefgh\<close>) in dry-run mode as in real execution. And read literally,
  the password can occur in the printed creation command: the password \<^verbatim>\<open>password\<close> is
  a substring of the printed line, which has the word before the mask.
\<close>

theorem enable_hotspot_linux_dry_run_output_counterexample:
  "echoed (trace (snd (enable_hotspot_linux env_home (Some True) None None (Some ''abcdefgh'')
      (start [] []))))
     \<noteq> echoed (trace (snd (enable_hotspot_linux env_home (Some True) None None (Some ''hgfedcba'')
      (start [] []))))
   \<and> ''Password: abcdefgh''
       \<in> set (echoed (trace (snd (enable_hotspot_linux env_home (Some True) None None
            (Some ''abcdefgh'') (start [] [])))))
   \<and> Echo (creation_dry_text ''wlan0'' ''thronetools'')
       \<in> set (trace (snd (enable_hotspot_linux env_home (Some True) None None (Some ''password'')
            (start [] []))))
   \<and> contains (creation_dry_text ''wlan0'' ''thronetools'') ''password''"
proof -
  have k: "8 \<le> length p \<Longrightarrow>
      fst (snd (enable_nf env_home (Some True) None None (Some p) [] [])) =
        [Echo ENABLE_TITLE, Echo [], Echo ENABLE_STARTING, Echo DRY_RUN_BANNER,
         Capture nmcli_status_cmd, Echo (WIFI_INTERFACE ''wlan0''), Capture table_probe_cmd,
         Echo ENABLING_WIFI, dry_echo (Argv radio_on_cmd), Capture (ap_probe_cmd ''wlan0''),
         Echo STARTING_HOTSPOT, Echo (creation_dry_text ''wlan0'' ''thronetools'')]
        @ finish_events True ''wlan0'' ''thronetools'' p" for p
    by (simp add: enable_nf_def checks_nf_def resolved_home env_home_simps create_nf_dry Let_def
        title_events_def banner_events_def issue_def resolve_cmd_def truthy_def
        table_probe_cmd_def ap_probe_cmd_def LINUX_REQUIRED_INET_TABLE_def LINUX_SSID_def)
  have f: "echoed (finish_events True h ss p) =
      SETTING_UP_RULES # map (\<lambda>c. color (ARROW @ '' '' @ cmd_text c) BLUE) (firewall_cmds h)
        @ ['''', HOTSPOT_READY, ''SSID: '' @ ss, ''Password: '' @ p, '''']" for h ss p
    by (simp add: finish_events_def issue_def dry_echo_def firewall_cmds_def)
  have c: "contains (creation_dry_text ''wlan0'' ''thronetools'') ''password''"
    by (simp add: creation_dry_text_def color_def ARROW_def BLUE_def NC_def ESC_def DQ_def)
  show ?thesis
    using c by (simp add: enable_start k f echoed_append dry_echo_def)
qed

text \<open>
  C9, amended. In dry-run mode, for any two passwords of valid length given by the caller
  and the same environment, interface and SSID:
  \<^item> the two runs of the enable operation have the same outcome, and their traces agree
    event by event except for the closing line \<^verbatim>\<open>Password: ...\<close>, which shows each
    password in clear;
  \<^item> the part of the run from the password check on prints the creation command with
    the fixed mask \<^verbatim>\<open>********\<close> in the place of the password: the printed line is built
    from the interface and the SSID only.
\<close>

theorem enable_hotspot_linux_dry_run_password_mask:
  assumes p: "8 \<le> length p" and q: "8 \<le> length q"
  shows "fst (enable_hotspot_linux E (Some True) iface ssid (Some p) (start ins ttys))
      = fst (enable_hotspot_linux E (Some True) iface ssid (Some q) (start ins ttys))
    \<and> list_all2 (same_but_password p q)
        (trace (snd (enable_hotspot_linux E (Some True) iface ssid (Some p) (start ins ttys))))
        (trace (snd (enable_hotspot_linux E (Some True) iface ssid (Some q) (start ins ttys))))
    \<and> trace (snd (enable_hotspot_linux_create E True h ssid (Some p) (start ins ttys))) =
        [Echo STARTING_HOTSPOT,
         Echo (color (ARROW @ '' nmcli dev wifi hotspot ifname '' @ DQ @ h @ DQ @ '' ssid '' @ DQ
                 @ (if truthy ssid then the ssid else ''thronetools'') @ DQ
                 @ '' password '' @ DQ @ ''********'' @ DQ) BLUE),
         Echo SETTING_UP_RULES]
        @ map (\<lambda>c. Echo (color (ARROW @ '' '' @ cmd_text c) BLUE)) (firewall_cmds h)
        @ [Echo '''', Echo HOTSPOT_READY,
           Echo (''SSID: '' @ (if truthy ssid then the ssid else ''thronetools'')),
           Echo (''Password: '' @ p), Echo '''']"
proof -
  have a: "fst (enable_nf E (Some True) iface ssid (Some p) ins ttys)
      = fst (enable_nf E (Some True) iface ssid (Some q) ins ttys)
    \<and> list_all2 (same_but_password p q)
        (fst (snd (enable_nf E (Some True) iface ssid (Some p) ins ttys)))
        (fst (snd (enable_nf E (Some True) iface ssid (Some q) ins ttys)))"
    using same_but_password_checks [OF p q, of E iface ssid ttys]
      same_but_password_append [of p q
        "title_events ENABLE_TITLE @ Echo ENABLE_STARTING # banner_events True"]
    by (simp add: enable_nf_def case_prod_beta)
  have b: "fst (snd (create_nf E True h ssid (Some p) ttys)) =
        [Echo STARTING_HOTSPOT,
         Echo (creation_dry_text h (if truthy ssid then the ssid else LINUX_SSID)),
         Echo SETTING_UP_RULES]
        @ map (\<lambda>c. Echo (color (ARROW @ '' '' @ cmd_text c) BLUE)) (firewall_cmds h)
        @ [Echo '''', Echo HOTSPOT_READY,
           Echo (''SSID: '' @ (if truthy ssid then the ssid else LINUX_SSID)),
           Echo (''Password: '' @ p), Echo '''']"
    by (simp add: create_nf_dry [OF p] finish_events_def issue_def dry_echo_def)
  show ?thesis
    using a b
    by (simp add: enable_start create_start creation_dry_text_def LINUX_SSID_def)
qed

theorem enable_hotspot_linux_dry_run_password_mask_witness:
  "fst (enable_hotspot_linux env_home (Some True) None None (Some ''abcdefgh'') (start [] []))
      = fst (enable_hotspot_linux env_home (Some True) None None (Some ''hgfedcba'') (start [] []))
   \<and> list_all2 (same_but_password ''abcdefgh'' ''hgfedcba'')
        (trace (snd (enable_hotspot_linux env_home (Some True) None None (Some ''abcdefgh'')
           (start [] []))))
        (trace (snd (enable_hotspot_linux env_home (Some True) None None (Some ''hgfedcba'')
           (start [] []))))"
  using enable_hotspot_linux_dry_run_password_mask [where p = "''abcdefgh''" and q = "''hgfedcba''"
      and E = env_home and iface = None and ssid = None and ins = "[]" and ttys = "[]",
      THEN conjunct2, THEN conjunct1]
    enable_hotspot_linux_dry_run_password_mask [where p = "''abcdefgh''" and q = "''hgfedcba''"
      and E = env_home and iface = None and ssid = None and ins = "[]" and ttys = "[]",
      THEN conjunct1]
  by simp

text \<open>
  C4, as stated, fails in its last part: a dry run does not always take the
  success/failure branch of the real run. The hotspot creation command is not executed in
  dry-run mode and is taken to have succeeded. On a machine where every read-only query
  answers as on \<open>env_home\<close> and the network manager refuses to create the hotspot, the real
  run of the Linux enable operation ends with exit status 1 after the message that the
  creation failed, and the dry run, in the same environment and with the same arguments,
  goes on to the firewall commands and returns normally.
\<close>

theorem enable_hotspot_linux_dry_run_branch_counterexample:
  "fst (enable_hotspot_linux env_creation_fails (Some False) None None (Some ''abcdefgh'')
      (start [] [])) = Inl (SystemExit 1)
   \<and> last (trace (snd (enable_hotspot_linux env_creation_fails (Some False) None None
        (Some ''abcdefgh'') (start [] [])))) = Echo CREATION_FAILED
   \<and> fst (enable_hotspot_linux env_creation_fails (Some True) None None (Some ''abcdefgh'')
      (start [] [])) = Inr ()"
  by (simp add: enable_start env_creation_fails_nf)

text \<open>
  C4, amended. For every environment and all arguments, with the execution mode given by
  the caller:
  \<^item> in dry-run mode \<^verbatim>\<open>run_cmd\<close> executes nothing, prints the command line after an arrow
    and returns a result with exit code 0;
  \<^item> a dry run of the Linux or macOS enable or disable operation executes no mutating
    command: its trace holds only output, prompts and read-only queries;
  \<^item> the dry run of the Linux enable operation has the outcome of the real run exactly
    when the real run does not meet a failing hotspot creation command; when it does, the
    real run ends with exit status 1 and the dry run returns normally;
  \<^item> when the real run meets no failing creation command, the trace of the dry run of the
    Linux enable operation is the trace of the real run with the dry-run notice added
    after the third line and every mutating command replaced by the line printed for it
    (for the creation command, the line with the password masked);
  \<^item> a dry run of a disable operation returns normally; so does the real run, with the
    trace of the dry run being its own with the notice added after the second line and
    every command replaced by its printed line, on a machine where the program of the
    first command can be started (\<^verbatim>\<open>nmcli\<close> on Linux; on macOS \<^verbatim>\<open>sudo\<close>, when the
    Internet Sharing descriptor exists);
  \<^item> on a machine where the macOS commands that only the real run starts can be started
    (the airport helper, and \<^verbatim>\<open>sudo\<close> when the Internet Sharing descriptor exists), the
    dry run of the macOS enable operation has the outcome of the real run, and the
    corresponding trace when the real run meets no failing creation command.
\<close>

theorem dry_run_mirrors_real_run:
  "run_cmd E c True shell check s
     = (Inr \<lparr>returncode = 0, stdout = []\<rparr>, emit (Echo (color (ARROW @ '' '' @ cmd_text c) BLUE)) s)
   \<and> filter mutating (trace (snd (enable_hotspot_linux E (Some True) iface ssid password
        (start ins ttys)))) = []
   \<and> filter mutating (trace (snd (disable_hotspot_linux E (Some True) (start ins ttys)))) = []
   \<and> filter mutating (trace (snd (enable_hotspot_macos E (Some True) iface ssid password
        (start ins ttys)))) = []
   \<and> filter mutating (trace (snd (disable_hotspot_macos E (Some True) (start ins ttys)))) = []
   \<and> (fst (enable_hotspot_linux E (Some True) iface ssid password (start ins ttys))
        = fst (enable_hotspot_linux E (Some False) iface ssid password (start ins ttys))
      \<longleftrightarrow> \<not> failed_mutation E (trace (snd (enable_hotspot_linux E (Some False) iface ssid
             password (start ins ttys)))))
   \<and> (failed_mutation E (trace (snd (enable_hotspot_linux E (Some False) iface ssid password
          (start ins ttys))))
      \<longrightarrow> fst (enable_hotspot_linux E (Some False) iface ssid password (start ins ttys))
            = Inl (SystemExit 1)
          \<and> fst (enable_hotspot_linux E (Some True) iface ssid password (start ins ttys))
            = Inr ())
   \<and> (\<not> failed_mutation E (trace (snd (enable_hotspot_linux E (Some False) iface ssid password
          (start ins ttys))))
      \<longrightarrow> trace (snd (enable_hotspot_linux E (Some True) iface ssid password (start ins ttys)))
            = with_banner 3 (map dry_view (trace (snd (enable_hotspot_linux E (Some False) iface
                ssid password (start ins ttys))))))
   \<and> fst (disable_hotspot_linux E (Some True) (start ins ttys)) = Inr ()
   \<and> (which E ''nmcli''
      \<longrightarrow> fst (disable_hotspot_linux E (Some False) (start ins ttys)) = Inr ()
          \<and> trace (snd (disable_hotspot_linux E (Some True) (start ins ttys)))
            = with_banner 2 (map dry_view (trace (snd (disable_hotspot_linux E (Some False)
                (start ins ttys))))))
   \<and> (which E AIRPORT_TOOL \<and> (path_exists E SHARING_PLIST \<longrightarrow> which E ''sudo'')
      \<longrightarrow> fst (enable_hotspot_macos E (Some True) iface ssid password (start ins ttys))
            = fst (enable_hotspot_macos E (Some False) iface ssid password (start ins ttys)))
   \<and> (which E AIRPORT_TOOL \<and> (path_exists E SHARING_PLIST \<longrightarrow> which E ''sudo'')
        \<and> \<not> failed_mutation E (trace (snd (enable_hotspot_macos E (Some False) iface ssid
              password (start ins ttys))))
      \<longrightarrow> trace (snd (enable_hotspot_macos E (Some True) iface ssid password (start ins ttys)))
            = with_banner 3 (map dry_view (trace (snd (enable_hotspot_macos E (Some False) iface
                ssid password (start ins ttys))))))
   \<and> fst (disable_hotspot_macos E (Some True) (start ins ttys)) = Inr ()
   \<and> ((path_exists E SHARING_PLIST \<longrightarrow> which E ''sudo'')
      \<longrightarrow> fst (disable_hotspot_macos E (Some False) (start ins ttys)) = Inr ()
          \<and> trace (snd (disable_hotspot_macos E (Some True) (start ins ttys)))
            = with_banner 2 (map dry_view (trace (snd (disable_hotspot_macos E (Some False)
                (start ins ttys))))))"
proof -
  let ?R = "enable_nf E (Some False) iface ssid password ins ttys"
  let ?D = "enable_nf E (Some True) iface ssid password ins ttys"
  let ?MR = "macos_enable_nf E False iface ssid password ttys"
  let ?MD = "macos_enable_nf E True iface ssid password ttys"
  have a: "run_cmd E c True shell check s
     = (Inr \<lparr>returncode = 0, stdout = []\<rparr>, emit (Echo (color (ARROW @ '' '' @ cmd_text c) BLUE)) s)"
    by (simp add: run_cmd_dry dry_echo_def)
  have b: "failed_mutation E (fst (snd ?R)) \<longrightarrow> fst ?R = Inl (SystemExit 1) \<and> fst ?D = Inr ()"
    using enable_nf_failed [of E iface ssid password ins ttys] by blast
  have c: "\<not> failed_mutation E (fst (snd ?R)) \<longrightarrow> fst ?D = fst ?R"
    using enable_nf_dry_view(1) [of E iface ssid password ins ttys] by blast
  have d: "\<not> failed_mutation E (fst (snd ?R))
      \<longrightarrow> fst (snd ?D) = with_banner 3 (map dry_view (fst (snd ?R)))"
    using enable_nf_dry_view(2) [of E iface ssid password ins ttys] by blast
  have e: "fst ?D = fst ?R \<longleftrightarrow> \<not> failed_mutation E (fst (snd ?R))"
    using b c by auto
  have f: "fst (disable_nf E (Some True) ins) = Inr ()"
    by (simp add: disable_nf_dry_view(1) disable_result_def)
  have g: "which E ''nmcli''
      \<longrightarrow> fst (disable_nf E (Some False) ins) = Inr ()
          \<and> fst (snd (disable_nf E (Some True) ins))
            = with_banner 2 (map dry_view (fst (snd (disable_nf E (Some False) ins))))"
    using disable_nf_dry_view(2) [of E ins]
    by (simp add: disable_nf_dry_view(1) disable_result_def)
  have r: "(path_exists E SHARING_PLIST \<longrightarrow> which E ''sudo'') \<longleftrightarrow> macos_sharing_runs E False"
    by (auto simp: macos_sharing_runs_def)
  have h: "which E AIRPORT_TOOL \<and> (path_exists E SHARING_PLIST \<longrightarrow> which E ''sudo'')
      \<longrightarrow> fst ?MD = fst ?MR"
    using macos_enable_nf_dry_view(1) [of E iface ssid password ttys] r by blast
  have i: "which E AIRPORT_TOOL \<and> (path_exists E SHARING_PLIST \<longrightarrow> which E ''sudo'')
        \<and> \<not> failed_mutation E (fst (snd ?MR))
      \<longrightarrow> fst (snd ?MD) = with_banner 3 (map dry_view (fst (snd ?MR)))"
    using macos_enable_nf_dry_view(2) [of E iface ssid password ttys] r by blast
  have j: "macos_sharing_result E True = Inr ()"
    by (simp add: macos_sharing_result_def macos_sharing_runs_def)
  have k: "(path_exists E SHARING_PLIST \<longrightarrow> which E ''sudo'')
      \<longrightarrow> macos_sharing_result E False = Inr ()
          \<and> macos_disable_events E True
            = with_banner 2 (map dry_view (macos_disable_events E False))"
    using macos_disable_dry_view(1) [of E] r by (simp add: macos_sharing_result_def)
  show ?thesis
    unfolding enable_start disable_start macos_start
    by (intro conjI a b d e f g h i j k mutating_enable_nf disable_nf_dry_view(3)
        macos_enable_nf_dry_view(3) macos_disable_dry_view(2))
qed

theorem dry_run_mirrors_real_run_witness:
  "fst (enable_hotspot_linux env_home (Some True) None None (Some ''abcdefgh'') (start [] []))
     = fst (enable_hotspot_linux env_home (Some False) None None (Some ''abcdefgh'') (start [] []))
   \<and> trace (snd (enable_hotspot_linux env_home (Some True) None None (Some ''abcdefgh'')
        (start [] [])))
     = with_banner 3 (map dry_view (trace (snd (enable_hotspot_linux env_home (Some False) None
         None (Some ''abcdefgh'') (start [] [])))))
   \<and> fst (enable_hotspot_linux env_creation_fails (Some False) None None (Some ''abcdefgh'')
        (start [] [])) = Inl (SystemExit 1)
   \<and> fst (enable_hotspot_linux env_creation_fails (Some True) None None (Some ''abcdefgh'')
        (start [] [])) = Inr ()
   \<and> fst (disable_hotspot_linux env_home (Some False) (start [] [])) = Inr ()
   \<and> trace (snd (disable_hotspot_linux env_home (Some True) (start [] [])))
     = with_banner 2 (map dry_view (trace (snd (disable_hotspot_linux env_home (Some False)
         (start [] [])))))
   \<and> fst (enable_hotspot_macos env_mac (Some True) None None (Some ''abcdefgh'') (start [] []))
     = fst (enable_hotspot_macos env_mac (Some False) None None (Some ''abcdefgh'') (start [] []))
   \<and> trace (snd (enable_hotspot_macos env_mac (Some True) None None (Some ''abcdefgh'')
        (start [] [])))
     = with_banner 3 (map dry_view (trace (snd (enable_hotspot_macos env_mac (Some False) None
         None (Some ''abcdefgh'') (start [] [])))))
   \<and> fst (disable_hotspot_macos env_mac (Some False) (start [] [])) = Inr ()
   \<and> trace (snd (disable_hotspot_macos env_mac (Some True) (start [] [])))
     = with_banner 2 (map dry_view (trace (snd (disable_hotspot_macos env_mac (Some False)
         (start [] [])))))"
proof -
  have h: "\<not> failed_mutation env_home (trace (snd (enable_hotspot_linux env_home (Some False)
      None None (Some ''abcdefgh'') (start [] []))))"
    by (simp add: enable_start enable_nf_clean env_home_creation)
  have f: "failed_mutation env_creation_fails (trace (snd (enable_hotspot_linux
      env_creation_fails (Some False) None None (Some ''abcdefgh'') (start [] []))))"
    by (simp add: enable_start env_creation_fails_nf creation_not_query
        env_creation_fails_simps)
  have m: "\<not> failed_mutation env_mac (trace (snd (enable_hotspot_macos env_mac (Some False)
      None None (Some ''abcdefgh'') (start [] []))))"
    by (simp add: macos_start macos_nf_clean env_mac_creation)
  have w: "which env_home ''nmcli''" "which env_mac AIRPORT_TOOL" "which env_mac ''sudo''"
    by (simp_all add: env_home_def env_mac_def)
  note home = dry_run_mirrors_real_run [where E = env_home and iface = None and ssid = None
      and password = "Some ''abcdefgh''" and ins = "[]" and ttys = "[]"
      and c = "Shell []" and shell = True and check = False and s = "start [] []"]
  note fails = dry_run_mirrors_real_run [where E = env_creation_fails and iface = None
      and ssid = None and password = "Some ''abcdefgh''" and ins = "[]" and ttys = "[]"
      and c = "Shell []" and shell = True and check = False and s = "start [] []"]
  note mac = dry_run_mirrors_real_run [where E = env_mac and iface = None and ssid = None
      and password = "Some ''abcdefgh''" and ins = "[]" and ttys = "[]"
      and c = "Shell []" and shell = True and check = False and s = "start [] []"]
  have a: "fst (enable_hotspot_linux env_home (Some True) None None (Some ''abcdefgh'')
        (start [] []))
      = fst (enable_hotspot_linux env_home (Some False) None None (Some ''abcdefgh'')
          (start [] []))"
    by (insert home h, elim conjE, erule iffD2, assumption)
  have b: "trace (snd (enable_hotspot_linux env_home (Some True) None None (Some ''abcdefgh'')
        (start [] [])))
      = with_banner 3 (map dry_view (trace (snd (enable_hotspot_linux env_home (Some False) None
          None (Some ''abcdefgh'') (start [] [])))))"
    by (insert home h, elim conjE, erule (1) mp)
  have c: "fst (enable_hotspot_linux env_creation_fails (Some False) None None
        (Some ''abcdefgh'') (start [] [])) = Inl (SystemExit 1)
      \<and> fst (enable_hotspot_linux env_creation_fails (Some True) None None (Some ''abcdefgh'')
        (start [] [])) = Inr ()"
    by (insert fails f, elim conjE, erule (1) mp)
  have d: "fst (disable_hotspot_linux env_home (Some False) (start [] [])) = Inr ()
      \<and> trace (snd (disable_hotspot_linux env_home (Some True) (start [] [])))
        = with_banner 2 (map dry_view (trace (snd (disable_hotspot_linux env_home (Some False)
            (start [] [])))))"
    by (insert home w(1), elim conjE, erule (1) mp)
  have s: "path_exists env_mac SHARING_PLIST \<longrightarrow> which env_mac ''sudo''"
    using w(3) by simp
  have e: "fst (enable_hotspot_macos env_mac (Some True) None None (Some ''abcdefgh'')
        (start [] []))
      = fst (enable_hotspot_macos env_mac (Some False) None None (Some ''abcdefgh'')
          (start [] []))"
    by (insert mac, elim conjE, erule mp, rule conjI [OF w(2) s])
  have g: "trace (snd (enable_hotspot_macos env_mac (Some True) None None (Some ''abcdefgh'')
        (start [] [])))
      = with_banner 3 (map dry_view (trace (snd (enable_hotspot_macos env_mac (Some False) None
          None (Some ''abcdefgh'') (start [] [])))))"
    by (insert mac, elim conjE, erule mp, rule conjI [OF w(2) conjI [OF s m]])
  have i: "fst (disable_hotspot_macos env_mac (Some False) (start [] [])) = Inr ()
      \<and> trace (snd (disable_hotspot_macos env_mac (Some True) (start [] [])))
        = with_banner 2 (map dry_view (trace (snd (disable_hotspot_macos env_mac (Some False)
            (start [] [])))))"
    by (insert mac, elim conjE, erule mp, rule s)
  show ?thesis
    by (insert a b c d e g i, elim conjE) (intro conjI, assumption+)
qed

end
